theory Spec2Isabelle
  imports Main "HOL-Library.AList"
begin

section \<open>JavaScript values, strings and the fetch API's data\<close>

text \<open>
  The server is written against the WHATWG fetch API. A JavaScript value that travels
  through the code (a parsed JSON document, a context entry, a thrown value's
  \<^verbatim>\<open>message\<close>) is a \<open>jsval\<close>; an object is its list of own properties in
  insertion order.
\<close>

datatype jsval =
    VUndefined
  | VNull
  | VBool bool
  | VNum int
  | VStr string
  | VArr "jsval list"
  | VObj "(string \<times> jsval) list"

text \<open>
  What a \<^verbatim>\<open>throw\<close> (or a rejected promise) carries. The only observations the code
  makes of a caught value are \<^verbatim>\<open>error instanceof GraphQLError\<close> and
  \<^verbatim>\<open>error.message\<close>, so a thrown value is either an instance of GraphQLError (with the
  value \<^verbatim>\<open>JSON.stringify\<close> renders for it) or any other JavaScript value. An
  \<^verbatim>\<open>Error\<close> object is the object with its \<^verbatim>\<open>message\<close>.
\<close>

datatype thrown =
    GraphQLError jsval
  | Thrown jsval

definition Error :: "string \<Rightarrow> thrown" where
  "Error msg = Thrown (VObj [(''message'', VStr msg)])"

definition TypeError :: "string \<Rightarrow> thrown" where
  "TypeError msg = Thrown (VObj [(''message'', VStr msg)])"

definition RangeError :: "string \<Rightarrow> thrown" where
  "RangeError msg = Thrown (VObj [(''message'', VStr msg)])"

text \<open>
  A body handed to the \<^verbatim>\<open>Response\<close> constructor: \<^verbatim>\<open>null\<close>, a string, or the string
  \<^verbatim>\<open>JSON.stringify(v)\<close>, kept as the value \<open>v\<close> it renders.
\<close>

datatype body = BodyNull | BodyText string | BodyJSON jsval

subsection \<open>Strings\<close>

definition toLowerCase_char :: "char \<Rightarrow> char" where
  "toLowerCase_char c =
     (case map_of (zip ''ABCDEFGHIJKLMNOPQRSTUVWXYZ'' ''abcdefghijklmnopqrstuvwxyz'') c of
        None \<Rightarrow> c | Some d \<Rightarrow> d)"

definition toUpperCase_char :: "char \<Rightarrow> char" where
  "toUpperCase_char c =
     (case map_of (zip ''abcdefghijklmnopqrstuvwxyz'' ''ABCDEFGHIJKLMNOPQRSTUVWXYZ'') c of
        None \<Rightarrow> c | Some d \<Rightarrow> d)"

definition toLowerCase :: "string \<Rightarrow> string" where
  "toLowerCase s = map toLowerCase_char s"

definition toUpperCase :: "string \<Rightarrow> string" where
  "toUpperCase s = map toUpperCase_char s"

text \<open>\<^verbatim>\<open>s.endsWith(suf)\<close>\<close>

definition endsWith :: "string \<Rightarrow> string \<Rightarrow> bool" where
  "endsWith s suf = (length suf \<le> length s \<and> drop (length s - length suf) s = suf)"

text \<open>\<^verbatim>\<open>s.startsWith(pre)\<close>\<close>

definition startsWith :: "string \<Rightarrow> string \<Rightarrow> bool" where
  "startsWith s pre = (take (length pre) s = pre)"

text \<open>\<^verbatim>\<open>s.includes(sub)\<close> on strings: \<open>sub\<close> occurs somewhere in \<open>s\<close>.\<close>

fun includes_str :: "string \<Rightarrow> string \<Rightarrow> bool" where
  "includes_str [] sub = (sub = [])"
| "includes_str (c # cs) sub = (startsWith (c # cs) sub \<or> includes_str cs sub)"

text \<open>
  \<^verbatim>\<open>s.replace(pat, rep)\<close> with a string pattern: the first occurrence only (the
  replacements used here hold no \<^verbatim>\<open>$\<close> pattern).
\<close>

fun replace_first :: "string \<Rightarrow> string \<Rightarrow> string \<Rightarrow> string" where
  "replace_first pat rep [] = (if pat = [] then rep else [])"
| "replace_first pat rep (c # cs) =
     (if startsWith (c # cs) pat then rep @ drop (length pat) (c # cs)
      else c # replace_first pat rep cs)"

text \<open>\<^verbatim>\<open>url.split('?')[0]\<close>: the part before the first question mark.\<close>

definition requestPath_of :: "string \<Rightarrow> string" where
  "requestPath_of u = takeWhile (\<lambda>c. c \<noteq> CHR ''?'') u"

text \<open>\<^verbatim>\<open>xs.join(sep)\<close>\<close>

fun join :: "string \<Rightarrow> string list \<Rightarrow> string" where
  "join sep [] = []"
| "join sep [x] = x"
| "join sep (x # y # ys) = x @ sep @ join sep (y # ys)"

text \<open>Decimal rendering of a natural number, as a template string renders it.\<close>

definition digit_char :: "nat \<Rightarrow> char" where
  "digit_char d = ''0123456789'' ! d"

fun nat_toString :: "nat \<Rightarrow> string" where
  "nat_toString n =
     (if n < 10 then [digit_char n] else nat_toString (n div 10) @ [digit_char (n mod 10)])"

text \<open>Truthiness of a value that is a string or \<^verbatim>\<open>null\<close>/\<^verbatim>\<open>undefined\<close>.\<close>

definition truthy :: "string option \<Rightarrow> bool" where
  "truthy v = (case v of None \<Rightarrow> False | Some s \<Rightarrow> s \<noteq> [])"

subsection \<open>Headers, Request, Response\<close>

text \<open>
  The fetch standard's rules for headers. A header name is a non-empty token. A header
  value is normalised, its leading and trailing HTTP white space (tab, line feed,
  carriage return, space) stripped, and is valid when it then holds no NUL, line feed or
  carriage return. Strings are byte strings here.
\<close>

definition token_chars :: string where
  "token_chars =
     ''!#$%&*+-.^_|~0123456789abcdefghijklmnopqrstuvwxyzABCDEFGHIJKLMNOPQRSTUVWXYZ''
     @ [CHR 0x27, CHR 0x60]"

definition valid_header_name :: "string \<Rightarrow> bool" where
  "valid_header_name name = (name \<noteq> [] \<and> list_all (\<lambda>c. c \<in> set token_chars) name)"

definition is_http_whitespace :: "char \<Rightarrow> bool" where
  "is_http_whitespace c = (c = CHR 0x09 \<or> c = CHR 0x0A \<or> c = CHR 0x0D \<or> c = CHR 0x20)"

definition normalize_value :: "string \<Rightarrow> string" where
  "normalize_value v =
     rev (dropWhile is_http_whitespace (rev (dropWhile is_http_whitespace v)))"

definition valid_header_value :: "string \<Rightarrow> bool" where
  "valid_header_value v = (CHR 0x00 \<notin> set v \<and> CHR 0x0A \<notin> set v \<and> CHR 0x0D \<notin> set v)"

text \<open>
  A \<^verbatim>\<open>Headers\<close> object is a list of name/value pairs; names compare without regard to
  case, \<^verbatim>\<open>get\<close> joins the values of a repeated name with a comma and a space and
  answers \<^verbatim>\<open>null\<close> (\<open>None\<close>) for an absent name.
\<close>

type_synonym Headers = "(string \<times> string) list"

definition Headers_get :: "Headers \<Rightarrow> string \<Rightarrow> string option" where
  "Headers_get hs name =
     (let vs = map snd (filter (\<lambda>kv. toLowerCase (fst kv) = toLowerCase name) hs)
      in if vs = [] then None else Some (join '', '' vs))"

text \<open>
  Setting a header in a header list: the first header of that name gets the value and
  the others of that name are removed, or the header is appended.
\<close>

fun header_list_set :: "string \<Rightarrow> string \<Rightarrow> Headers \<Rightarrow> Headers" where
  "header_list_set name v [] = [(name, v)]"
| "header_list_set name v (kv # hs) =
     (if toLowerCase (fst kv) = toLowerCase name
      then (fst kv, v) # filter (\<lambda>kw. toLowerCase (fst kw) \<noteq> toLowerCase name) hs
      else kv # header_list_set name v hs)"

text \<open>
  \<^verbatim>\<open>headers.set(name, value)\<close>: the value is normalised; an invalid name or value
  throws a TypeError and leaves the headers as they were.
\<close>

definition Headers_set :: "string \<Rightarrow> string \<Rightarrow> Headers \<Rightarrow> thrown + Headers" where
  "Headers_set name v hs =
     (if valid_header_name name \<and> valid_header_value (normalize_value v)
      then Inr (header_list_set name (normalize_value v) hs)
      else Inl (TypeError ''Invalid header''))"

text \<open>
  \<^verbatim>\<open>new Headers(record)\<close>: every own property is appended, in the object's order, its
  value normalised; an invalid name or value throws a TypeError.
\<close>

definition new_Headers :: "(string \<times> string) list \<Rightarrow> thrown + Headers" where
  "new_Headers r =
     (if list_all (\<lambda>kv. valid_header_name (fst kv) \<and> valid_header_value (normalize_value (snd kv))) r
      then Inr (map (\<lambda>kv. (fst kv, normalize_value (snd kv))) r)
      else Inl (TypeError ''Invalid header''))"

text \<open>
  A \<^verbatim>\<open>Request\<close> is made from a URL, a method and a list of headers; its
  \<^verbatim>\<open>headers\<close> property is the \<^verbatim>\<open>Headers\<close> object made of that list. The constructor
  refuses a list with an invalid header, so no request has one; such a list reads here
  as no headers.
\<close>

record Request =
  req_url :: string
  req_method :: string
  req_init_headers :: "(string \<times> string) list"

definition req_headers :: "Request \<Rightarrow> Headers" where
  "req_headers request =
     (case new_Headers (req_init_headers request) of Inl e \<Rightarrow> [] | Inr hs \<Rightarrow> hs)"

record ResponseInit =
  init_status :: "nat option"
  init_statusText :: "string option"
  init_headers :: "(string \<times> string) list option"

record Response =
  res_body :: body
  res_status :: nat
  res_statusText :: string
  res_headers :: Headers

text \<open>
  The characters a status text may not hold (it is a reason phrase: tabs, spaces and
  visible characters), and the statuses that allow no body.
\<close>

definition control_chars :: string where
  "control_chars =
     [CHR 0x00, CHR 0x01, CHR 0x02, CHR 0x03, CHR 0x04, CHR 0x05, CHR 0x06, CHR 0x07,
      CHR 0x08, CHR 0x0A, CHR 0x0B, CHR 0x0C, CHR 0x0D, CHR 0x0E, CHR 0x0F, CHR 0x10,
      CHR 0x11, CHR 0x12, CHR 0x13, CHR 0x14, CHR 0x15, CHR 0x16, CHR 0x17, CHR 0x18,
      CHR 0x19, CHR 0x1A, CHR 0x1B, CHR 0x1C, CHR 0x1D, CHR 0x1E, CHR 0x1F, CHR 0x7F]"

definition valid_statusText :: "string \<Rightarrow> bool" where
  "valid_statusText t = list_all (\<lambda>c. c \<notin> set control_chars) t"

definition null_body_status :: "nat \<Rightarrow> bool" where
  "null_body_status s = (s = 101 \<or> s = 103 \<or> s = 204 \<or> s = 205 \<or> s = 304)"

definition is_null_body :: "body \<Rightarrow> bool" where
  "is_null_body b = (case b of BodyNull \<Rightarrow> True | _ \<Rightarrow> False)"

text \<open>
  \<^verbatim>\<open>new this.fetchAPI.Response(body, init)\<close>, as the fetch standard has it: status 200
  and an empty status text unless \<open>init\<close> gives them; a status outside 200 to 599 throws
  a RangeError; a status text that is no reason phrase, an invalid header of
  \<open>init.headers\<close>, and a body with a status that allows none throw a TypeError. The
  bodies of this model are strings or \<^verbatim>\<open>null\<close>: a string body comes with the content
  type of text, which is appended unless the headers hold a \<^verbatim>\<open>Content-Type\<close>.
\<close>

definition new_Response :: "body \<Rightarrow> ResponseInit \<Rightarrow> thrown + Response" where
  "new_Response b init =
     (let status = (case init_status init of None \<Rightarrow> 200 | Some s \<Rightarrow> s);
          statusText = (case init_statusText init of None \<Rightarrow> [] | Some t \<Rightarrow> t)
      in if status < 200 \<or> 599 < status then Inl (RangeError ''Invalid status'')
         else if \<not> valid_statusText statusText then Inl (TypeError ''Invalid statusText'')
         else (case new_Headers (case init_headers init of None \<Rightarrow> [] | Some r \<Rightarrow> r) of
                 Inl e \<Rightarrow> Inl e
               | Inr headers \<Rightarrow>
                   if \<not> is_null_body b \<and> null_body_status status
                   then Inl (TypeError ''Response with null body status cannot have body'')
                   else Inr \<lparr> res_body = b, res_status = status, res_statusText = statusText,
                              res_headers =
                                (if \<not> is_null_body b \<and> Headers_get headers ''content-type'' = None
                                 then headers @ [(''Content-Type'', ''text/plain;charset=UTF-8'')]
                                 else headers) \<rparr>))"

definition no_init :: ResponseInit where
  "no_init = \<lparr> init_status = None, init_statusText = None, init_headers = None \<rparr>"

text \<open>
  The \<^verbatim>\<open>serverContext\<close> a caller hands to \<^verbatim>\<open>handleRequest\<close> is an object or
  \<^verbatim>\<open>undefined\<close>; an entry of a context object is a JavaScript value or the
  \<^verbatim>\<open>Request\<close>.
\<close>

datatype ctxval = CRequest Request | CValue jsval

type_synonym Context = "string \<rightharpoonup> ctxval"

type_synonym ServerContext = "Context option"

section \<open>Plugin hooks (plugins/types.ts)\<close>

text \<open>
  A hook is caller-supplied code. What the engine can observe of one call is modelled as
  the hook's outcome on its arguments: the calls it made to the capability it was handed
  (\<^verbatim>\<open>endResponse\<close>, \<^verbatim>\<open>setRequestParser\<close>, \<^verbatim>\<open>setParams\<close>) in order, the outbound
  \<^verbatim>\<open>fetch\<close> calls it issued, and whether it returned (and what) or threw. A call of
  \<^verbatim>\<open>endResponse\<close> builds a \<^verbatim>\<open>Response\<close>; when the constructor throws, the call
  sets no response and throws into the hook. A hook that never settles is outside this
  model. An \<^verbatim>\<open>onRequestDone\<close> hook receives the
  \<^verbatim>\<open>Response\<close> object and may change it in place, so it is a function from the response
  it finds to the response it leaves, or a throw.
\<close>

type_synonym OnRequestDoneHook = "Response \<Rightarrow> thrown + Response"

record OnRequestOutcome =
  endResponse_calls :: "(body \<times> ResponseInit) list"
  fetch_calls :: "string list"
  hook_result :: "thrown + OnRequestDoneHook option"

type_synonym OnRequestHook = "Request \<Rightarrow> ServerContext \<Rightarrow> OnRequestOutcome"

type_synonym GraphQLParams = "string \<rightharpoonup> jsval"

type_synonym RequestParser = "Request \<Rightarrow> thrown + GraphQLParams"

record OnRequestParseDoneOutcome =
  setParams_calls :: "GraphQLParams list"
  parseDone_result :: "thrown + unit"

type_synonym OnRequestParseDoneHook = "GraphQLParams \<Rightarrow> OnRequestParseDoneOutcome"

record OnRequestParseOutcome =
  setRequestParser_calls :: "RequestParser list"
  parse_result :: "thrown + OnRequestParseDoneHook option"

type_synonym OnRequestParseHook =
  "ServerContext \<Rightarrow> Request \<Rightarrow> RequestParser \<Rightarrow> OnRequestParseOutcome"

record Plugin =
  onRequest :: "OnRequestHook option"
  onRequestParse :: "OnRequestParseHook option"

text \<open>
  The outcome of a hook that ends with the call \<^verbatim>\<open>endResponse(body, init)\<close>, after
  the given fetches, and returns nothing: when the constructor throws, the hook throws.
\<close>

definition endResponse_last :: "body \<Rightarrow> ResponseInit \<Rightarrow> string list \<Rightarrow> OnRequestOutcome" where
  "endResponse_last b init fetches =
     \<lparr> endResponse_calls = [(b, init)], fetch_calls = fetches,
       hook_result = (case new_Response b init of Inl e \<Rightarrow> Inl e | Inr r \<Rightarrow> Inr None) \<rparr>"

section \<open>The CORS header calculator (plugins/useCORS.ts)\<close>

datatype origin_option = OriginList "string list" | OriginString string

text \<open>
  A number option, by what the code observes of it: whether it is truthy (neither zero
  nor NaN) and what \<^verbatim>\<open>toString()\<close> renders for it.
\<close>

record JSNumber =
  num_truthy :: bool
  num_toString :: string

record CORSFields =
  origin :: "origin_option option"
  methods :: "string list option"
  allowedHeaders :: "string list option"
  exposedHeaders :: "string list option"
  credentials :: "bool option"
  maxAge :: "JSNumber option"

text \<open>\<^verbatim>\<open>CORSOptions\<close> is the object or \<^verbatim>\<open>false\<close> (\<open>None\<close>), whose every property reads \<^verbatim>\<open>undefined\<close>.\<close>

type_synonym CORSOptions = "CORSFields option"

type_synonym CORSOptionsFactory = "Request \<Rightarrow> ServerContext \<Rightarrow> thrown + CORSOptions"

definition no_CORSFields :: CORSFields where
  "no_CORSFields = \<lparr> origin = None, methods = None, allowedHeaders = None,
     exposedHeaders = None, credentials = None, maxAge = None \<rparr>"

definition origin_length :: "origin_option \<Rightarrow> nat" where
  "origin_length og = (case og of OriginList xs \<Rightarrow> length xs | OriginString s \<Rightarrow> length s)"

definition origin_includes :: "origin_option \<Rightarrow> string \<Rightarrow> bool" where
  "origin_includes og x = (case og of OriginList xs \<Rightarrow> x \<in> set xs | OriginString s \<Rightarrow> includes_str s x)"

text \<open>
  \<^verbatim>\<open>corsOptions.origin?.length && !corsOptions.origin.includes(currentOrigin) &&
  !corsOptions.origin.includes('*')\<close>
\<close>

definition origin_denies :: "CORSOptions \<Rightarrow> string \<Rightarrow> bool" where
  "origin_denies corsOptions currentOrigin =
     (case Option.bind corsOptions origin of
        None \<Rightarrow> False
      | Some og \<Rightarrow> origin_length og \<noteq> 0 \<and> \<not> origin_includes og currentOrigin
                   \<and> \<not> origin_includes og ''*'')"

text \<open>\<^verbatim>\<open>xs?.length\<close> as a condition: the list is there and not empty.\<close>

definition has_length :: "string list option \<Rightarrow> bool" where
  "has_length xs = (case xs of None \<Rightarrow> False | Some l \<Rightarrow> l \<noteq> [])"

text \<open>
  \<^verbatim>\<open>getCORSResponseHeaders\<close> fills the object \<^verbatim>\<open>headers\<close> statement by statement;
  each definition below is one of its statements, from the headers so far to the headers
  after it.
\<close>

text \<open>
  \<^verbatim>\<open>headers['Access-Control-Allow-Origin'] = '*'\<close>, narrowed to the request's origin
  when the request has an origin and a \<^verbatim>\<open>cookies\<close> header.
\<close>

definition cors_allow_origin :: "Request \<Rightarrow> (string \<times> string) list" where
  "cors_allow_origin request =
     (let currentOrigin = Headers_get (req_headers request) ''origin'';
          headers = [(''Access-Control-Allow-Origin'', ''*'')]
      in if truthy currentOrigin
         then (let credentialsAsked = Headers_get (req_headers request) ''cookies''
               in if truthy credentialsAsked
                  then AList.update ''Access-Control-Allow-Origin'' (the currentOrigin) headers
                  else headers)
         else headers)"

text \<open>The origin is there, the policy lists origins, and neither it nor the star is listed.\<close>

definition cors_deny_origin ::
  "Request \<Rightarrow> CORSOptions \<Rightarrow> (string \<times> string) list \<Rightarrow> (string \<times> string) list" where
  "cors_deny_origin request corsOptions headers =
     (case Headers_get (req_headers request) ''origin'' of
        None \<Rightarrow> headers
      | Some currentOrigin \<Rightarrow>
          if origin_denies corsOptions currentOrigin
          then AList.update ''Access-Control-Allow-Origin'' ''null'' headers
          else headers)"

text \<open>\<^verbatim>\<open>if (headers['Access-Control-Allow-Origin'] !== '*') headers['Vary'] = 'Origin'\<close>\<close>

definition cors_vary_origin :: "(string \<times> string) list \<Rightarrow> (string \<times> string) list" where
  "cors_vary_origin headers =
     (if map_of headers ''Access-Control-Allow-Origin'' = Some ''*'' then headers
      else AList.update ''Vary'' ''Origin'' headers)"

definition cors_allow_methods ::
  "Request \<Rightarrow> CORSOptions \<Rightarrow> (string \<times> string) list \<Rightarrow> (string \<times> string) list" where
  "cors_allow_methods request corsOptions headers =
     (if has_length (Option.bind corsOptions methods)
      then AList.update ''Access-Control-Allow-Methods''
             (join '', '' (the (Option.bind corsOptions methods))) headers
      else (let requestMethod = Headers_get (req_headers request) ''access-control-request-method''
            in if truthy requestMethod
               then AList.update ''Access-Control-Allow-Methods'' (the requestMethod) headers
               else headers))"

text \<open>
  The allowed headers. In the reflecting branch the source appends to \<^verbatim>\<open>Vary\<close> when it
  holds a value, and then assigns \<^verbatim>\<open>Vary\<close> in the next statement.
\<close>

definition cors_allow_headers ::
  "Request \<Rightarrow> CORSOptions \<Rightarrow> (string \<times> string) list \<Rightarrow> (string \<times> string) list" where
  "cors_allow_headers request corsOptions headers =
     (if has_length (Option.bind corsOptions allowedHeaders)
      then AList.update ''Access-Control-Allow-Headers''
             (join '', '' (the (Option.bind corsOptions allowedHeaders))) headers
      else (let requestHeaders = Headers_get (req_headers request) ''access-control-request-headers''
            in if truthy requestHeaders
               then (let a = AList.update ''Access-Control-Allow-Headers''
                               (the requestHeaders) headers;
                         b = (if truthy (map_of a ''Vary'')
                              then AList.update ''Vary''
                                     (the (map_of a ''Vary'') @ '', Access-Control-Request-Headers'') a
                              else a)
                     in AList.update ''Vary'' ''Access-Control-Request-Headers'' b)
               else headers))"

definition cors_allow_credentials ::
  "CORSOptions \<Rightarrow> (string \<times> string) list \<Rightarrow> (string \<times> string) list" where
  "cors_allow_credentials corsOptions headers =
     (case Option.bind corsOptions credentials of
        Some c \<Rightarrow>
          if c then AList.update ''Access-Control-Allow-Credentials'' ''true'' headers
          else headers
      | None \<Rightarrow>
          if map_of headers ''Access-Control-Allow-Origin'' = Some ''*'' then headers
          else AList.update ''Access-Control-Allow-Credentials'' ''true'' headers)"

definition cors_expose_headers ::
  "CORSOptions \<Rightarrow> (string \<times> string) list \<Rightarrow> (string \<times> string) list" where
  "cors_expose_headers corsOptions headers =
     (case Option.bind corsOptions exposedHeaders of
        Some xs \<Rightarrow> AList.update ''Access-Control-Expose-Headers'' (join '', '' xs) headers
      | None \<Rightarrow> headers)"

definition cors_max_age ::
  "CORSOptions \<Rightarrow> (string \<times> string) list \<Rightarrow> (string \<times> string) list" where
  "cors_max_age corsOptions headers =
     (case Option.bind corsOptions maxAge of
        Some n \<Rightarrow>
          if num_truthy n
          then AList.update ''Access-Control-Max-Age'' (num_toString n) headers
          else headers
      | None \<Rightarrow> headers)"

definition getCORSResponseHeaders ::
  "Request \<Rightarrow> ServerContext \<Rightarrow> CORSOptionsFactory \<Rightarrow> thrown + (string \<times> string) list" where
  "getCORSResponseHeaders request serverContext corsOptionsFactory =
     (case corsOptionsFactory request serverContext of
        Inl e \<Rightarrow> Inl e
      | Inr corsOptions \<Rightarrow>
          Inr (AList.update ''Server'' ''GraphQL Yoga''
                (cors_max_age corsOptions
                  (cors_expose_headers corsOptions
                    (cors_allow_credentials corsOptions
                      (cors_allow_headers request corsOptions
                        (cors_allow_methods request corsOptions
                          (cors_vary_origin
                            (cors_deny_origin request corsOptions
                              (cors_allow_origin request))))))))))"

datatype CORSPluginOptions =
    CORSFactory CORSOptionsFactory
  | CORSObject CORSFields
  | CORSBoolean bool

definition corsOptionsFactory_of :: "CORSPluginOptions option \<Rightarrow> CORSOptionsFactory" where
  "corsOptionsFactory_of options =
     (case options of
        Some (CORSFactory f) \<Rightarrow> f
      | Some (CORSObject corsOptions) \<Rightarrow> (\<lambda>request serverContext. Inr (Some corsOptions))
      | _ \<Rightarrow> (\<lambda>request serverContext. Inr (Some no_CORSFields)))"

text \<open>
  \<^verbatim>\<open>for (const headerName in headers) response.headers.set(headerName, headers[headerName])\<close>
\<close>

fun Headers_set_each :: "(string \<times> string) list \<Rightarrow> Headers \<Rightarrow> thrown + Headers" where
  "Headers_set_each [] hs = Inr hs"
| "Headers_set_each (kv # headers) hs =
     (case Headers_set (fst kv) (snd kv) hs of
        Inl e \<Rightarrow> Inl e
      | Inr hs' \<Rightarrow> Headers_set_each headers hs')"

text \<open>The \<^verbatim>\<open>onRequestDone\<close> hook of useCORS: every computed header is \<^verbatim>\<open>set\<close> on the response.\<close>

definition useCORS_onRequestDone ::
  "CORSOptionsFactory \<Rightarrow> Request \<Rightarrow> ServerContext \<Rightarrow> OnRequestDoneHook" where
  "useCORS_onRequestDone corsOptionsFactory request serverContext response =
     (case getCORSResponseHeaders request serverContext corsOptionsFactory of
        Inl e \<Rightarrow> Inl e
      | Inr headers \<Rightarrow>
          (case Headers_set_each headers (res_headers response) of
             Inl e \<Rightarrow> Inl e
           | Inr hs \<Rightarrow> Inr (response\<lparr> res_headers := hs \<rparr>)))"

definition useCORS_onRequest :: "CORSPluginOptions option \<Rightarrow> OnRequestHook" where
  "useCORS_onRequest options request serverContext =
     (let corsOptionsFactory = corsOptionsFactory_of options in
      if toUpperCase (req_method request) = ''OPTIONS''
      then (case getCORSResponseHeaders request serverContext corsOptionsFactory of
              Inl e \<Rightarrow> \<lparr> endResponse_calls = [], fetch_calls = [], hook_result = Inl e \<rparr>
            | Inr headers \<Rightarrow>
                endResponse_last BodyNull
                  \<lparr> init_status = Some 204, init_statusText = None,
                    init_headers = Some headers \<rparr> [])
      else \<lparr> endResponse_calls = [], fetch_calls = [],
             hook_result = Inr (Some (useCORS_onRequestDone corsOptionsFactory request serverContext)) \<rparr>)"

definition useCORS :: "CORSPluginOptions option \<Rightarrow> Plugin" where
  "useCORS options = \<lparr> onRequest = Some (useCORS_onRequest options), onRequestParse = None \<rparr>"

section \<open>The request lifecycle (server.ts, handleRequest)\<close>

text \<open>
  The engine's calls to its hooks and collaborators are its observable behaviour, so
  \<^verbatim>\<open>handleRequest\<close> returns, next to its result, the list of the calls it made, in
  order. Hooks are named by their position in \<^verbatim>\<open>this.onRequestHooks\<close> and
  \<^verbatim>\<open>this.onRequestParseHooks\<close>; a completion hook is named by the position of the hook
  that returned it, and the parser by the position of the hook that installed it
  (\<open>None\<close> for the initial no-op parser).
\<close>

datatype event =
    EvOnRequest nat
  | EvOnRequestDone nat Response
  | EvOnRequestParse nat
  | EvRequestParser "nat option"
  | EvOnRequestParseDone nat
  | EvGetEnveloped
  | EvProcessRequest

text \<open>
  How the first loop of the \<^verbatim>\<open>try\<close> block ends: a throw, a \<^verbatim>\<open>return\<close>, or
  falling through to the code after it.
\<close>

datatype 'a step = Throw thrown | Return Response | Next 'a

record 'env ProcessRequestArgs =
  pr_request :: Request
  pr_query :: ctxval
  pr_variables :: ctxval
  pr_operationName :: ctxval
  pr_enveloped :: 'env

text \<open>
  What \<^verbatim>\<open>handleRequest\<close> reads of the server instance: the two hook lists the
  constructor collected, and the two collaborators that are not part of these sources,
  \<^verbatim>\<open>this.getEnveloped\<close> (envelop) and \<^verbatim>\<open>processRequest\<close>; \<open>'env\<close> is what
  \<^verbatim>\<open>getEnveloped\<close> returns (execute, validate, subscribe, parse, contextFactory,
  schema).
\<close>

record 'env YogaServer =
  onRequestHooks :: "OnRequestHook list"
  onRequestParseHooks :: "OnRequestParseHook list"
  getEnveloped :: "Context \<Rightarrow> thrown + 'env"
  processRequest :: "'env ProcessRequestArgs \<Rightarrow> thrown + Response"

text \<open>
  \<^verbatim>\<open>for (const onRequestDoneHook of onRequestDoneHooks) await onRequestDoneHook({ response })\<close>
\<close>

fun run_onRequestDoneHooks ::
  "(nat \<times> OnRequestDoneHook) list \<Rightarrow> Response \<Rightarrow> (thrown + Response) \<times> event list" where
  "run_onRequestDoneHooks [] response = (Inr response, [])"
| "run_onRequestDoneHooks (d # ds) response =
     (case snd d response of
        Inl e \<Rightarrow> (Inl e, [EvOnRequestDone (fst d) response])
      | Inr response' \<Rightarrow>
          (let r = run_onRequestDoneHooks ds response'
           in (fst r, EvOnRequestDone (fst d) response # snd r)))"

text \<open>
  \<^verbatim>\<open>endResponse: (body, init) => { response = new this.fetchAPI.Response(body, init) }\<close>:
  the variable \<^verbatim>\<open>response\<close> after a hook returned is unset, or the \<^verbatim>\<open>Response\<close> of
  the last \<^verbatim>\<open>endResponse\<close> call whose construction did not throw.
\<close>

definition built_responses :: "(body \<times> ResponseInit) list \<Rightarrow> Response list" where
  "built_responses calls =
     List.map_filter
       (\<lambda>c. case new_Response (fst c) (snd c) of Inl e \<Rightarrow> None | Inr r \<Rightarrow> Some r) calls"

definition response_of_calls :: "(body \<times> ResponseInit) list \<Rightarrow> Response option" where
  "response_of_calls calls =
     (if built_responses calls = [] then None else Some (last (built_responses calls)))"

fun onRequest_loop ::
  "nat \<Rightarrow> OnRequestHook list \<Rightarrow> Request \<Rightarrow> ServerContext \<Rightarrow> (nat \<times> OnRequestDoneHook) list
     \<Rightarrow> (nat \<times> OnRequestDoneHook) list step \<times> event list" where
  "onRequest_loop i [] request serverContext onRequestDoneHooks = (Next onRequestDoneHooks, [])"
| "onRequest_loop i (onRequestHook # hooks) request serverContext onRequestDoneHooks =
     (let out = onRequestHook request serverContext in
      case hook_result out of
        Inl e \<Rightarrow> (Throw e, [EvOnRequest i])
      | Inr onRequestHookResult \<Rightarrow>
          (let dones = (case onRequestHookResult of
                          None \<Rightarrow> onRequestDoneHooks
                        | Some onRequestDone \<Rightarrow> onRequestDoneHooks @ [(i, onRequestDone)])
           in case response_of_calls (endResponse_calls out) of
                Some response \<Rightarrow>
                  (let r = run_onRequestDoneHooks dones response
                   in (case fst r of Inl e \<Rightarrow> Throw e | Inr response' \<Rightarrow> Return response',
                       EvOnRequest i # snd r))
              | None \<Rightarrow>
                  (let r = onRequest_loop (Suc i) hooks request serverContext dones
                   in (fst r, EvOnRequest i # snd r))))"

text \<open>\<^verbatim>\<open>let requestParser: RequestParser = () => ({})\<close>\<close>

definition default_requestParser :: RequestParser where
  "default_requestParser request = Inr Map.empty"

fun onRequestParse_loop ::
  "nat \<Rightarrow> OnRequestParseHook list \<Rightarrow> ServerContext \<Rightarrow> Request \<Rightarrow> nat option \<times> RequestParser
     \<Rightarrow> (nat \<times> OnRequestParseDoneHook) list
     \<Rightarrow> (thrown + (nat option \<times> RequestParser) \<times> (nat \<times> OnRequestParseDoneHook) list)
          \<times> event list" where
  "onRequestParse_loop i [] serverContext request requestParser onRequestParseDoneList =
     (Inr (requestParser, onRequestParseDoneList), [])"
| "onRequestParse_loop i (onRequestParseHook # hooks) serverContext request requestParser
       onRequestParseDoneList =
     (let out = onRequestParseHook serverContext request (snd requestParser) in
      case parse_result out of
        Inl e \<Rightarrow> (Inl e, [EvOnRequestParse i])
      | Inr onRequestParseResult \<Rightarrow>
          (let parser = (if setRequestParser_calls out = [] then requestParser
                         else (Some i, last (setRequestParser_calls out)));
               dones = (case onRequestParseResult of
                          None \<Rightarrow> onRequestParseDoneList
                        | Some onRequestParseDone \<Rightarrow>
                            onRequestParseDoneList @ [(i, onRequestParseDone)]);
               r = onRequestParse_loop (Suc i) hooks serverContext request parser dones
           in (fst r, EvOnRequestParse i # snd r)))"

fun run_onRequestParseDoneList ::
  "(nat \<times> OnRequestParseDoneHook) list \<Rightarrow> GraphQLParams
     \<Rightarrow> (thrown + GraphQLParams) \<times> event list" where
  "run_onRequestParseDoneList [] params = (Inr params, [])"
| "run_onRequestParseDoneList (d # ds) params =
     (let out = snd d params in
      case parseDone_result out of
        Inl e \<Rightarrow> (Inl e, [EvOnRequestParseDone (fst d)])
      | Inr u \<Rightarrow>
          (let params' = (if setParams_calls out = [] then params else last (setParams_calls out));
               r = run_onRequestParseDoneList ds params'
           in (fst r, EvOnRequestParseDone (fst d) # snd r)))"

text \<open>
  \<^verbatim>\<open>const initialContext = { request, ...params, ...serverContext }\<close>: the spread of
  \<^verbatim>\<open>undefined\<close> adds nothing.
\<close>

definition initialContext_of :: "Request \<Rightarrow> GraphQLParams \<Rightarrow> ServerContext \<Rightarrow> Context" where
  "initialContext_of request params serverContext =
     [''request'' \<mapsto> CRequest request]
       ++ (\<lambda>k. map_option CValue (params k))
       ++ (case serverContext of None \<Rightarrow> Map.empty | Some c \<Rightarrow> c)"

text \<open>Reading a property of the context: \<^verbatim>\<open>undefined\<close> when it has none of that name.\<close>

definition ctx_get :: "Context \<Rightarrow> string \<Rightarrow> ctxval" where
  "ctx_get c k = (case c k of None \<Rightarrow> CValue VUndefined | Some v \<Rightarrow> v)"

definition processRequest_args :: "Request \<Rightarrow> Context \<Rightarrow> 'env \<Rightarrow> 'env ProcessRequestArgs" where
  "processRequest_args request initialContext enveloped =
     \<lparr> pr_request = request,
       pr_query = ctx_get initialContext ''query'',
       pr_variables = ctx_get initialContext ''variables'',
       pr_operationName = ctx_get initialContext ''operationName'',
       pr_enveloped = enveloped \<rparr>"

text \<open>
  The end of the \<^verbatim>\<open>try\<close> block, from \<^verbatim>\<open>const initialContext\<close> on: the context
  is built, the enveloped functions are obtained, the request is processed, and the
  completion hooks of the first phase run on the response.
\<close>

definition handleRequest_execute ::
  "'env YogaServer \<Rightarrow> Request \<Rightarrow> ServerContext \<Rightarrow> (nat \<times> OnRequestDoneHook) list
     \<Rightarrow> GraphQLParams \<Rightarrow> (thrown + Response) \<times> event list" where
  "handleRequest_execute this request serverContext onRequestDoneHooks params =
     (let initialContext = initialContext_of request params serverContext in
      case getEnveloped this initialContext of
        Inl e \<Rightarrow> (Inl e, [EvGetEnveloped])
      | Inr enveloped \<Rightarrow>
         (case processRequest this (processRequest_args request initialContext enveloped) of
            Inl e \<Rightarrow> (Inl e, [EvGetEnveloped, EvProcessRequest])
          | Inr response \<Rightarrow>
             (let r = run_onRequestDoneHooks onRequestDoneHooks response
              in (fst r, [EvGetEnveloped, EvProcessRequest] @ snd r))))"

text \<open>
  The middle of the \<^verbatim>\<open>try\<close> block: the parser is selected, invoked on the request,
  and the parse-done hooks run; then the block goes on as above.
\<close>

definition handleRequest_parse ::
  "'env YogaServer \<Rightarrow> Request \<Rightarrow> ServerContext \<Rightarrow> (nat \<times> OnRequestDoneHook) list
     \<Rightarrow> (thrown + Response) \<times> event list" where
  "handleRequest_parse this request serverContext onRequestDoneHooks =
     (case onRequestParse_loop 0 (onRequestParseHooks this) serverContext request
             (None, default_requestParser) [] of
        (Inl e, t2) \<Rightarrow> (Inl e, t2)
      | (Inr sel, t2) \<Rightarrow>
         (let requestParser = fst sel; onRequestParseDoneList = snd sel in
          case snd requestParser request of
            Inl e \<Rightarrow> (Inl e, t2 @ [EvRequestParser (fst requestParser)])
          | Inr params0 \<Rightarrow>
             (case run_onRequestParseDoneList onRequestParseDoneList params0 of
                (Inl e, t3) \<Rightarrow> (Inl e, t2 @ [EvRequestParser (fst requestParser)] @ t3)
              | (Inr params, t3) \<Rightarrow>
                 (let r = handleRequest_execute this request serverContext
                            onRequestDoneHooks params
                  in (fst r, t2 @ [EvRequestParser (fst requestParser)] @ t3 @ snd r)))))"

text \<open>
  The body of the \<^verbatim>\<open>try\<close> block: \<open>Inl\<close> is a throw that reaches the \<^verbatim>\<open>catch\<close>,
  \<open>Inr\<close> a returned response.
\<close>

definition handleRequest_try ::
  "'env YogaServer \<Rightarrow> Request \<Rightarrow> ServerContext \<Rightarrow> (thrown + Response) \<times> event list" where
  "handleRequest_try this request serverContext =
     (case onRequest_loop 0 (onRequestHooks this) request serverContext [] of
        (Throw e, t1) \<Rightarrow> (Inl e, t1)
      | (Return response, t1) \<Rightarrow> (Inr response, t1)
      | (Next onRequestDoneHooks, t1) \<Rightarrow>
         (let r = handleRequest_parse this request serverContext onRequestDoneHooks
          in (fst r, t1 @ snd r)))"

text \<open>
  \<^verbatim>\<open>error.message\<close>: reading a property of \<^verbatim>\<open>null\<close> or \<^verbatim>\<open>undefined\<close> throws a
  TypeError; a value without the property reads \<^verbatim>\<open>undefined\<close>.
\<close>

definition get_message :: "jsval \<Rightarrow> thrown + jsval" where
  "get_message v =
     (case v of
        VUndefined \<Rightarrow> Inl (TypeError ''Cannot read properties of undefined'')
      | VNull \<Rightarrow> Inl (TypeError ''Cannot read properties of null'')
      | VObj kvs \<Rightarrow> Inr (case map_of kvs ''message'' of None \<Rightarrow> VUndefined | Some m \<Rightarrow> m)
      | _ \<Rightarrow> Inr VUndefined)"

definition error_init :: ResponseInit where
  "error_init = \<lparr> init_status = Some 500, init_statusText = Some ''Internal Server Error'',
                  init_headers = None \<rparr>"

text \<open>
  The \<^verbatim>\<open>catch (error: any)\<close> block; \<open>Inl\<close> is a throw that leaves
  \<^verbatim>\<open>handleRequest\<close>. An instance of GraphQLError is rendered by
  \<^verbatim>\<open>JSON.stringify\<close> as the value it carries here; any other value is read for its
  \<^verbatim>\<open>message\<close>. The response is built by the same constructor.
\<close>

definition handleRequest_catch :: "thrown \<Rightarrow> thrown + Response" where
  "handleRequest_catch error =
     (case error of
        GraphQLError j \<Rightarrow> new_Response (BodyJSON (VObj [(''errors'', VArr [j])])) error_init
      | Thrown v \<Rightarrow>
         (case get_message v of
            Inl e \<Rightarrow> Inl e
          | Inr m \<Rightarrow>
              new_Response
                (BodyJSON (VObj [(''errors'', VArr [VObj [(''message'', m)]])])) error_init))"

definition handleRequest ::
  "'env YogaServer \<Rightarrow> Request \<Rightarrow> ServerContext \<Rightarrow> (thrown + Response) \<times> event list" where
  "handleRequest this request serverContext =
     (case handleRequest_try this request serverContext of
        (Inl e, t) \<Rightarrow> (handleRequest_catch e, t)
      | (Inr response, t) \<Rightarrow> (Inr response, t))"

section \<open>The GraphiQL plugin (plugins/useGraphiQL.ts)\<close>

type_synonym GraphiQLOptions = "(string \<times> jsval) list"

datatype GraphiQLFactoryResult = GraphiQLBoolean bool | GraphiQLObject GraphiQLOptions

type_synonym GraphiQLOptionsFactory = "Request \<Rightarrow> ServerContext \<Rightarrow> thrown + GraphiQLFactoryResult"

datatype GraphiQLOptionsOrFactory =
    GraphiQLOpts GraphiQLOptions
  | GraphiQLFactory GraphiQLOptionsFactory
  | GraphiQLBool bool

type_synonym GraphiQLRenderer = "GraphiQLOptions \<Rightarrow> thrown + body"

record GraphiQLPluginConfig =
  cfg_endpoint :: "string option"
  cfg_options :: "GraphiQLOptionsOrFactory option"
  cfg_render :: "GraphiQLRenderer option"

definition graphiqlOptionsFactory_of :: "GraphiQLOptionsOrFactory option \<Rightarrow> GraphiQLOptionsFactory" where
  "graphiqlOptionsFactory_of options =
     (case options of
        Some (GraphiQLFactory f) \<Rightarrow> f
      | Some (GraphiQLOpts opts) \<Rightarrow> (\<lambda>request serverContext. Inr (GraphiQLObject opts))
      | Some (GraphiQLBool False) \<Rightarrow> (\<lambda>request serverContext. Inr (GraphiQLBoolean False))
      | _ \<Rightarrow> (\<lambda>request serverContext. Inr (GraphiQLObject [])))"

text \<open>
  \<^verbatim>\<open>{ endpoint: config?.endpoint, ...(graphiqlOptions === true ? {} : graphiqlOptions) }\<close>
\<close>

definition renderer_argument :: "string option \<Rightarrow> GraphiQLFactoryResult \<Rightarrow> GraphiQLOptions" where
  "renderer_argument endpoint graphiqlOptions =
     fold (\<lambda>kv acc. AList.update (fst kv) (snd kv) acc)
       (case graphiqlOptions of GraphiQLBoolean b \<Rightarrow> [] | GraphiQLObject opts \<Rightarrow> opts)
       [(''endpoint'', case endpoint of None \<Rightarrow> VUndefined | Some e \<Rightarrow> VStr e)]"

text \<open>
  \<^verbatim>\<open>shouldRenderGraphiQL\<close> and the default renderer come from the module
  \<^verbatim>\<open>../graphiql\<close>, which is not among these sources: they are parameters.
\<close>

definition useGraphiQL_onRequest ::
  "(Request \<Rightarrow> bool) \<Rightarrow> GraphiQLRenderer \<Rightarrow> GraphiQLPluginConfig \<Rightarrow> OnRequestHook" where
  "useGraphiQL_onRequest shouldRenderGraphiQL defaultGraphiQLRenderer config request serverContext =
     (let graphiqlOptionsFactory = graphiqlOptionsFactory_of (cfg_options config);
          renderer = (case cfg_render config of None \<Rightarrow> defaultGraphiQLRenderer | Some r \<Rightarrow> r);
          requestPath = requestPath_of (req_url request);
          nothing = \<lparr> endResponse_calls = [], fetch_calls = [], hook_result = Inr None \<rparr>
      in if (case cfg_endpoint config of None \<Rightarrow> False | Some ep \<Rightarrow> \<not> endsWith requestPath ep)
         then endResponse_last
                (BodyText (''Unable to '' @ req_method request @ '' '' @ requestPath))
                \<lparr> init_status = Some 404, init_statusText = Some ''Not Found'',
                  init_headers = None \<rparr> []
         else if shouldRenderGraphiQL request
         then (case graphiqlOptionsFactory request serverContext of
                 Inl e \<Rightarrow> nothing\<lparr> hook_result := Inl e \<rparr>
               | Inr graphiqlOptions \<Rightarrow>
                   if graphiqlOptions = GraphiQLBoolean False then nothing
                   else (case renderer (renderer_argument (cfg_endpoint config) graphiqlOptions) of
                           Inl e \<Rightarrow> nothing\<lparr> hook_result := Inl e \<rparr>
                         | Inr graphiQLBody \<Rightarrow>
                             endResponse_last graphiQLBody
                               \<lparr> init_status = Some 200, init_statusText = None,
                                 init_headers = Some [(''Content-Type'', ''text/html'')] \<rparr> []))
         else nothing)"

definition useGraphiQL ::
  "(Request \<Rightarrow> bool) \<Rightarrow> GraphiQLRenderer \<Rightarrow> GraphiQLPluginConfig \<Rightarrow> Plugin" where
  "useGraphiQL shouldRenderGraphiQL defaultGraphiQLRenderer config =
     \<lparr> onRequest = Some (useGraphiQL_onRequest shouldRenderGraphiQL defaultGraphiQLRenderer config),
       onRequestParse = None \<rparr>"

section \<open>The health and readiness prober (plugins/useHealthCheck.ts)\<close>

text \<open>
  What the prober reads of the response its outbound \<^verbatim>\<open>fetch\<close> resolves to: the
  status, the headers, and what \<^verbatim>\<open>json()\<close> resolves to. The fetch function is
  documented (types.ts, FetchAPI) as WHATWG compliant: when \<^verbatim>\<open>fetch\<close> or \<^verbatim>\<open>json()\<close>
  rejects, it rejects with an error object (a TypeError, a DOMException, a SyntaxError);
  \<open>Inl msg\<close> is the rejection with an error whose message is \<open>msg\<close>. The
  \<^verbatim>\<open>headers\<close> property of the response is the \<^verbatim>\<open>Headers\<close> object made of the list of
  headers received, as for a request.
\<close>

record FetchResponse =
  fr_status :: nat
  fr_init_headers :: "(string \<times> string) list"
  fr_json :: "string + jsval"

definition fr_headers :: "FetchResponse \<Rightarrow> Headers" where
  "fr_headers r = (case new_Headers (fr_init_headers r) of Inl e \<Rightarrow> [] | Inr hs \<Rightarrow> hs)"

type_synonym Fetch = "string \<Rightarrow> string + FetchResponse"

definition alive_body :: string where
  \<open>alive_body = ''{ "message": "alive" }''\<close>

definition ready_body :: string where
  \<open>ready_body = ''{ "message": "ready" }''\<close>

definition useHealthCheck_onRequest :: "string \<Rightarrow> Fetch \<Rightarrow> OnRequestHook" where
  "useHealthCheck_onRequest yoga_id fetch request serverContext =
     (let requestPath = requestPath_of (req_url request) in
      if endsWith requestPath ''/health''
      then endResponse_last (BodyText alive_body)
             \<lparr> init_status = Some 200, init_statusText = None,
               init_headers = Some [(''Content-Type'', ''application/json''),
                                    (''x-yoga-id'', yoga_id)] \<rparr> []
      else if endsWith requestPath ''/readiness''
      then (let target = replace_first ''/readiness'' ''/health'' (req_url request);
                threw = (\<lambda>e. \<lparr> endResponse_calls = [], fetch_calls = [target],
                               hook_result = Inl e \<rparr>)
            in case fetch target of
                 Inl msg \<Rightarrow> threw (Error msg)
               | Inr readinessResponse \<Rightarrow>
                  (case fr_json readinessResponse of
                     Inl msg \<Rightarrow> threw (Error msg)
                   | Inr j \<Rightarrow>
                      (case get_message j of
                         Inl e \<Rightarrow> threw e
                       | Inr message \<Rightarrow>
                           if fr_status readinessResponse = 200
                              \<and> Headers_get (fr_headers readinessResponse) ''x-yoga-id'' = Some yoga_id
                              \<and> message = VStr ''alive''
                           then endResponse_last (BodyText ready_body)
                                  \<lparr> init_status = Some 200, init_statusText = None,
                                    init_headers =
                                      Some [(''Content-Type'', ''application/json'')] \<rparr>
                                  [target]
                           else threw (Error (''Readiness check failed with status ''
                                                @ nat_toString (fr_status readinessResponse))))))
      else \<lparr> endResponse_calls = [], fetch_calls = [], hook_result = Inr None \<rparr>)"

text \<open>
  \<^verbatim>\<open>const id = options?.id || Date.now().toString()\<close>; \<open>now\<close> is what the clock
  renders when the plugin is made.
\<close>

definition useHealthCheck :: "string option \<Rightarrow> string \<Rightarrow> Fetch \<Rightarrow> Plugin" where
  "useHealthCheck id_option now fetch =
     \<lparr> onRequest =
         Some (useHealthCheck_onRequest (if truthy id_option then the id_option else now) fetch),
       onRequestParse = None \<rparr>"

section \<open>The server's constructor (server.ts)\<close>

record YogaServerOptions =
  opt_cors :: "CORSPluginOptions option"
  opt_endpoint :: "string option"
  opt_graphiql :: "GraphiQLOptionsOrFactory option"
  opt_renderGraphiQL :: "GraphiQLRenderer option"
  opt_multipart :: "bool option"
  opt_id :: "string option"
  opt_plugins :: "Plugin list"

text \<open>
  The modules the constructor and \<^verbatim>\<open>handleRequest\<close> import that are not among these
  sources, as parameters: the fetch implementation and the clock, the GraphiQL module,
  the \<^verbatim>\<open>onRequestParse\<close> hooks of the three request parser plugins, envelop (from the
  plugin list to \<^verbatim>\<open>getEnveloped\<close>) and \<^verbatim>\<open>processRequest\<close>.
\<close>

record 'env Collaborators =
  col_fetch :: Fetch
  col_now :: string
  col_shouldRenderGraphiQL :: "Request \<Rightarrow> bool"
  col_renderGraphiQL :: GraphiQLRenderer
  col_GETRequestParse :: OnRequestParseHook
  col_POSTRequestParse :: OnRequestParseHook
  col_POSTMultipartRequestParse :: OnRequestParseHook
  col_envelop :: "Plugin list \<Rightarrow> Context \<Rightarrow> thrown + 'env"
  col_processRequest :: "'env ProcessRequestArgs \<Rightarrow> thrown + Response"

text \<open>\<^verbatim>\<open>enableIf(condition, plugin)\<close> of envelop: the plugin, or the empty object.\<close>

definition no_hooks :: Plugin where
  "no_hooks = \<lparr> onRequest = None, onRequestParse = None \<rparr>"

definition enableIf :: "bool \<Rightarrow> Plugin \<Rightarrow> Plugin" where
  "enableIf condition plugin = (if condition then plugin else no_hooks)"

text \<open>
  Modelled from the spec: the three request parser plugins (\<^verbatim>\<open>plugins/requestParser\<close>,
  not among these sources) are, in the spec's words, each a candidate
  \<^verbatim>\<open>onRequestParse\<close> plugin; they expose no \<^verbatim>\<open>onRequest\<close> hook.
\<close>

definition requestParser_plugin :: "OnRequestParseHook \<Rightarrow> Plugin" where
  "requestParser_plugin hook = \<lparr> onRequest = None, onRequestParse = Some hook \<rparr>"

text \<open>\<^verbatim>\<open>options?.cors !== false\<close> and \<^verbatim>\<open>options?.graphiql !== false\<close>\<close>

definition cors_not_false :: "CORSPluginOptions option \<Rightarrow> bool" where
  "cors_not_false c = (case c of Some (CORSBoolean b) \<Rightarrow> b | _ \<Rightarrow> True)"

definition graphiql_not_false :: "GraphiQLOptionsOrFactory option \<Rightarrow> bool" where
  "graphiql_not_false g = (case g of Some (GraphiQLBool b) \<Rightarrow> b | _ \<Rightarrow> True)"

text \<open>
  \<^verbatim>\<open>this.plugins\<close>. The envelop plugins at both ends of the list (useSchema,
  useParserCache, useValidationCache, useLogger, useExtendContext, useMaskedErrors) have
  neither an \<^verbatim>\<open>onRequest\<close> nor an \<^verbatim>\<open>onRequestParse\<close> property; each stands here as
  a plugin without hooks.
\<close>

definition YogaServer_plugins :: "YogaServerOptions \<Rightarrow> 'env Collaborators \<Rightarrow> Plugin list" where
  "YogaServer_plugins options col =
     [no_hooks, no_hooks, no_hooks, no_hooks, no_hooks,
      requestParser_plugin (col_GETRequestParse col),
      requestParser_plugin (col_POSTRequestParse col),
      enableIf (opt_multipart options \<noteq> Some False)
        (requestParser_plugin (col_POSTMultipartRequestParse col)),
      enableIf (cors_not_false (opt_cors options)) (useCORS (opt_cors options)),
      enableIf (graphiql_not_false (opt_graphiql options))
        (useGraphiQL (col_shouldRenderGraphiQL col) (col_renderGraphiQL col)
           \<lparr> cfg_endpoint = opt_endpoint options, cfg_options = opt_graphiql options,
             cfg_render = opt_renderGraphiQL options \<rparr>),
      useHealthCheck (Some (case opt_id options of None \<Rightarrow> ''yoga'' | Some i \<Rightarrow> i))
        (col_now col) (col_fetch col)]
     @ opt_plugins options
     @ [no_hooks]"

text \<open>The constructor: the hooks are collected from the plugins, in the plugins' order.\<close>

definition new_YogaServer :: "YogaServerOptions \<Rightarrow> 'env Collaborators \<Rightarrow> 'env YogaServer" where
  "new_YogaServer options col =
     \<lparr> onRequestHooks = List.map_filter onRequest (YogaServer_plugins options col),
       onRequestParseHooks = List.map_filter onRequestParse (YogaServer_plugins options col),
       getEnveloped = col_envelop col (YogaServer_plugins options col),
       processRequest = col_processRequest col \<rparr>"

section \<open>The multipart upload decoder\<close>

text \<open>
  Modelled from the spec: the decoder of multipart request bodies, whose code
  (\<^verbatim>\<open>plugins/requestParser/POSTMultipart\<close>) is not among these sources. The spec,
  section 4.3: the parts are decoded in arrival order, under four limits: the largest
  size of a file part (\<^verbatim>\<open>fileSize\<close>), the largest number of file parts
  (\<^verbatim>\<open>files\<close>), the largest size of a field that is not a file (\<^verbatim>\<open>fieldSize\<close>), and
  the largest cumulative size of the headers of all parts (\<^verbatim>\<open>headerSize\<close>). The
  limits are enforced chunk by chunk. Exceeding a limit aborts the decode at once, with
  a PayloadTooLargeError that names the limit; no partial result is returned.
\<close>

datatype limit_name = FileSize | Files | FieldSize | HeaderSize

datatype decode_error = PayloadTooLargeError limit_name | RequestParseError string

record MultipartLimits =
  fileSize :: nat
  files :: nat
  fieldSize :: nat
  headerSize :: nat

text \<open>A part as it arrives: its header bytes, then its content in chunks.\<close>

record Part =
  part_name :: string
  part_is_file :: bool
  part_header :: string
  part_chunks :: "string list"

text \<open>What the decoder holds between parts.\<close>

record Decoded =
  headers_read :: nat
  files_read :: nat
  dec_fields :: "(string \<times> string) list"
  dec_uploads :: "(string \<times> string) list"

definition nothing_decoded :: Decoded where
  "nothing_decoded = \<lparr> headers_read = 0, files_read = 0, dec_fields = [], dec_uploads = [] \<rparr>"

text \<open>
  Buffering the chunks of one part under a limit: the limit is checked before a chunk
  is added to the buffer.
\<close>

fun read_chunks :: "nat \<Rightarrow> limit_name \<Rightarrow> string list \<Rightarrow> string \<Rightarrow> decode_error + string" where
  "read_chunks lim which [] acc = Inr acc"
| "read_chunks lim which (c # cs) acc =
     (if lim < length acc + length c then Inl (PayloadTooLargeError which)
      else read_chunks lim which cs (acc @ c))"

definition decode_part :: "MultipartLimits \<Rightarrow> Decoded \<Rightarrow> Part \<Rightarrow> decode_error + Decoded" where
  "decode_part limits st p =
     (let hdr = headers_read st + length (part_header p) in
      if headerSize limits < hdr then Inl (PayloadTooLargeError HeaderSize)
      else if part_is_file p
      then (if files limits < Suc (files_read st) then Inl (PayloadTooLargeError Files)
            else (case read_chunks (fileSize limits) FileSize (part_chunks p) [] of
                    Inl e \<Rightarrow> Inl e
                  | Inr content \<Rightarrow>
                      Inr (st\<lparr> headers_read := hdr, files_read := Suc (files_read st),
                              dec_uploads := dec_uploads st @ [(part_name p, content)] \<rparr>)))
      else (case read_chunks (fieldSize limits) FieldSize (part_chunks p) [] of
              Inl e \<Rightarrow> Inl e
            | Inr content \<Rightarrow>
                Inr (st\<lparr> headers_read := hdr,
                        dec_fields := dec_fields st @ [(part_name p, content)] \<rparr>)))"

fun decode_parts :: "MultipartLimits \<Rightarrow> Decoded \<Rightarrow> Part list \<Rightarrow> decode_error + Decoded" where
  "decode_parts limits st [] = Inr st"
| "decode_parts limits st (p # ps) =
     (case decode_part limits st p of
        Inl e \<Rightarrow> Inl e
      | Inr st' \<Rightarrow> decode_parts limits st' ps)"

text \<open>
  The decode of a body: the parts are read under the limits; only when all of them are
  read are the uploads bound into the operations (the binding of the \<^verbatim>\<open>map\<close> paths,
  which may fail with a RequestParseError, is the parameter \<open>bind\<close>).
\<close>

definition decode_multipart ::
  "MultipartLimits \<Rightarrow> ((string \<times> string) list \<Rightarrow> (string \<times> string) list
       \<Rightarrow> decode_error + GraphQLParams)
     \<Rightarrow> Part list \<Rightarrow> decode_error + GraphQLParams" where
  "decode_multipart limits bind parts =
     (case decode_parts limits nothing_decoded parts of
        Inl e \<Rightarrow> Inl e
      | Inr st \<Rightarrow> bind (dec_fields st) (dec_uploads st))"

section \<open>Inputs used in the examples\<close>

text \<open>The policy \<^verbatim>\<open>{ origin: [...] }\<close>, every other option absent.\<close>

definition origin_policy :: "string list \<Rightarrow> CORSPluginOptions option" where
  "origin_policy og = Some (CORSObject (no_CORSFields\<lparr> origin := Some (OriginList og) \<rparr>))"

text \<open>An \<^verbatim>\<open>OPTIONS\<close> request to the GraphQL endpoint with the given headers.\<close>

definition preflight :: "(string \<times> string) list \<Rightarrow> Request" where
  "preflight hs = \<lparr> req_url = ''http://localhost/graphql'', req_method = ''OPTIONS'',
                    req_init_headers = hs \<rparr>"

text \<open>The server made with no options at all.\<close>

definition default_options :: YogaServerOptions where
  "default_options = \<lparr> opt_cors = None, opt_endpoint = None, opt_graphiql = None,
     opt_renderGraphiQL = None, opt_multipart = None, opt_id = None, opt_plugins = [] \<rparr>"

text \<open>
  Collaborators for the examples: a parse hook that installs nothing, a GraphiQL module
  that never renders, an engine that answers every request with the same result.
\<close>

definition idle_parse_hook :: OnRequestParseHook where
  "idle_parse_hook serverContext request requestParser =
     \<lparr> setRequestParser_calls = [], parse_result = Inr None \<rparr>"

definition test_collaborators :: "unit Collaborators" where
  "test_collaborators =
     \<lparr> col_fetch = (\<lambda>u. Inl ''fetch failed''),
       col_now = ''0'',
       col_shouldRenderGraphiQL = (\<lambda>request. False),
       col_renderGraphiQL = (\<lambda>opts. Inr (BodyText ''<html></html>'')),
       col_GETRequestParse = idle_parse_hook,
       col_POSTRequestParse = idle_parse_hook,
       col_POSTMultipartRequestParse = idle_parse_hook,
       col_envelop = (\<lambda>plugins initialContext. Inr ()),
       col_processRequest =
         (\<lambda>args. new_Response (BodyJSON (VObj [(''data'', VNull)])) no_init) \<rparr>"

text \<open>A \<^verbatim>\<open>GET\<close> and an \<^verbatim>\<open>OPTIONS\<close> request without headers.\<close>

definition get_request :: "string \<Rightarrow> Request" where
  "get_request u = \<lparr> req_url = u, req_method = ''GET'', req_init_headers = [] \<rparr>"

definition options_request :: "string \<Rightarrow> Request" where
  "options_request u = \<lparr> req_url = u, req_method = ''OPTIONS'', req_init_headers = [] \<rparr>"

text \<open>
  An \<^verbatim>\<open>onRequest\<close> hook that returns \<^verbatim>\<open>Promise.reject()\<close>: it rejects with
  \<^verbatim>\<open>undefined\<close>.
\<close>

definition rejecting_hook :: OnRequestHook where
  "rejecting_hook request serverContext =
     \<lparr> endResponse_calls = [], fetch_calls = [], hook_result = Inl (Thrown VUndefined) \<rparr>"

text \<open>
  Options that switch the CORS and the GraphiQL plugin off and add the given plugins:
  the \<^verbatim>\<open>onRequest\<close> hooks of such a server are the health check's and then the
  plugins'.
\<close>

definition plain_options :: "Plugin list \<Rightarrow> YogaServerOptions" where
  "plain_options plugins =
     default_options\<lparr> opt_cors := Some (CORSBoolean False),
                      opt_graphiql := Some (GraphiQLBool False),
                      opt_plugins := plugins \<rparr>"

definition onRequest_plugin :: "OnRequestHook \<Rightarrow> Plugin" where
  "onRequest_plugin hook = \<lparr> onRequest = Some hook, onRequestParse = None \<rparr>"






text \<open>
  An \<^verbatim>\<open>onRequestParse\<close> hook that installs the given parser, and the plugin of an
  \<^verbatim>\<open>onRequestParse\<close> hook.
\<close>

definition installing_hook :: "RequestParser \<Rightarrow> OnRequestParseHook" where
  "installing_hook parser serverContext request requestParser =
     \<lparr> setRequestParser_calls = [parser], parse_result = Inr None \<rparr>"

definition onRequestParse_plugin :: "OnRequestParseHook \<Rightarrow> Plugin" where
  "onRequestParse_plugin hook = \<lparr> onRequest = None, onRequestParse = Some hook \<rparr>"

text \<open>A parser that yields the given query, and a parser that throws an error.\<close>

definition query_parser :: "string \<Rightarrow> RequestParser" where
  "query_parser q request = Inr [''query'' \<mapsto> VStr q]"

definition failing_parser :: "string \<Rightarrow> RequestParser" where
  "failing_parser msg request = Inl (Error msg)"

text \<open>
  Collaborators whose engine shows what it was handed: the enveloped functions are made
  for a context and keep its \<^verbatim>\<open>query\<close> entry, and processing a request answers with
  the query it received and the query of that context.
\<close>

definition js_of :: "ctxval \<Rightarrow> jsval" where
  "js_of v = (case v of CValue j \<Rightarrow> j | CRequest r \<Rightarrow> VNull)"

definition echo_collaborators :: "ctxval Collaborators" where
  "echo_collaborators =
     \<lparr> col_fetch = (\<lambda>u. Inl ''fetch failed''),
       col_now = ''0'',
       col_shouldRenderGraphiQL = (\<lambda>request. False),
       col_renderGraphiQL = (\<lambda>opts. Inr (BodyText ''<html></html>'')),
       col_GETRequestParse = idle_parse_hook,
       col_POSTRequestParse = idle_parse_hook,
       col_POSTMultipartRequestParse = idle_parse_hook,
       col_envelop = (\<lambda>plugins initialContext. Inr (ctx_get initialContext ''query'')),
       col_processRequest =
         (\<lambda>args. new_Response
                   (BodyJSON (VObj [(''query'', js_of (pr_query args)),
                                    (''context'', js_of (pr_enveloped args))])) no_init) \<rparr>"

definition echo_response :: "jsval \<Rightarrow> jsval \<Rightarrow> Response" where
  "echo_response q c =
     \<lparr> res_body = BodyJSON (VObj [(''query'', q), (''context'', c)]), res_status = 200,
       res_statusText = [],
       res_headers = [(''Content-Type'', ''text/plain;charset=UTF-8'')] \<rparr>"

text \<open>
  A fetch that reaches a live peer of the given identity, whatever the URL.
\<close>

definition peer_fetch :: "string \<Rightarrow> Fetch" where
  "peer_fetch i u =
     Inr \<lparr> fr_status = 200, fr_init_headers = [(''content-type'', ''application/json''),
                                           (''x-yoga-id'', i)],
           fr_json = Inr (VObj [(''message'', VStr ''alive'')]) \<rparr>"

text \<open>
  A multipart body in three parts: the operations, the map, and a file of five bytes
  that arrives in two chunks; limits that allow files of four bytes; and a binding that
  is never reached.
\<close>

definition upload_parts :: "Part list" where
  "upload_parts =
     [\<lparr> part_name = ''operations'', part_is_file = False, part_header = ''operations'',
        part_chunks = [''{}''] \<rparr>,
      \<lparr> part_name = ''map'', part_is_file = False, part_header = ''map'',
        part_chunks = [''{}''] \<rparr>,
      \<lparr> part_name = ''0'', part_is_file = True, part_header = ''0'',
        part_chunks = [''hel'', ''lo''] \<rparr>]"

definition small_limits :: MultipartLimits where
  "small_limits = \<lparr> fileSize = 4, files = 10, fieldSize = 100, headerSize = 1000 \<rparr>"

definition no_binding ::
  "(string \<times> string) list \<Rightarrow> (string \<times> string) list \<Rightarrow> decode_error + GraphQLParams" where
  "no_binding fs us = Inr Map.empty"

section \<open>Vocabulary of the properties\<close>

text \<open>The names \<^verbatim>\<open>getCORSResponseHeaders\<close> may assign.\<close>

definition cors_header_names :: "string list" where
  "cors_header_names =
     [''Access-Control-Allow-Origin'', ''Vary'', ''Access-Control-Allow-Methods'',
      ''Access-Control-Allow-Headers'', ''Access-Control-Allow-Credentials'',
      ''Access-Control-Expose-Headers'', ''Access-Control-Max-Age'', ''Server'']"

text \<open>An object whose property names are distinct and among the given names.\<close>

definition wf_record :: "string list \<Rightarrow> (string \<times> string) list \<Rightarrow> bool" where
  "wf_record names h = (distinct (map fst h) \<and> fst ` set h \<subseteq> set names)"

text \<open>
  An object every value of which the \<^verbatim>\<open>Headers\<close> constructor and \<^verbatim>\<open>set\<close> accept:
  normalised, it is a valid header value.
\<close>

definition values_valid :: "(string \<times> string) list \<Rightarrow> bool" where
  "values_valid h = list_all (\<lambda>kv. valid_header_value (normalize_value (snd kv))) h"

text \<open>
  The CORS plugin can set its headers for a request: the options factory returns, and
  every header value computed from the options and the request is a valid one.
\<close>

definition cors_stamps :: "CORSOptionsFactory \<Rightarrow> Request \<Rightarrow> ServerContext \<Rightarrow> bool" where
  "cors_stamps f request serverContext =
     (case getCORSResponseHeaders request serverContext f of
        Inl e \<Rightarrow> False
      | Inr h \<Rightarrow> values_valid h)"

text \<open>A call that returned rather than threw.\<close>

definition returns :: "'e + 'a \<Rightarrow> bool" where
  "returns r = (case r of Inl e \<Rightarrow> False | Inr x \<Rightarrow> True)"

text \<open>An \<^verbatim>\<open>onRequest\<close> hook that returns without having called \<^verbatim>\<open>endResponse\<close>.\<close>

definition passes :: "OnRequestHook \<Rightarrow> Request \<Rightarrow> ServerContext \<Rightarrow> bool" where
  "passes g request serverContext =
     (endResponse_calls (g request serverContext) = []
      \<and> returns (hook_result (g request serverContext)))"

text \<open>
  The completion hooks the given \<^verbatim>\<open>onRequest\<close> hooks return on a request, in the
  hooks' order, each with the position of its hook (the first of them at position \<open>i\<close>).
\<close>

fun registered_dones ::
  "nat \<Rightarrow> OnRequestHook list \<Rightarrow> Request \<Rightarrow> ServerContext \<Rightarrow> (nat \<times> OnRequestDoneHook) list" where
  "registered_dones i [] request serverContext = []"
| "registered_dones i (g # gs) request serverContext =
     (case hook_result (g request serverContext) of
        Inr (Some d) \<Rightarrow> [(i, d)]
      | _ \<Rightarrow> [])
     @ registered_dones (Suc i) gs request serverContext"


text \<open>
  The entry of the \<^verbatim>\<open>errors\<close> list the \<^verbatim>\<open>catch\<close> block renders for a caught value:
  the error itself when it is a GraphQLError, and else an object with its message.
\<close>

definition error_entry :: "thrown \<Rightarrow> jsval" where
  "error_entry e =
     (case e of
        GraphQLError j \<Rightarrow> j
      | Thrown v \<Rightarrow> VObj [(''message'', case get_message v of Inl t \<Rightarrow> VUndefined | Inr m \<Rightarrow> m)])"

definition error_response :: "thrown \<Rightarrow> Response" where
  "error_response e =
     \<lparr> res_body = BodyJSON (VObj [(''errors'', VArr [error_entry e])]), res_status = 500,
       res_statusText = ''Internal Server Error'',
       res_headers = [(''Content-Type'', ''text/plain;charset=UTF-8'')] \<rparr>"

text \<open>A thrown value that is \<^verbatim>\<open>null\<close> or \<^verbatim>\<open>undefined\<close>.\<close>

definition nullish :: "thrown \<Rightarrow> bool" where
  "nullish e = (case e of Thrown VNull \<Rightarrow> True | Thrown VUndefined \<Rightarrow> True | _ \<Rightarrow> False)"

text \<open>
  An \<^verbatim>\<open>onRequestParse\<close> hook that, handed the given current parser, returns without
  having called \<^verbatim>\<open>setRequestParser\<close>.
\<close>

definition parse_passes ::
  "OnRequestParseHook \<Rightarrow> ServerContext \<Rightarrow> Request \<Rightarrow> RequestParser \<Rightarrow> bool" where
  "parse_passes g serverContext request current =
     (setRequestParser_calls (g serverContext request current) = []
      \<and> returns (parse_result (g serverContext request current)))"

text \<open>The events that are an invocation of the request parser.\<close>

definition is_parser_event :: "event \<Rightarrow> bool" where
  "is_parser_event ev = (case ev of EvRequestParser tag \<Rightarrow> True | _ \<Rightarrow> False)"

text \<open>
  The events of the early-intercept phase: an \<^verbatim>\<open>onRequest\<close> hook or a completion hook
  was called.
\<close>

definition is_intercept_event :: "event \<Rightarrow> bool" where
  "is_intercept_event ev =
     (case ev of EvOnRequest i \<Rightarrow> True | EvOnRequestDone i r \<Rightarrow> True | _ \<Rightarrow> False)"

text \<open>
  The identity the health check answers with: \<^verbatim>\<open>this.id\<close>, which is
  \<^verbatim>\<open>options?.id ?? 'yoga'\<close>, unless it is the empty string, for which the plugin takes
  the clock's reading.
\<close>

definition server_identity :: "YogaServerOptions \<Rightarrow> 'env Collaborators \<Rightarrow> string" where
  "server_identity options col =
     (case opt_id options of
        None \<Rightarrow> ''yoga''
      | Some i \<Rightarrow> if i = [] then col_now col else i)"

text \<open>
  The position of the health check's hook among the server's \<^verbatim>\<open>onRequest\<close> hooks:
  after the CORS plugin's and the GraphiQL plugin's, where these are enabled. And the
  completion hooks registered before it on a request that is no preflight: the CORS
  plugin's.
\<close>

definition health_position :: "YogaServerOptions \<Rightarrow> nat" where
  "health_position options =
     (if cors_not_false (opt_cors options) then 1 else 0)
     + (if graphiql_not_false (opt_graphiql options) then 1 else 0)"

definition builtin_dones ::
  "YogaServerOptions \<Rightarrow> Request \<Rightarrow> ServerContext \<Rightarrow> (nat \<times> OnRequestDoneHook) list" where
  "builtin_dones options request serverContext =
     (if cors_not_false (opt_cors options)
      then [(0, useCORS_onRequestDone (corsOptionsFactory_of (opt_cors options))
                  request serverContext)]
      else [])"

text \<open>
  The round trip of the readiness probe succeeded: the fetch resolved to a response with
  status 200 whose \<^verbatim>\<open>x-yoga-id\<close> header is the given identity and whose body is JSON
  with the message \<^verbatim>\<open>alive\<close>.
\<close>

definition round_trip_ok :: "string \<Rightarrow> string + FetchResponse \<Rightarrow> bool" where
  "round_trip_ok i result =
     (case result of
        Inl msg \<Rightarrow> False
      | Inr r \<Rightarrow>
          fr_status r = 200
          \<and> Headers_get (fr_headers r) ''x-yoga-id'' = Some i
          \<and> (case fr_json r of Inl msg \<Rightarrow> False | Inr j \<Rightarrow> get_message j = Inr (VStr ''alive'')))"

text \<open>
  A body exceeds a limit: the headers of its parts together are larger than
  \<^verbatim>\<open>headerSize\<close>, it has more file parts than \<^verbatim>\<open>files\<close>, one of its file parts is
  larger than \<^verbatim>\<open>fileSize\<close>, or one of its other fields is larger than
  \<^verbatim>\<open>fieldSize\<close>. The second form counts from what a decoder has read before.
\<close>

definition exceeded_after :: "Decoded \<Rightarrow> MultipartLimits \<Rightarrow> Part list \<Rightarrow> limit_name \<Rightarrow> bool" where
  "exceeded_after st limits parts l =
     (case l of
        HeaderSize \<Rightarrow>
          headerSize limits < headers_read st + sum_list (map (\<lambda>p. length (part_header p)) parts)
      | Files \<Rightarrow> files limits < files_read st + length (filter part_is_file parts)
      | FileSize \<Rightarrow>
          list_ex (\<lambda>p. part_is_file p \<and> fileSize limits < length (concat (part_chunks p))) parts
      | FieldSize \<Rightarrow>
          list_ex (\<lambda>p. \<not> part_is_file p \<and> fieldSize limits < length (concat (part_chunks p)))
            parts)"

definition exceeded :: "MultipartLimits \<Rightarrow> Part list \<Rightarrow> limit_name \<Rightarrow> bool" where
  "exceeded limits parts l =
     (case l of
        HeaderSize \<Rightarrow> headerSize limits < sum_list (map (\<lambda>p. length (part_header p)) parts)
      | Files \<Rightarrow> files limits < length (filter part_is_file parts)
      | FileSize \<Rightarrow>
          list_ex (\<lambda>p. part_is_file p \<and> fileSize limits < length (concat (part_chunks p))) parts
      | FieldSize \<Rightarrow>
          list_ex (\<lambda>p. \<not> part_is_file p \<and> fieldSize limits < length (concat (part_chunks p)))
            parts)"

section \<open>Properties of headers and responses\<close>

lemmas header_defs = req_headers_def new_Headers_def valid_header_name_def token_chars_def
  normalize_value_def is_http_whitespace_def valid_header_value_def

lemmas response_defs = new_Response_def valid_statusText_def control_chars_def
  null_body_status_def is_null_body_def new_Headers_def valid_header_name_def token_chars_def
  normalize_value_def is_http_whitespace_def valid_header_value_def

lemma set_normalize_value: "set (normalize_value v) \<subseteq> set v"
proof -
  have "set (dropWhile is_http_whitespace (rev (dropWhile is_http_whitespace v)))
          \<subseteq> set (rev (dropWhile is_http_whitespace v))"
    by (auto dest: set_dropWhileD)
  also have "\<dots> \<subseteq> set v" by (auto dest: set_dropWhileD)
  finally show ?thesis by (simp add: normalize_value_def)
qed

lemma valid_normalize_value: "valid_header_value v \<Longrightarrow> valid_header_value (normalize_value v)"
  using set_normalize_value [of v] by (auto simp: valid_header_value_def)

lemma valid_join:
  "list_all valid_header_value vs \<Longrightarrow> valid_header_value (join '', '' vs)"
  by (induction "'', ''" vs rule: join.induct) (auto simp: valid_header_value_def)

lemma new_Headers_values:
  "new_Headers r = Inr hs \<Longrightarrow> list_all (\<lambda>kv. valid_header_value (snd kv)) hs"
  by (auto simp: new_Headers_def list_all_iff split: if_splits)

text \<open>The headers of a request hold valid values only, and so does what \<^verbatim>\<open>get\<close> reads of them.\<close>

lemma req_headers_valid: "list_all (\<lambda>kv. valid_header_value (snd kv)) (req_headers request)"
  by (auto simp: req_headers_def new_Headers_values split: sum.splits)

lemma Headers_get_valid:
  "list_all (\<lambda>kv. valid_header_value (snd kv)) hs \<Longrightarrow> Headers_get hs k = Some v \<Longrightarrow>
     valid_header_value v"
  by (auto simp: Headers_get_def Let_def list_all_iff split: if_splits intro!: valid_join)

lemma request_header_valid:
  "Headers_get (req_headers request) k = Some v \<Longrightarrow> valid_header_value (normalize_value v)"
  using Headers_get_valid [OF req_headers_valid] valid_normalize_value by blast

lemma cors_names_valid: "\<forall>n \<in> set cors_header_names. valid_header_name n"
  by (simp add: cors_header_names_def valid_header_name_def token_chars_def)

lemma statusText_error: "valid_statusText ''Internal Server Error''"
  by (simp add: valid_statusText_def control_chars_def)

text \<open>The response the \<^verbatim>\<open>catch\<close> block builds: the constructor accepts it.\<close>

lemma new_Response_error_init:
  "new_Response (BodyJSON j) error_init
     = Inr \<lparr> res_body = BodyJSON j, res_status = 500, res_statusText = ''Internal Server Error'',
             res_headers = [(''Content-Type'', ''text/plain;charset=UTF-8'')] \<rparr>"
  by (simp add: new_Response_def error_init_def statusText_error new_Headers_def
      is_null_body_def null_body_status_def Headers_get_def)

lemma response_of_calls_Nil: "response_of_calls [] = None"
  by (simp add: response_of_calls_def built_responses_def List.map_filter_simps)

lemma response_of_calls_single:
  "response_of_calls [(b, init)] =
     (case new_Response b init of Inl e \<Rightarrow> None | Inr r \<Rightarrow> Some r)"
  by (simp add: response_of_calls_def built_responses_def List.map_filter_simps split: sum.split)

text \<open>A hook that ends with the call of \<^verbatim>\<open>endResponse\<close>: it ended the response, or it threw.\<close>

lemma endResponse_last_simps:
  "endResponse_calls (endResponse_last b init fetches) = [(b, init)]"
  "fetch_calls (endResponse_last b init fetches) = fetches"
  "new_Response b init = Inr r \<Longrightarrow> hook_result (endResponse_last b init fetches) = Inr None"
  "new_Response b init = Inl e \<Longrightarrow> hook_result (endResponse_last b init fetches) = Inl e"
  by (simp_all add: endResponse_last_def)

section \<open>Properties of the CORS header calculator\<close>

lemmas cors_defs = getCORSResponseHeaders_def cors_allow_origin_def cors_deny_origin_def
  cors_vary_origin_def cors_allow_methods_def cors_allow_headers_def cors_allow_credentials_def
  cors_expose_headers_def cors_max_age_def corsOptionsFactory_of_def no_CORSFields_def
  truthy_def origin_denies_def origin_length_def origin_includes_def has_length_def

lemmas lower_defs = Headers_get_def toLowerCase_def toLowerCase_char_def

lemma wf_record_update:
  "wf_record names h \<Longrightarrow> k \<in> set names \<Longrightarrow> wf_record names (AList.update k v h)"
  by (auto simp: wf_record_def distinct_update dom_update)

lemma wf_allow_origin: "wf_record cors_header_names (cors_allow_origin request)"
  by (simp add: cors_allow_origin_def Let_def wf_record_def cors_header_names_def)

lemma wf_deny_origin:
  "wf_record cors_header_names h \<Longrightarrow> wf_record cors_header_names (cors_deny_origin request c h)"
  by (simp add: cors_deny_origin_def wf_record_update cors_header_names_def split: option.split)

lemma wf_vary_origin:
  "wf_record cors_header_names h \<Longrightarrow> wf_record cors_header_names (cors_vary_origin h)"
  by (simp add: cors_vary_origin_def wf_record_update cors_header_names_def)

lemma wf_allow_methods:
  "wf_record cors_header_names h \<Longrightarrow> wf_record cors_header_names (cors_allow_methods request c h)"
  by (simp add: cors_allow_methods_def Let_def wf_record_update cors_header_names_def)

lemma wf_allow_headers:
  "wf_record cors_header_names h \<Longrightarrow> wf_record cors_header_names (cors_allow_headers request c h)"
  by (simp add: cors_allow_headers_def Let_def wf_record_update cors_header_names_def)

lemma wf_allow_credentials:
  "wf_record cors_header_names h \<Longrightarrow> wf_record cors_header_names (cors_allow_credentials c h)"
  by (simp add: cors_allow_credentials_def wf_record_update cors_header_names_def
      split: option.split)

lemma wf_expose_headers:
  "wf_record cors_header_names h \<Longrightarrow> wf_record cors_header_names (cors_expose_headers c h)"
  by (simp add: cors_expose_headers_def wf_record_update cors_header_names_def
      split: option.split)

lemma wf_max_age:
  "wf_record cors_header_names h \<Longrightarrow> wf_record cors_header_names (cors_max_age c h)"
  by (simp add: cors_max_age_def wf_record_update cors_header_names_def split: option.split)

lemma Server_in_names: "''Server'' \<in> set cors_header_names"
  by (simp add: cors_header_names_def)

lemma wf_getCORSResponseHeaders:
  "getCORSResponseHeaders request serverContext f = Inr h \<Longrightarrow> wf_record cors_header_names h"
  unfolding getCORSResponseHeaders_def
  by (auto split: sum.splits
      intro!: wf_record_update wf_max_age wf_expose_headers wf_allow_credentials
        wf_allow_headers wf_allow_methods wf_vary_origin wf_deny_origin wf_allow_origin
        Server_in_names)

text \<open>What each statement leaves untouched.\<close>

lemma map_of_deny_origin:
  "k \<noteq> ''Access-Control-Allow-Origin'' \<Longrightarrow> map_of (cors_deny_origin r c h) k = map_of h k"
  by (simp add: cors_deny_origin_def update_conv' split: option.split)

lemma map_of_vary_origin: "k \<noteq> ''Vary'' \<Longrightarrow> map_of (cors_vary_origin h) k = map_of h k"
  by (simp add: cors_vary_origin_def update_conv')

lemma map_of_allow_methods:
  "k \<noteq> ''Access-Control-Allow-Methods'' \<Longrightarrow> map_of (cors_allow_methods r c h) k = map_of h k"
  by (simp add: cors_allow_methods_def Let_def update_conv')

lemma map_of_allow_headers:
  "k \<noteq> ''Access-Control-Allow-Headers'' \<Longrightarrow> k \<noteq> ''Vary''
     \<Longrightarrow> map_of (cors_allow_headers r c h) k = map_of h k"
  by (simp add: cors_allow_headers_def Let_def update_conv')

lemma map_of_allow_credentials:
  "k \<noteq> ''Access-Control-Allow-Credentials''
     \<Longrightarrow> map_of (cors_allow_credentials c h) k = map_of h k"
  by (simp add: cors_allow_credentials_def update_conv' split: option.split)

lemma map_of_expose_headers:
  "k \<noteq> ''Access-Control-Expose-Headers'' \<Longrightarrow> map_of (cors_expose_headers c h) k = map_of h k"
  by (simp add: cors_expose_headers_def update_conv' split: option.split)

lemma map_of_max_age:
  "k \<noteq> ''Access-Control-Max-Age'' \<Longrightarrow> map_of (cors_max_age c h) k = map_of h k"
  by (simp add: cors_max_age_def update_conv' split: option.split)

lemmas map_of_cors_steps = map_of_deny_origin map_of_vary_origin map_of_allow_methods
  map_of_allow_headers map_of_allow_credentials map_of_expose_headers map_of_max_age update_conv'

lemma allow_origin_of_getCORSResponseHeaders:
  assumes "getCORSResponseHeaders request serverContext f = Inr h"
      and "f request serverContext = Inr corsOptions"
  shows "map_of h ''Access-Control-Allow-Origin'' =
           map_of (cors_deny_origin request corsOptions (cors_allow_origin request))
             ''Access-Control-Allow-Origin''"
  using assms by (auto simp: getCORSResponseHeaders_def map_of_cors_steps)

lemma map_of_allow_headers_Vary:
  "map_of (cors_allow_headers request corsOptions h) ''Vary'' =
     (if \<not> has_length (Option.bind corsOptions allowedHeaders)
          \<and> truthy (Headers_get (req_headers request) ''access-control-request-headers'')
      then Some ''Access-Control-Request-Headers'' else map_of h ''Vary'')"
  by (simp add: cors_allow_headers_def Let_def update_conv')

text \<open>
  The \<^verbatim>\<open>Vary\<close> header of the computed set, for every request and policy: when the
  request's headers are reflected it is \<^verbatim>\<open>Access-Control-Request-Headers\<close> alone;
  otherwise it is \<^verbatim>\<open>Origin\<close> exactly when the resolved allow-origin is not the star.
\<close>

lemma getCORSResponseHeaders_Vary:
  assumes "getCORSResponseHeaders request serverContext f = Inr h"
      and "f request serverContext = Inr corsOptions"
  shows "map_of h ''Vary'' =
       (if \<not> has_length (Option.bind corsOptions allowedHeaders)
            \<and> truthy (Headers_get (req_headers request) ''access-control-request-headers'')
        then Some ''Access-Control-Request-Headers''
        else if map_of h ''Access-Control-Allow-Origin'' = Some ''*'' then None
        else Some ''Origin'')"
proof -
  let ?h3 = "cors_deny_origin request corsOptions (cors_allow_origin request)"
  have a: "map_of h ''Access-Control-Allow-Origin'' = map_of ?h3 ''Access-Control-Allow-Origin''"
    using assms by (rule allow_origin_of_getCORSResponseHeaders)
  have v3: "map_of ?h3 ''Vary'' = None"
    by (simp add: map_of_cors_steps cors_allow_origin_def Let_def)
  have "map_of h ''Vary'' = map_of (cors_allow_headers request corsOptions
           (cors_allow_methods request corsOptions (cors_vary_origin ?h3))) ''Vary''"
    using assms by (auto simp: getCORSResponseHeaders_def map_of_cors_steps)
  also have "\<dots> = (if \<not> has_length (Option.bind corsOptions allowedHeaders)
            \<and> truthy (Headers_get (req_headers request) ''access-control-request-headers'')
        then Some ''Access-Control-Request-Headers''
        else map_of (cors_vary_origin ?h3) ''Vary'')"
    by (simp add: map_of_allow_headers_Vary map_of_cors_steps)
  also have "map_of (cors_vary_origin ?h3) ''Vary'' =
      (if map_of ?h3 ''Access-Control-Allow-Origin'' = Some ''*'' then None else Some ''Origin'')"
    using v3 by (simp add: cors_vary_origin_def update_conv')
  finally show ?thesis using a by simp
qed

text \<open>
  C5. The claim: whenever the resolved \<^verbatim>\<open>Access-Control-Allow-Origin\<close> is not the star,
  the computed headers hold a \<^verbatim>\<open>Vary\<close> header that includes \<^verbatim>\<open>Origin\<close>, also when the
  request's \<^verbatim>\<open>Access-Control-Request-Headers\<close> are reflected. The code at such an
  input: the request carries \<^verbatim>\<open>Origin: http://a.test\<close> and
  \<^verbatim>\<open>Access-Control-Request-Headers: X-Foo\<close>, the policy lists only
  \<^verbatim>\<open>http://b.test\<close> and declares no allowed headers. The allow-origin resolves to
  \<^verbatim>\<open>null\<close>, and \<^verbatim>\<open>Vary\<close> is \<^verbatim>\<open>Access-Control-Request-Headers\<close>, without \<^verbatim>\<open>Origin\<close>:
  the statement after the append assigns it anew.
\<close>

theorem getCORSResponseHeaders_Vary_overwritten:
  "getCORSResponseHeaders
     (preflight [(''Origin'', ''http://a.test''), (''Access-Control-Request-Headers'', ''X-Foo'')])
     None (corsOptionsFactory_of (origin_policy [''http://b.test'']))
   = Inr [(''Access-Control-Allow-Origin'', ''null''),
          (''Vary'', ''Access-Control-Request-Headers''),
          (''Access-Control-Allow-Headers'', ''X-Foo''),
          (''Access-Control-Allow-Credentials'', ''true''),
          (''Server'', ''GraphQL Yoga'')]"
  by (simp add: cors_defs lower_defs header_defs preflight_def origin_policy_def)

subsection \<open>The preflight answer\<close>

lemma filter_lower_empty:
  "\<forall>k' \<in> fst ` set h. toLowerCase k' \<noteq> toLowerCase k \<Longrightarrow>
     filter (\<lambda>kv. toLowerCase (fst kv) = toLowerCase k) h = []"
  by (induction h) auto

text \<open>
  On an object whose names are distinct, also without regard to case, \<^verbatim>\<open>get\<close> on the
  \<^verbatim>\<open>Headers\<close> made of it reads the property.
\<close>

lemma Headers_get_map_of:
  assumes "distinct (map fst h)"
      and "\<forall>k' \<in> fst ` set h. toLowerCase k' = toLowerCase k \<longrightarrow> k' = k"
  shows "Headers_get h k = map_of h k"
proof -
  have "map snd (filter (\<lambda>kv. toLowerCase (fst kv) = toLowerCase k) h)
          = (case map_of h k of None \<Rightarrow> [] | Some v \<Rightarrow> [v])"
    using assms
  proof (induction h)
    case Nil
    then show ?case by simp
  next
    case (Cons a h)
    show ?case
    proof (cases "fst a = k")
      case True
      with Cons.prems have "\<forall>k' \<in> fst ` set h. toLowerCase k' \<noteq> toLowerCase k"
        by (metis distinct.simps(2) image_eqI insert_iff list.set(2) list.simps(9) set_map fst_conv)
      then have "filter (\<lambda>kv. toLowerCase (fst kv) = toLowerCase k) h = []"
        by (rule filter_lower_empty)
      with True show ?thesis by (cases a) simp
    next
      case False
      with Cons.prems have ne: "toLowerCase (fst a) \<noteq> toLowerCase k" by auto
      from Cons.prems have "map snd (filter (\<lambda>kv. toLowerCase (fst kv) = toLowerCase k) h)
          = (case map_of h k of None \<Rightarrow> [] | Some v \<Rightarrow> [v])"
        by (intro Cons.IH) auto
      with False ne show ?thesis by (cases a) auto
    qed
  qed
  then show ?thesis by (simp add: Headers_get_def split: option.split)
qed

lemma lower_allow_origin_unique:
  "\<forall>k' \<in> set cors_header_names.
     toLowerCase k' = toLowerCase ''Access-Control-Allow-Origin''
       \<longrightarrow> k' = ''Access-Control-Allow-Origin''"
  by (simp add: cors_header_names_def toLowerCase_def toLowerCase_char_def)

text \<open>The resolved allow-origin, for every request and policy.\<close>

lemma allow_origin_value:
  "map_of (cors_deny_origin request corsOptions (cors_allow_origin request))
       ''Access-Control-Allow-Origin''
    = Some (case Headers_get (req_headers request) ''origin'' of
              None \<Rightarrow> ''*''
            | Some co \<Rightarrow>
                if origin_denies corsOptions co then ''null''
                else if co \<noteq> [] \<and> truthy (Headers_get (req_headers request) ''cookies'')
                     then co else ''*'')"
  by (simp add: cors_deny_origin_def cors_allow_origin_def Let_def update_conv' truthy_def
      split: option.split)

text \<open>
  The values the calculator computes are valid header values when the policy configures
  none: they are constants and values read from the request's headers.
\<close>

lemma values_valid_update:
  "values_valid h \<Longrightarrow> valid_header_value (normalize_value v) \<Longrightarrow>
     values_valid (AList.update k v h)"
  by (induction h) (auto simp: values_valid_def)

lemma constants_valid:
  "valid_header_value (normalize_value ''*'')"
  "valid_header_value (normalize_value ''null'')"
  "valid_header_value (normalize_value ''true'')"
  "valid_header_value (normalize_value ''Origin'')"
  "valid_header_value (normalize_value ''Access-Control-Request-Headers'')"
  "valid_header_value (normalize_value ''GraphQL Yoga'')"
  by (simp_all add: valid_header_value_def normalize_value_def is_http_whitespace_def)

lemma values_valid_allow_origin: "values_valid (cors_allow_origin request)"
proof (cases "Headers_get (req_headers request) ''origin''")
  case None
  then show ?thesis
    by (simp add: cors_allow_origin_def truthy_def values_valid_def constants_valid)
next
  case (Some co)
  then show ?thesis
    using request_header_valid [OF Some]
    by (simp add: cors_allow_origin_def truthy_def Let_def values_valid_def constants_valid)
qed

lemma values_valid_deny_origin:
  "values_valid h \<Longrightarrow> values_valid (cors_deny_origin request c h)"
  by (simp add: cors_deny_origin_def values_valid_update constants_valid split: option.split)

lemma values_valid_vary_origin: "values_valid h \<Longrightarrow> values_valid (cors_vary_origin h)"
  by (simp add: cors_vary_origin_def values_valid_update constants_valid)

lemma values_valid_allow_methods:
  assumes "values_valid h" and "Option.bind c methods = None"
  shows "values_valid (cors_allow_methods request c h)"
proof (cases "Headers_get (req_headers request) ''access-control-request-method''")
  case None
  then show ?thesis using assms by (simp add: cors_allow_methods_def has_length_def truthy_def)
next
  case (Some m)
  then show ?thesis
    using assms request_header_valid [OF Some]
    by (simp add: cors_allow_methods_def has_length_def truthy_def Let_def values_valid_update)
qed

lemma values_valid_allow_headers:
  assumes "values_valid h" and "Option.bind c allowedHeaders = None"
  shows "values_valid (cors_allow_headers request c h)"
proof (cases "Headers_get (req_headers request) ''access-control-request-headers''")
  case None
  then show ?thesis using assms by (simp add: cors_allow_headers_def has_length_def truthy_def)
next
  case (Some v)
  have "values_valid (AList.update ''Vary'' ''Access-Control-Request-Headers''
          (AList.update ''Access-Control-Allow-Headers'' v h))"
    using assms(1) request_header_valid [OF Some]
    by (simp add: values_valid_update constants_valid)
  then show ?thesis
    using assms Some
    by (simp add: cors_allow_headers_def has_length_def truthy_def Let_def)
qed

lemma values_valid_allow_credentials:
  "values_valid h \<Longrightarrow> values_valid (cors_allow_credentials c h)"
  by (simp add: cors_allow_credentials_def values_valid_update constants_valid
      split: option.split)

lemma values_valid_getCORSResponseHeaders:
  assumes "f request serverContext = Inr corsOptions"
      and "Option.bind corsOptions methods = None"
      and "Option.bind corsOptions allowedHeaders = None"
      and "Option.bind corsOptions exposedHeaders = None"
      and "Option.bind corsOptions maxAge = None"
  shows "\<exists>h. getCORSResponseHeaders request serverContext f = Inr h \<and> values_valid h"
  using assms
  by (simp add: getCORSResponseHeaders_def cors_max_age_def cors_expose_headers_def
      values_valid_update constants_valid values_valid_allow_credentials
      values_valid_allow_headers values_valid_allow_methods values_valid_vary_origin
      values_valid_deny_origin values_valid_allow_origin)

text \<open>The preflight answer: the constructor accepts the computed headers when they are valid.\<close>

lemma new_Response_preflight:
  assumes "wf_record cors_header_names h" and "values_valid h"
  shows "new_Response BodyNull
           \<lparr> init_status = Some 204, init_statusText = None, init_headers = Some h \<rparr>
         = Inr \<lparr> res_body = BodyNull, res_status = 204, res_statusText = [],
                 res_headers = map (\<lambda>kv. (fst kv, normalize_value (snd kv))) h \<rparr>"
proof -
  have "list_all (\<lambda>kv. valid_header_name (fst kv) \<and> valid_header_value (normalize_value (snd kv))) h"
    using assms cors_names_valid by (auto simp: wf_record_def values_valid_def list_all_iff)
  then show ?thesis
    by (simp add: new_Response_def new_Headers_def valid_statusText_def is_null_body_def)
qed

lemma Headers_get_normalized:
  assumes "getCORSResponseHeaders request serverContext f = Inr h"
  shows "Headers_get (map (\<lambda>kv. (fst kv, normalize_value (snd kv))) h)
           ''Access-Control-Allow-Origin''
         = map_option normalize_value (map_of h ''Access-Control-Allow-Origin'')"
proof -
  let ?h = "map (\<lambda>kv. (fst kv, normalize_value (snd kv))) h"
  have wf: "wf_record cors_header_names h" using assms by (rule wf_getCORSResponseHeaders)
  have fst: "map fst ?h = map fst h" by (simp add: comp_def)
  have "Headers_get ?h ''Access-Control-Allow-Origin'' = map_of ?h ''Access-Control-Allow-Origin''"
    using wf lower_allow_origin_unique fst
    by (intro Headers_get_map_of) (auto simp: wf_record_def simp del: map_map)
  also have "\<dots> = map_option normalize_value (map_of h ''Access-Control-Allow-Origin'')"
    by (induction h) auto
  finally show ?thesis .
qed

text \<open>
  C4, as the code has it. For every \<^verbatim>\<open>OPTIONS\<close> request whose \<^verbatim>\<open>Origin\<close> header is
  \<^verbatim>\<open>http://a.test\<close>, the CORS plugin ends the response with status 204. Under the
  policy \<^verbatim>\<open>{origin: ["http://a.test"]}\<close> the response's
  \<^verbatim>\<open>Access-Control-Allow-Origin\<close> is the star, and the request's origin only when the
  request also carries a non-empty \<^verbatim>\<open>cookies\<close> header; under the policy
  \<^verbatim>\<open>{origin: ["http://b.test"]}\<close> it is \<^verbatim>\<open>null\<close>.
\<close>

theorem useCORS_preflight_allow_origin:
  assumes "toUpperCase (req_method request) = ''OPTIONS''"
      and "Headers_get (req_headers request) ''origin'' = Some ''http://a.test''"
  shows "(\<exists>r. response_of_calls
                (endResponse_calls
                   (useCORS_onRequest (origin_policy [''http://a.test'']) request serverContext))
              = Some r
            \<and> res_status r = 204
            \<and> Headers_get (res_headers r) ''Access-Control-Allow-Origin''
                = Some (if truthy (Headers_get (req_headers request) ''cookies'')
                        then ''http://a.test'' else ''*''))
       \<and> (\<exists>r. response_of_calls
                (endResponse_calls
                   (useCORS_onRequest (origin_policy [''http://b.test'']) request serverContext))
              = Some r
            \<and> res_status r = 204
            \<and> Headers_get (res_headers r) ''Access-Control-Allow-Origin'' = Some ''null'')"
proof -
  have main: "\<exists>r. response_of_calls
                (endResponse_calls (useCORS_onRequest (origin_policy og) request serverContext))
              = Some r
            \<and> res_status r = 204
            \<and> Headers_get (res_headers r) ''Access-Control-Allow-Origin''
                = map_option normalize_value
                   (map_of (cors_deny_origin request
                     (Some (no_CORSFields\<lparr> origin := Some (OriginList og) \<rparr>))
                     (cors_allow_origin request))
                    ''Access-Control-Allow-Origin'')" for og
  proof -
    let ?f = "corsOptionsFactory_of (origin_policy og)"
    have f: "?f request serverContext
               = Inr (Some (no_CORSFields\<lparr> origin := Some (OriginList og) \<rparr>))"
      by (simp add: corsOptionsFactory_of_def origin_policy_def)
    then obtain h where h: "getCORSResponseHeaders request serverContext ?f = Inr h"
      and valid: "values_valid h"
      using values_valid_getCORSResponseHeaders [of ?f request serverContext, OF f]
      by (auto simp: no_CORSFields_def)
    have built: "new_Response BodyNull
           \<lparr> init_status = Some 204, init_statusText = None, init_headers = Some h \<rparr>
         = Inr \<lparr> res_body = BodyNull, res_status = 204, res_statusText = [],
                 res_headers = map (\<lambda>kv. (fst kv, normalize_value (snd kv))) h \<rparr>"
      using wf_getCORSResponseHeaders [OF h] valid by (rule new_Response_preflight)
    have "Headers_get (map (\<lambda>kv. (fst kv, normalize_value (snd kv))) h)
            ''Access-Control-Allow-Origin'' =
        map_option normalize_value
          (map_of (cors_deny_origin request
                  (Some (no_CORSFields\<lparr> origin := Some (OriginList og) \<rparr>))
                  (cors_allow_origin request))
          ''Access-Control-Allow-Origin'')"
      using Headers_get_normalized [OF h] allow_origin_of_getCORSResponseHeaders [OF h f]
      by simp
    then show ?thesis
      using assms(1) h built
      by (simp add: useCORS_onRequest_def Let_def response_of_calls_single
          endResponse_last_simps)
  qed
  have a: "\<not> origin_denies
               (Some (no_CORSFields\<lparr> origin := Some (OriginList [''http://a.test'']) \<rparr>))
               ''http://a.test''"
    by (simp add: origin_denies_def no_CORSFields_def origin_length_def origin_includes_def)
  have b: "origin_denies
             (Some (no_CORSFields\<lparr> origin := Some (OriginList [''http://b.test'']) \<rparr>))
             ''http://a.test''"
    by (simp add: origin_denies_def no_CORSFields_def origin_length_def origin_includes_def)
  show ?thesis
    using main [of "[''http://a.test'']"] main [of "[''http://b.test'']"] a b assms(2)
    by (cases "truthy (Headers_get (req_headers request) ''cookies'')")
       (simp_all add: allow_origin_value normalize_value_def is_http_whitespace_def)
qed

theorem useCORS_preflight_allow_origin_witness:
  "toUpperCase (req_method (preflight [(''Origin'', ''http://a.test'')])) = ''OPTIONS''
   \<and> Headers_get (req_headers (preflight [(''Origin'', ''http://a.test'')])) ''origin''
       = Some ''http://a.test''
   \<and> (\<exists>r. response_of_calls
             (endResponse_calls
                (useCORS_onRequest (origin_policy [''http://a.test''])
                   (preflight [(''Origin'', ''http://a.test'')]) None))
           = Some r
         \<and> res_status r = 204
         \<and> Headers_get (res_headers r) ''Access-Control-Allow-Origin'' = Some ''*'')
   \<and> (\<exists>r. response_of_calls
             (endResponse_calls
                (useCORS_onRequest (origin_policy [''http://b.test''])
                   (preflight [(''Origin'', ''http://a.test'')]) None))
           = Some r
         \<and> res_status r = 204
         \<and> Headers_get (res_headers r) ''Access-Control-Allow-Origin'' = Some ''null'')"
proof -
  have m: "toUpperCase (req_method (preflight [(''Origin'', ''http://a.test'')])) = ''OPTIONS''"
    by (simp add: preflight_def toUpperCase_def toUpperCase_char_def)
  have o: "Headers_get (req_headers (preflight [(''Origin'', ''http://a.test'')])) ''origin''
             = Some ''http://a.test''"
    by (simp add: preflight_def lower_defs header_defs)
  have c: "\<not> truthy (Headers_get (req_headers (preflight [(''Origin'', ''http://a.test'')]))
                      ''cookies'')"
    by (simp add: preflight_def lower_defs header_defs truthy_def)
  show ?thesis
    using useCORS_preflight_allow_origin [OF m o, of None] m o c by simp
qed

text \<open>
  The claim as the spec states it fails at the request that carries the
  \<^verbatim>\<open>Origin\<close> header and nothing else: under the policy that lists
  \<^verbatim>\<open>http://a.test\<close> the preflight is answered with status 204 and
  \<^verbatim>\<open>Access-Control-Allow-Origin: *\<close>, not with the origin.
\<close>

theorem useCORS_preflight_allow_origin_counterexample:
  "response_of_calls
     (endResponse_calls
        (useCORS_onRequest (origin_policy [''http://a.test''])
           (preflight [(''Origin'', ''http://a.test'')]) None))
     = Some \<lparr> res_body = BodyNull, res_status = 204, res_statusText = [],
              res_headers = [(''Access-Control-Allow-Origin'', ''*''),
                             (''Server'', ''GraphQL Yoga'')] \<rparr>
   \<and> Headers_get [(''Access-Control-Allow-Origin'', ''*''), (''Server'', ''GraphQL Yoga'')]
         ''Access-Control-Allow-Origin''
       \<noteq> Some ''http://a.test''"
proof -
  have h: "getCORSResponseHeaders (preflight [(''Origin'', ''http://a.test'')]) None
             (corsOptionsFactory_of (origin_policy [''http://a.test'']))
           = Inr [(''Access-Control-Allow-Origin'', ''*''), (''Server'', ''GraphQL Yoga'')]"
    by (simp add: cors_defs lower_defs header_defs preflight_def origin_policy_def)
  have built: "new_Response BodyNull
           \<lparr> init_status = Some 204, init_statusText = None,
             init_headers = Some [(''Access-Control-Allow-Origin'', ''*''),
                                  (''Server'', ''GraphQL Yoga'')] \<rparr>
         = Inr \<lparr> res_body = BodyNull, res_status = 204, res_statusText = [],
                 res_headers = [(''Access-Control-Allow-Origin'', ''*''),
                                (''Server'', ''GraphQL Yoga'')] \<rparr>"
    by (simp add: response_defs)
  have m: "toUpperCase (req_method (preflight [(''Origin'', ''http://a.test'')])) = ''OPTIONS''"
    by (simp add: preflight_def toUpperCase_def toUpperCase_char_def)
  have "response_of_calls
     (endResponse_calls
        (useCORS_onRequest (origin_policy [''http://a.test''])
           (preflight [(''Origin'', ''http://a.test'')]) None))
     = Some \<lparr> res_body = BodyNull, res_status = 204, res_statusText = [],
              res_headers = [(''Access-Control-Allow-Origin'', ''*''),
                             (''Server'', ''GraphQL Yoga'')] \<rparr>"
    using m h built
    by (simp add: useCORS_onRequest_def Let_def response_of_calls_single endResponse_last_simps)
  then show ?thesis by (simp add: lower_defs)
qed

section \<open>Properties of the request lifecycle\<close>

lemmas server_defs = new_YogaServer_def YogaServer_plugins_def enableIf_def no_hooks_def
  requestParser_plugin_def useCORS_def useGraphiQL_def useHealthCheck_def
  default_options_def test_collaborators_def echo_collaborators_def cors_not_false_def
  graphiql_not_false_def plain_options_def onRequest_plugin_def onRequestParse_plugin_def

lemmas engine_defs = handleRequest_def handleRequest_try_def handleRequest_parse_def
  handleRequest_execute_def handleRequest_catch_def get_message_def response_of_calls_def
  built_responses_def List.map_filter_simps default_requestParser_def

lemmas hook_defs = useCORS_onRequest_def useGraphiQL_onRequest_def useHealthCheck_onRequest_def
  endResponse_last_def requestPath_of_def endsWith_def truthy_def toUpperCase_def
  toUpperCase_char_def

subsection \<open>The fatal fallback\<close>

lemma handleRequest_catch_not_nullish:
  "\<not> nullish e \<Longrightarrow> handleRequest_catch e = Inr (error_response e)"
  by (cases e; rename_tac v; case_tac v)
    (simp_all add: handleRequest_catch_def new_Response_error_init get_message_def
      error_response_def error_entry_def nullish_def)

lemma handleRequest_catch_nullish:
  "nullish e \<Longrightarrow> \<exists>msg. handleRequest_catch e = Inl (TypeError msg)"
  by (cases e; rename_tac v; case_tac v)
    (auto simp: handleRequest_catch_def get_message_def nullish_def)

text \<open>
  \<^verbatim>\<open>handleRequest\<close> returns a response on every run but those in which the \<^verbatim>\<open>try\<close>
  block throws \<^verbatim>\<open>null\<close> or \<^verbatim>\<open>undefined\<close>; every other thrown value is rendered as
  the response with status 500 and the single-entry \<^verbatim>\<open>errors\<close> list.
\<close>

lemma handleRequest_returns_unless_nullish:
  "(\<exists>response. fst (handleRequest this request serverContext) = Inr response)
   \<or> (\<exists>e. fst (handleRequest_try this request serverContext) = Inl e \<and> nullish e)"
  "fst (handleRequest_try this request serverContext) = Inl e \<Longrightarrow> \<not> nullish e \<Longrightarrow>
     fst (handleRequest this request serverContext) = Inr (error_response e)"
  by (auto simp: handleRequest_def handleRequest_catch_not_nullish split: prod.splits sum.splits)

text \<open>
  C3. The claim: \<^verbatim>\<open>handleRequest\<close> never throws, whatever the hooks do. The code at a
  server made with one plugin whose \<^verbatim>\<open>onRequest\<close> hook rejects with \<^verbatim>\<open>undefined\<close>
  (\<^verbatim>\<open>return Promise.reject()\<close>), on a \<^verbatim>\<open>GET\<close> request: the three built-in hooks and
  the plugin's hook run, the \<^verbatim>\<open>catch\<close> block reads \<^verbatim>\<open>error.message\<close> of
  \<^verbatim>\<open>undefined\<close>, and the TypeError of that read leaves \<^verbatim>\<open>handleRequest\<close>: the
  promise it returned rejects, and no response is produced.
\<close>

theorem handleRequest_throws_on_nullish_rejection:
  "handleRequest
     (new_YogaServer (default_options\<lparr> opt_plugins := [onRequest_plugin rejecting_hook] \<rparr>)
        test_collaborators)
     (get_request ''http://localhost/graphql'') None
   = (Inl (TypeError ''Cannot read properties of undefined''),
      [EvOnRequest 0, EvOnRequest 1, EvOnRequest 2, EvOnRequest 3])"
  by (simp add: server_defs engine_defs hook_defs rejecting_hook_def get_request_def Let_def)

subsection \<open>The early-intercept phase\<close>

lemma onRequest_loop_passes:
  "\<forall>g \<in> set hs. passes g request serverContext \<Longrightarrow>
     onRequest_loop i hs request serverContext dones
       = (Next (dones @ registered_dones i hs request serverContext),
          map EvOnRequest [i..<i + length hs])"
proof (induction hs arbitrary: i dones)
  case Nil
  then show ?case by simp
next
  case (Cons g hs)
  from Cons.prems have g: "passes g request serverContext" by simp
  from Cons.prems have hs: "\<forall>g \<in> set hs. passes g request serverContext" by simp
  obtain res where res: "hook_result (g request serverContext) = Inr res"
    using g by (auto simp: passes_def returns_def split: sum.splits)
  have calls: "endResponse_calls (g request serverContext) = []"
    using g by (simp add: passes_def)
  show ?case
    using res calls Cons.IH [OF hs]
    by (cases res) (simp_all add: response_of_calls_Nil upt_conv_Cons del: upt_Suc)
qed








subsection \<open>The parser-selection phase and the parse step\<close>

lemma onRequestParse_loop_passes:
  "\<forall>g \<in> set hs. parse_passes g serverContext request (snd par) \<Longrightarrow>
     \<exists>pds'. onRequestParse_loop i hs serverContext request par pds
       = (Inr (par, pds'), map EvOnRequestParse [i..<i + length hs])"
proof (induction hs arbitrary: i pds)
  case Nil
  then show ?case by simp
next
  case (Cons g hs)
  from Cons.prems have g: "parse_passes g serverContext request (snd par)" by simp
  from Cons.prems have hs: "\<forall>g \<in> set hs. parse_passes g serverContext request (snd par)" by simp
  obtain res where res: "parse_result (g serverContext request (snd par)) = Inr res"
    using g by (auto simp: parse_passes_def returns_def split: sum.splits)
  have calls: "setRequestParser_calls (g serverContext request (snd par)) = []"
    using g by (simp add: parse_passes_def)
  obtain pds' where "onRequestParse_loop (Suc i) hs serverContext request par
      (case res of None \<Rightarrow> pds | Some d \<Rightarrow> pds @ [(i, d)])
       = (Inr (par, pds'), map EvOnRequestParse [Suc i..<Suc i + length hs])"
    using Cons.IH [OF hs] by blast
  then show ?case
    using res calls by (simp add: Let_def upt_conv_Cons del: upt_Suc)
qed

lemma onRequestParse_loop_append:
  "onRequestParse_loop i (xs @ ys) serverContext request par pds
     = (case onRequestParse_loop i xs serverContext request par pds of
          (Inl e, t) \<Rightarrow> (Inl e, t)
        | (Inr sel, t) \<Rightarrow>
            (let r = onRequestParse_loop (i + length xs) ys serverContext request (fst sel) (snd sel)
             in (fst r, t @ snd r)))"
proof (induction xs arbitrary: i par pds)
  case Nil
  then show ?case by simp
next
  case (Cons g xs)
  show ?case
    by (simp add: Let_def Cons.IH split: sum.splits prod.splits)
qed

lemma onRequestParse_loop_events:
  "filter is_parser_event (snd (onRequestParse_loop i hs serverContext request par pds)) = []"
  by (induction hs arbitrary: i par pds)
     (simp_all add: Let_def is_parser_event_def split: sum.splits)

lemma run_onRequestParseDoneList_events:
  "filter is_parser_event (snd (run_onRequestParseDoneList ds params)) = []"
  by (induction ds arbitrary: params)
     (simp_all add: Let_def is_parser_event_def split: sum.splits)

lemma run_onRequestDoneHooks_events:
  "filter is_parser_event (snd (run_onRequestDoneHooks ds r)) = []"
  by (induction ds arbitrary: r)
     (simp_all add: Let_def is_parser_event_def split: sum.splits)

lemma handleRequest_execute_events:
  "filter is_parser_event (snd (handleRequest_execute this request serverContext dones params)) = []"
  by (simp add: handleRequest_execute_def Let_def run_onRequestDoneHooks_events is_parser_event_def
      split: sum.splits)

lemma handleRequest_parse_selected:
  assumes "fst (onRequestParse_loop 0 (onRequestParseHooks this) serverContext request
             (None, default_requestParser) []) = Inr ((tag, parser), pds)"
  shows "filter is_parser_event (snd (handleRequest_parse this request serverContext dones))
           = [EvRequestParser tag]"
proof -
  obtain t where t: "onRequestParse_loop 0 (onRequestParseHooks this) serverContext request
             (None, default_requestParser) [] = (Inr ((tag, parser), pds), t)"
    using assms by (cases "onRequestParse_loop 0 (onRequestParseHooks this) serverContext request
             (None, default_requestParser) []") simp
  have t0: "filter is_parser_event t = []"
    using onRequestParse_loop_events [of 0 "onRequestParseHooks this" serverContext request
        "(None, default_requestParser)" "[]"] t by simp
  have ev: "is_parser_event (EvRequestParser tag)" by (simp add: is_parser_event_def)
  show ?thesis
  proof (cases "parser request")
    case (Inl e)
    then show ?thesis using t t0 ev by (simp add: handleRequest_parse_def Let_def)
  next
    case (Inr params0)
    obtain res t3 where r3: "run_onRequestParseDoneList pds params0 = (res, t3)"
      by (cases "run_onRequestParseDoneList pds params0")
    have t3: "filter is_parser_event t3 = []"
      using run_onRequestParseDoneList_events [of pds params0] r3 by simp
    show ?thesis
      using t t0 ev Inr r3 t3
      by (cases res) (simp_all add: handleRequest_parse_def Let_def handleRequest_execute_events)
  qed
qed

text \<open>
  The parse step as a function of what the selection loop selected, and the result of
  \<^verbatim>\<open>handleRequest\<close> as a function of the parse step's.
\<close>

lemma onRequestParse_loop_trace:
  "fst (onRequestParse_loop i hs serverContext request par pds) = Inr x \<Longrightarrow>
     snd (onRequestParse_loop i hs serverContext request par pds)
       = map EvOnRequestParse [i..<i + length hs]"
proof (induction hs arbitrary: i par pds)
  case Nil
  then show ?case by simp
next
  case (Cons g hs)
  obtain a b where par: "par = (a, b)" by (cases par)
  show ?case
    using Cons.prems Cons.IH unfolding par
    by (auto simp: Let_def upt_conv_Cons split: sum.splits simp del: upt_Suc)
qed

lemma handleRequest_parse_from:
  assumes "fst (onRequestParse_loop 0 (onRequestParseHooks this) serverContext request
             (None, default_requestParser) []) = Inr ((tag, parser), pds)"
  shows "handleRequest_parse this request serverContext dones
         = (case parser request of
              Inl e \<Rightarrow>
                (Inl e, map EvOnRequestParse [0..<length (onRequestParseHooks this)]
                        @ [EvRequestParser tag])
            | Inr params0 \<Rightarrow>
               (case run_onRequestParseDoneList pds params0 of
                  (Inl e, t3) \<Rightarrow>
                    (Inl e, map EvOnRequestParse [0..<length (onRequestParseHooks this)]
                            @ EvRequestParser tag # t3)
                | (Inr params, t3) \<Rightarrow>
                   (let r = handleRequest_execute this request serverContext dones params
                    in (fst r, map EvOnRequestParse [0..<length (onRequestParseHooks this)]
                               @ EvRequestParser tag # t3 @ snd r))))"
proof -
  have "snd (onRequestParse_loop 0 (onRequestParseHooks this) serverContext request
             (None, default_requestParser) [])
          = map EvOnRequestParse [0..<0 + length (onRequestParseHooks this)]"
    using assms by (rule onRequestParse_loop_trace)
  then have "onRequestParse_loop 0 (onRequestParseHooks this) serverContext request
             (None, default_requestParser) []
          = (Inr ((tag, parser), pds),
             map EvOnRequestParse [0..<length (onRequestParseHooks this)])"
    using assms by (simp add: prod_eq_iff)
  then show ?thesis
    by (simp add: handleRequest_parse_def Let_def split: sum.splits prod.splits)
qed

lemma handleRequest_from_parse:
  assumes "fst (onRequest_loop 0 (onRequestHooks this) request serverContext []) = Next dones"
  shows "handleRequest this request serverContext
         = (case fst (handleRequest_parse this request serverContext dones) of
              Inl e \<Rightarrow> handleRequest_catch e
            | Inr response \<Rightarrow> Inr response,
            snd (onRequest_loop 0 (onRequestHooks this) request serverContext [])
            @ snd (handleRequest_parse this request serverContext dones))"
proof -
  obtain t1 where "onRequest_loop 0 (onRequestHooks this) request serverContext []
                     = (Next dones, t1)"
    using assms by (cases "onRequest_loop 0 (onRequestHooks this) request serverContext []") simp
  then show ?thesis
    by (simp add: handleRequest_def handleRequest_try_def Let_def split: sum.splits prod.splits)
qed

lemma handleRequest_execute_result:
  "fst (handleRequest_execute this request serverContext dones params)
     = (case getEnveloped this (initialContext_of request params serverContext) of
          Inl e \<Rightarrow> Inl e
        | Inr enveloped \<Rightarrow>
           (case processRequest this
                   \<lparr> pr_request = request,
                     pr_query = ctx_get (initialContext_of request params serverContext) ''query'',
                     pr_variables =
                       ctx_get (initialContext_of request params serverContext) ''variables'',
                     pr_operationName =
                       ctx_get (initialContext_of request params serverContext) ''operationName'',
                     pr_enveloped = enveloped \<rparr> of
              Inl e \<Rightarrow> Inl e
            | Inr response \<Rightarrow> fst (run_onRequestDoneHooks dones response)))"
  by (simp add: handleRequest_execute_def processRequest_args_def Let_def split: sum.splits)

text \<open>
  C2. Let the \<^verbatim>\<open>onRequestParse\<close> hooks all return, so that the parse step is reached.
  If \<open>h\<close> is the last hook in registration order that calls \<^verbatim>\<open>setRequestParser\<close>
  (the hooks before it left \<open>current\<close> as the active parser, whoever installed it, and
  the hooks after it install nothing), then the parser selected for the parse step is the
  very function \<open>h\<close> passed in its last call, and it is this function that the lifecycle
  applies to the request, exactly once: what it throws is what the parse step throws, and
  what it returns are the parameters the parse-done hooks receive and, as they leave
  them, the parameters the rest of the lifecycle runs on. If no hook calls
  \<^verbatim>\<open>setRequestParser\<close>, the parser selected and applied, once, is the initial no-op
  parser, which yields the empty object, and the lifecycle runs on from the empty
  parameters. Whenever the early-intercept phase produced no response, the result of the
  parse step and of what follows it is the result of \<^verbatim>\<open>handleRequest\<close>, a throw
  passing through the \<^verbatim>\<open>catch\<close> block.
\<close>

theorem last_setRequestParser_wins:
  "(onRequestParseHooks this = hs1 @ h # hs2
      \<and> fst (onRequestParse_loop 0 hs1 serverContext request (None, default_requestParser) [])
          = Inr ((tag, current), pds)
      \<and> setRequestParser_calls (h serverContext request current) \<noteq> []
      \<and> returns (parse_result (h serverContext request current))
      \<and> (\<forall>g \<in> set hs2. parse_passes g serverContext request
                           (last (setRequestParser_calls (h serverContext request current))))
    \<longrightarrow> (\<exists>pds'. fst (onRequestParse_loop 0 (onRequestParseHooks this) serverContext request
                        (None, default_requestParser) [])
                 = Inr ((Some (length hs1),
                         last (setRequestParser_calls (h serverContext request current))), pds')
              \<and> handleRequest_parse this request serverContext dones
                 = (case last (setRequestParser_calls (h serverContext request current)) request of
                      Inl e \<Rightarrow>
                        (Inl e, map EvOnRequestParse [0..<length (onRequestParseHooks this)]
                                @ [EvRequestParser (Some (length hs1))])
                    | Inr params0 \<Rightarrow>
                       (case run_onRequestParseDoneList pds' params0 of
                          (Inl e, t3) \<Rightarrow>
                            (Inl e, map EvOnRequestParse [0..<length (onRequestParseHooks this)]
                                    @ EvRequestParser (Some (length hs1)) # t3)
                        | (Inr params, t3) \<Rightarrow>
                           (let r = handleRequest_execute this request serverContext dones params
                            in (fst r,
                                map EvOnRequestParse [0..<length (onRequestParseHooks this)]
                                @ EvRequestParser (Some (length hs1)) # t3 @ snd r)))))
        \<and> filter is_parser_event (snd (handleRequest_parse this request serverContext dones))
            = [EvRequestParser (Some (length hs1))])
   \<and> ((\<forall>g \<in> set (onRequestParseHooks this).
          parse_passes g serverContext request default_requestParser)
    \<longrightarrow> (\<exists>pds'. fst (onRequestParse_loop 0 (onRequestParseHooks this) serverContext request
                        (None, default_requestParser) [])
                 = Inr ((None, default_requestParser), pds')
              \<and> handleRequest_parse this request serverContext dones
                 = (case run_onRequestParseDoneList pds' Map.empty of
                      (Inl e, t3) \<Rightarrow>
                        (Inl e, map EvOnRequestParse [0..<length (onRequestParseHooks this)]
                                @ EvRequestParser None # t3)
                    | (Inr params, t3) \<Rightarrow>
                       (let r = handleRequest_execute this request serverContext dones params
                        in (fst r,
                            map EvOnRequestParse [0..<length (onRequestParseHooks this)]
                            @ EvRequestParser None # t3 @ snd r))))
        \<and> filter is_parser_event (snd (handleRequest_parse this request serverContext dones))
            = [EvRequestParser None]
        \<and> default_requestParser request = Inr Map.empty)
   \<and> (fst (onRequest_loop 0 (onRequestHooks this) request serverContext []) = Next dones
    \<longrightarrow> handleRequest this request serverContext
          = (case fst (handleRequest_parse this request serverContext dones) of
               Inl e \<Rightarrow> handleRequest_catch e
             | Inr response \<Rightarrow> Inr response,
             snd (onRequest_loop 0 (onRequestHooks this) request serverContext [])
             @ snd (handleRequest_parse this request serverContext dones)))"
proof (intro conjI impI)
  assume a: "onRequestParseHooks this = hs1 @ h # hs2
      \<and> fst (onRequestParse_loop 0 hs1 serverContext request (None, default_requestParser) [])
          = Inr ((tag, current), pds)
      \<and> setRequestParser_calls (h serverContext request current) \<noteq> []
      \<and> returns (parse_result (h serverContext request current))
      \<and> (\<forall>g \<in> set hs2. parse_passes g serverContext request
                           (last (setRequestParser_calls (h serverContext request current))))"
  let ?p = "last (setRequestParser_calls (h serverContext request current))"
  obtain t1 where t1: "onRequestParse_loop 0 hs1 serverContext request (None, default_requestParser) []
       = (Inr ((tag, current), pds), t1)"
    using a by (cases "onRequestParse_loop 0 hs1 serverContext request (None, default_requestParser) []") simp
  obtain res where res: "parse_result (h serverContext request current) = Inr res"
    using a by (auto simp: returns_def split: sum.splits)
  from a have later: "\<forall>g \<in> set hs2. parse_passes g serverContext request (snd (Some (length hs1), ?p))"
    by simp
  obtain pds' where rest: "onRequestParse_loop (Suc (length hs1)) hs2 serverContext request
        (Some (length hs1), ?p) (case res of None \<Rightarrow> pds | Some d \<Rightarrow> pds @ [(length hs1, d)])
       = (Inr ((Some (length hs1), ?p), pds'),
          map EvOnRequestParse [Suc (length hs1)..<Suc (length hs1) + length hs2])"
    using onRequestParse_loop_passes [OF later] by blast
  have sel: "fst (onRequestParse_loop 0 (onRequestParseHooks this) serverContext request
                        (None, default_requestParser) [])
                 = Inr ((Some (length hs1), ?p), pds')"
    using a t1 res rest by (simp add: onRequestParse_loop_append Let_def)
  show "\<exists>pds'. fst (onRequestParse_loop 0 (onRequestParseHooks this) serverContext request
                        (None, default_requestParser) [])
                 = Inr ((Some (length hs1), ?p), pds')
              \<and> handleRequest_parse this request serverContext dones
                 = (case ?p request of
                      Inl e \<Rightarrow>
                        (Inl e, map EvOnRequestParse [0..<length (onRequestParseHooks this)]
                                @ [EvRequestParser (Some (length hs1))])
                    | Inr params0 \<Rightarrow>
                       (case run_onRequestParseDoneList pds' params0 of
                          (Inl e, t3) \<Rightarrow>
                            (Inl e, map EvOnRequestParse [0..<length (onRequestParseHooks this)]
                                    @ EvRequestParser (Some (length hs1)) # t3)
                        | (Inr params, t3) \<Rightarrow>
                           (let r = handleRequest_execute this request serverContext dones params
                            in (fst r,
                                map EvOnRequestParse [0..<length (onRequestParseHooks this)]
                                @ EvRequestParser (Some (length hs1)) # t3 @ snd r))))"
    using sel handleRequest_parse_from [OF sel, of dones] by (intro exI [of _ pds']) simp
  show "filter is_parser_event (snd (handleRequest_parse this request serverContext dones))
            = [EvRequestParser (Some (length hs1))]"
    using sel by (rule handleRequest_parse_selected)
next
  assume b: "\<forall>g \<in> set (onRequestParseHooks this).
          parse_passes g serverContext request default_requestParser"
  then have "\<forall>g \<in> set (onRequestParseHooks this).
          parse_passes g serverContext request (snd (None, default_requestParser))" by simp
  from onRequestParse_loop_passes [OF this]
  obtain pds' where sel: "fst (onRequestParse_loop 0 (onRequestParseHooks this) serverContext request
                        (None, default_requestParser) [])
                 = Inr ((None, default_requestParser), pds')"
    by (metis fst_conv)
  show "\<exists>pds'. fst (onRequestParse_loop 0 (onRequestParseHooks this) serverContext request
                        (None, default_requestParser) [])
                 = Inr ((None, default_requestParser), pds')
              \<and> handleRequest_parse this request serverContext dones
                 = (case run_onRequestParseDoneList pds' Map.empty of
                      (Inl e, t3) \<Rightarrow>
                        (Inl e, map EvOnRequestParse [0..<length (onRequestParseHooks this)]
                                @ EvRequestParser None # t3)
                    | (Inr params, t3) \<Rightarrow>
                       (let r = handleRequest_execute this request serverContext dones params
                        in (fst r,
                            map EvOnRequestParse [0..<length (onRequestParseHooks this)]
                            @ EvRequestParser None # t3 @ snd r)))"
    using sel handleRequest_parse_from [OF sel, of dones]
    by (intro exI [of _ pds']) (simp add: default_requestParser_def)
  show "filter is_parser_event (snd (handleRequest_parse this request serverContext dones))
            = [EvRequestParser None]"
    using sel by (rule handleRequest_parse_selected)
next
  show "default_requestParser request = Inr Map.empty"
    by (simp add: default_requestParser_def)
next
  assume "fst (onRequest_loop 0 (onRequestHooks this) request serverContext []) = Next dones"
  then show "handleRequest this request serverContext
          = (case fst (handleRequest_parse this request serverContext dones) of
               Inl e \<Rightarrow> handleRequest_catch e
             | Inr response \<Rightarrow> Inr response,
             snd (onRequest_loop 0 (onRequestHooks this) request serverContext [])
             @ snd (handleRequest_parse this request serverContext dones))"
    by (rule handleRequest_from_parse)
qed


text \<open>
  Instances, with an engine that answers with the query it received: a server whose
  plugins install one parser and then another applies the second plugin's parser (its
  hook is the fifth \<^verbatim>\<open>onRequestParse\<close> hook, after the three built-in ones and the
  first plugin's), and the engine receives the query that parser yields; a server without
  such plugins applies the initial parser, and the engine receives no query.
\<close>

theorem last_setRequestParser_wins_witness:
  "handleRequest
     (new_YogaServer
        (plain_options [onRequestParse_plugin (installing_hook (query_parser ''{a}'')),
                        onRequestParse_plugin (installing_hook (query_parser ''{b}''))])
        echo_collaborators)
     (get_request ''http://localhost/graphql'') None
   = (Inr (echo_response (VStr ''{b}'') (VStr ''{b}'')),
      [EvOnRequest 0, EvOnRequestParse 0, EvOnRequestParse 1, EvOnRequestParse 2,
       EvOnRequestParse 3, EvOnRequestParse 4, EvRequestParser (Some 4), EvGetEnveloped,
       EvProcessRequest])
   \<and> handleRequest (new_YogaServer (plain_options []) echo_collaborators)
       (get_request ''http://localhost/graphql'') None
     = (Inr (echo_response VUndefined VUndefined),
        [EvOnRequest 0, EvOnRequestParse 0, EvOnRequestParse 1, EvOnRequestParse 2,
         EvRequestParser None, EvGetEnveloped, EvProcessRequest])"
proof -
  let ?rq = "get_request ''http://localhost/graphql''"
  let ?srv = "new_YogaServer
                (plain_options [onRequestParse_plugin (installing_hook (query_parser ''{a}'')),
                                onRequestParse_plugin (installing_hook (query_parser ''{b}''))])
                echo_collaborators"
  let ?idle = "new_YogaServer (plain_options []) echo_collaborators"
  let ?hs1 = "[idle_parse_hook, idle_parse_hook, idle_parse_hook,
               installing_hook (query_parser ''{a}'')]"
  let ?h = "installing_hook (query_parser ''{b}'')"
  have hooks: "onRequestParseHooks ?srv = ?hs1 @ ?h # []"
    and hooks': "onRequestParseHooks ?idle = [idle_parse_hook, idle_parse_hook, idle_parse_hook]"
    by (simp_all add: server_defs)
  have before: "fst (onRequestParse_loop 0 ?hs1 None ?rq (None, default_requestParser) [])
                  = Inr ((Some 3, query_parser ''{a}''), [])"
    by (simp add: idle_parse_hook_def installing_hook_def Let_def)
  have sets: "setRequestParser_calls (?h None ?rq (query_parser ''{a}'')) \<noteq> []"
    and ret: "returns (parse_result (?h None ?rq (query_parser ''{a}'')))"
    and lst: "last (setRequestParser_calls (?h None ?rq (query_parser ''{a}''))) = query_parser ''{b}''"
    by (simp_all add: installing_hook_def returns_def)
  have later: "\<forall>g \<in> set []. parse_passes g None ?rq
                  (last (setRequestParser_calls (?h None ?rq (query_parser ''{a}''))))"
    by simp
  have prem: "onRequestParseHooks ?srv = ?hs1 @ ?h # []
      \<and> fst (onRequestParse_loop 0 ?hs1 None ?rq (None, default_requestParser) [])
          = Inr ((Some 3, query_parser ''{a}''), [])
      \<and> setRequestParser_calls (?h None ?rq (query_parser ''{a}'')) \<noteq> []
      \<and> returns (parse_result (?h None ?rq (query_parser ''{a}'')))
      \<and> (\<forall>g \<in> set []. parse_passes g None ?rq
                  (last (setRequestParser_calls (?h None ?rq (query_parser ''{a}'')))))"
    using hooks before sets ret later by (intro conjI)
  have idle: "\<forall>g \<in> set (onRequestParseHooks ?idle).
                parse_passes g None ?rq default_requestParser"
    by (simp add: hooks' parse_passes_def idle_parse_hook_def returns_def)
  have fall: "fst (onRequest_loop 0 (onRequestHooks ?srv) ?rq None []) = Next []"
    and t1: "snd (onRequest_loop 0 (onRequestHooks ?srv) ?rq None []) = [EvOnRequest 0]"
    and fall': "fst (onRequest_loop 0 (onRequestHooks ?idle) ?rq None []) = Next []"
    and t1': "snd (onRequest_loop 0 (onRequestHooks ?idle) ?rq None []) = [EvOnRequest 0]"
    by (simp_all add: server_defs hook_defs get_request_def Let_def response_of_calls_Nil)
  have sel0: "fst (onRequestParse_loop 0 (onRequestParseHooks ?srv) None ?rq
                     (None, default_requestParser) [])
                = Inr ((Some 4, query_parser ''{b}''), [])"
    unfolding hooks by (simp add: idle_parse_hook_def installing_hook_def Let_def)
  have sel0': "fst (onRequestParse_loop 0 (onRequestParseHooks ?idle) None ?rq
                     (None, default_requestParser) [])
                = Inr ((None, default_requestParser), [])"
    unfolding hooks' by (simp add: idle_parse_hook_def Let_def)
  have built: "new_Response (BodyJSON (VObj [(''query'', q), (''context'', c)])) no_init
                 = Inr (echo_response q c)" for q c
    by (simp add: response_defs no_init_def echo_response_def Headers_get_def)
  have exec: "handleRequest_execute ?srv ?rq None [] [''query'' \<mapsto> VStr ''{b}'']
                = (Inr (echo_response (VStr ''{b}'') (VStr ''{b}'')),
                   [EvGetEnveloped, EvProcessRequest])"
    and exec': "handleRequest_execute ?idle ?rq None [] Map.empty
                = (Inr (echo_response VUndefined VUndefined),
                   [EvGetEnveloped, EvProcessRequest])"
    by (simp_all add: handleRequest_execute_def new_YogaServer_def echo_collaborators_def
        initialContext_of_def processRequest_args_def ctx_get_def js_of_def built Let_def)
  have len: "length ?hs1 = 4" by simp
  have five: "map EvOnRequestParse [0..<length (onRequestParseHooks ?srv)]
                = [EvOnRequestParse 0, EvOnRequestParse 1, EvOnRequestParse 2,
                   EvOnRequestParse 3, EvOnRequestParse 4]"
    and three: "map EvOnRequestParse [0..<length (onRequestParseHooks ?idle)]
                = [EvOnRequestParse 0, EvOnRequestParse 1, EvOnRequestParse 2]"
    unfolding hooks hooks' by (simp_all add: upt_rec)
  note T = last_setRequestParser_wins [where this = ?srv and dones = "[]" and request = ?rq
      and serverContext = None]
  note T' = last_setRequestParser_wins [where this = ?idle and dones = "[]" and request = ?rq
      and serverContext = None]
  from T [THEN conjunct1, THEN mp, OF prem]
  obtain pds' where
    "fst (onRequestParse_loop 0 (onRequestParseHooks ?srv) None ?rq
            (None, default_requestParser) [])
       = Inr ((Some (length ?hs1),
               last (setRequestParser_calls (?h None ?rq (query_parser ''{a}'')))), pds')"
    and eq: "handleRequest_parse ?srv ?rq None []
       = (case last (setRequestParser_calls (?h None ?rq (query_parser ''{a}''))) ?rq of
            Inl e \<Rightarrow>
              (Inl e, map EvOnRequestParse [0..<length (onRequestParseHooks ?srv)]
                      @ [EvRequestParser (Some (length ?hs1))])
          | Inr params0 \<Rightarrow>
             (case run_onRequestParseDoneList pds' params0 of
                (Inl e, t3) \<Rightarrow>
                  (Inl e, map EvOnRequestParse [0..<length (onRequestParseHooks ?srv)]
                          @ EvRequestParser (Some (length ?hs1)) # t3)
              | (Inr params, t3) \<Rightarrow>
                 (let r = handleRequest_execute ?srv ?rq None [] params
                  in (fst r,
                      map EvOnRequestParse [0..<length (onRequestParseHooks ?srv)]
                      @ EvRequestParser (Some (length ?hs1)) # t3 @ snd r))))"
    by blast
  then have "pds' = []" using sel0 by simp
  then have parse: "handleRequest_parse ?srv ?rq None []
      = (Inr (echo_response (VStr ''{b}'') (VStr ''{b}'')),
         [EvOnRequestParse 0, EvOnRequestParse 1, EvOnRequestParse 2, EvOnRequestParse 3,
          EvOnRequestParse 4, EvRequestParser (Some 4), EvGetEnveloped, EvProcessRequest])"
    using eq unfolding lst len five by (simp add: query_parser_def exec)
  from T' [THEN conjunct2, THEN conjunct1, THEN mp, OF idle]
  obtain pds'' where
    "fst (onRequestParse_loop 0 (onRequestParseHooks ?idle) None ?rq
            (None, default_requestParser) [])
       = Inr ((None, default_requestParser), pds'')"
    and eq': "handleRequest_parse ?idle ?rq None []
       = (case run_onRequestParseDoneList pds'' Map.empty of
            (Inl e, t3) \<Rightarrow>
              (Inl e, map EvOnRequestParse [0..<length (onRequestParseHooks ?idle)]
                      @ EvRequestParser None # t3)
          | (Inr params, t3) \<Rightarrow>
             (let r = handleRequest_execute ?idle ?rq None [] params
              in (fst r,
                  map EvOnRequestParse [0..<length (onRequestParseHooks ?idle)]
                  @ EvRequestParser None # t3 @ snd r)))"
    by blast
  then have "pds'' = []" using sel0' by simp
  then have parse': "handleRequest_parse ?idle ?rq None []
      = (Inr (echo_response VUndefined VUndefined),
         [EvOnRequestParse 0, EvOnRequestParse 1, EvOnRequestParse 2,
          EvRequestParser None, EvGetEnveloped, EvProcessRequest])"
    using eq' unfolding three by (simp add: exec')
  have A: "handleRequest ?srv ?rq None
      = (Inr (echo_response (VStr ''{b}'') (VStr ''{b}'')),
      [EvOnRequest 0, EvOnRequestParse 0, EvOnRequestParse 1, EvOnRequestParse 2,
       EvOnRequestParse 3, EvOnRequestParse 4, EvRequestParser (Some 4), EvGetEnveloped,
       EvProcessRequest])"
    using T [THEN conjunct2, THEN conjunct2, THEN mp, OF fall] unfolding parse t1 by simp
  have B: "handleRequest ?idle ?rq None
     = (Inr (echo_response VUndefined VUndefined),
        [EvOnRequest 0, EvOnRequestParse 0, EvOnRequestParse 1, EvOnRequestParse 2,
         EvRequestParser None, EvGetEnveloped, EvProcessRequest])"
    using T' [THEN conjunct2, THEN conjunct2, THEN mp, OF fall'] unfolding parse' t1' by simp
  show ?thesis using A B by simp
qed


subsection \<open>The initial context\<close>

text \<open>
  C10. Take a run in which the early-intercept phase produced no response, the selected
  parser returned, and the parse-done hooks returned, leaving the parameters
  \<open>params\<close>. Then \<^verbatim>\<open>handleRequest\<close> hands to \<^verbatim>\<open>getEnveloped\<close> the initial context
  made of the request, these parameters and the server context, and to
  \<^verbatim>\<open>processRequest\<close> the query, the variables and the operation name read from that
  context; its result is what these give, a throw passing through the \<^verbatim>\<open>catch\<close>
  block. The initial context is the \<^verbatim>\<open>request\<close> entry, overwritten by the parameters'
  entries, overwritten by the server context's entries: a name reads what the server
  context holds for it, else what the parameters hold, else (for \<^verbatim>\<open>request\<close>) the
  request. So a server context that holds a value under a name yields that value,
  whatever the parser produced, and without a server context the parser's value is read.
\<close>

theorem initialContext_merge_precedence:
  assumes fall: "fst (onRequest_loop 0 (onRequestHooks this) request serverContext []) = Next dones"
      and sel: "fst (onRequestParse_loop 0 (onRequestParseHooks this) serverContext request
                       (None, default_requestParser) []) = Inr ((tag, parser), pds)"
      and parsed: "parser request = Inr params0"
      and hooks: "fst (run_onRequestParseDoneList pds params0) = Inr params"
  shows "fst (handleRequest this request serverContext)
           = (case getEnveloped this (initialContext_of request params serverContext) of
                Inl e \<Rightarrow> handleRequest_catch e
              | Inr enveloped \<Rightarrow>
                 (case processRequest this
                         \<lparr> pr_request = request,
                           pr_query =
                             ctx_get (initialContext_of request params serverContext) ''query'',
                           pr_variables =
                             ctx_get (initialContext_of request params serverContext)
                               ''variables'',
                           pr_operationName =
                             ctx_get (initialContext_of request params serverContext)
                               ''operationName'',
                           pr_enveloped = enveloped \<rparr> of
                    Inl e \<Rightarrow> handleRequest_catch e
                  | Inr response \<Rightarrow>
                     (case fst (run_onRequestDoneHooks dones response) of
                        Inl e \<Rightarrow> handleRequest_catch e
                      | Inr response' \<Rightarrow> Inr response')))
       \<and> (\<forall>k. initialContext_of request params serverContext k
                = (case Option.bind serverContext (\<lambda>c. c k) of
                     Some v \<Rightarrow> Some v
                   | None \<Rightarrow> (case params k of
                                Some v \<Rightarrow> Some (CValue v)
                              | None \<Rightarrow> if k = ''request'' then Some (CRequest request)
                                         else None)))
       \<and> (\<forall>c k v. serverContext = Some c \<and> c k = Some v
                \<longrightarrow> ctx_get (initialContext_of request params serverContext) k = v)
       \<and> (\<forall>k v. serverContext = None \<and> params k = Some v
                \<longrightarrow> ctx_get (initialContext_of request params serverContext) k = CValue v)"
proof (intro conjI allI impI)
  have parse: "fst (handleRequest_parse this request serverContext dones)
                 = fst (handleRequest_execute this request serverContext dones params)"
    using handleRequest_parse_from [OF sel, of dones] parsed hooks
    by (simp add: Let_def split: prod.splits)
  show "fst (handleRequest this request serverContext)
           = (case getEnveloped this (initialContext_of request params serverContext) of
                Inl e \<Rightarrow> handleRequest_catch e
              | Inr enveloped \<Rightarrow>
                 (case processRequest this
                         \<lparr> pr_request = request,
                           pr_query =
                             ctx_get (initialContext_of request params serverContext) ''query'',
                           pr_variables =
                             ctx_get (initialContext_of request params serverContext)
                               ''variables'',
                           pr_operationName =
                             ctx_get (initialContext_of request params serverContext)
                               ''operationName'',
                           pr_enveloped = enveloped \<rparr> of
                    Inl e \<Rightarrow> handleRequest_catch e
                  | Inr response \<Rightarrow>
                     (case fst (run_onRequestDoneHooks dones response) of
                        Inl e \<Rightarrow> handleRequest_catch e
                      | Inr response' \<Rightarrow> Inr response')))"
    unfolding handleRequest_from_parse [OF fall] parse handleRequest_execute_result
    by (simp split: sum.splits)
next
  fix k
  show "initialContext_of request params serverContext k
                = (case Option.bind serverContext (\<lambda>c. c k) of
                     Some v \<Rightarrow> Some v
                   | None \<Rightarrow> (case params k of
                                Some v \<Rightarrow> Some (CValue v)
                              | None \<Rightarrow> if k = ''request'' then Some (CRequest request)
                                         else None))"
    by (simp add: initialContext_of_def map_add_def split: option.split)
next
  fix c k v
  assume "serverContext = Some c \<and> c k = Some v"
  then show "ctx_get (initialContext_of request params serverContext) k = v"
    by (simp add: initialContext_of_def ctx_get_def map_add_def)
next
  fix k v
  assume "serverContext = None \<and> params k = Some v"
  then show "ctx_get (initialContext_of request params serverContext) k = CValue v"
    by (simp add: initialContext_of_def ctx_get_def map_add_def)
qed

text \<open>
  Instances, with an engine that answers with the query it received and the query of the
  context handed to \<^verbatim>\<open>getEnveloped\<close>: the parser yields the query \<^verbatim>\<open>{parsed}\<close>; with a
  server context that holds the query \<^verbatim>\<open>{context}\<close> the engine receives
  \<^verbatim>\<open>{context}\<close>, and without a server context it receives \<^verbatim>\<open>{parsed}\<close>.
\<close>

theorem initialContext_merge_precedence_witness:
  "fst (handleRequest
          (new_YogaServer
             (plain_options [onRequestParse_plugin (installing_hook (query_parser ''{parsed}''))])
             echo_collaborators)
          (get_request ''http://localhost/graphql'')
          (Some [''query'' \<mapsto> CValue (VStr ''{context}'')]))
     = Inr (echo_response (VStr ''{context}'') (VStr ''{context}''))
   \<and> fst (handleRequest
          (new_YogaServer
             (plain_options [onRequestParse_plugin (installing_hook (query_parser ''{parsed}''))])
             echo_collaborators)
          (get_request ''http://localhost/graphql'') None)
     = Inr (echo_response (VStr ''{parsed}'') (VStr ''{parsed}''))"
proof -
  let ?rq = "get_request ''http://localhost/graphql''"
  let ?srv = "new_YogaServer
             (plain_options [onRequestParse_plugin (installing_hook (query_parser ''{parsed}''))])
             echo_collaborators"
  let ?params = "[''query'' \<mapsto> VStr ''{parsed}'']"
  have fall: "fst (onRequest_loop 0 (onRequestHooks ?srv) ?rq sc []) = Next []" for sc
    by (simp add: server_defs hook_defs get_request_def Let_def response_of_calls_Nil)
  have sel: "fst (onRequestParse_loop 0 (onRequestParseHooks ?srv) sc ?rq
                    (None, default_requestParser) [])
               = Inr ((Some 3, query_parser ''{parsed}''), [])" for sc
    by (simp add: server_defs idle_parse_hook_def installing_hook_def Let_def)
  have parsed: "query_parser ''{parsed}'' ?rq = Inr ?params"
    by (simp add: query_parser_def)
  have hooks: "fst (run_onRequestParseDoneList [] ?params) = Inr ?params"
    by simp
  have built: "new_Response (BodyJSON (VObj [(''query'', q), (''context'', c)])) no_init
                 = Inr (echo_response q c)" for q c
    by (simp add: response_defs no_init_def echo_response_def Headers_get_def)
  have env: "getEnveloped ?srv ctx = Inr (ctx_get ctx ''query'')" for ctx
    by (simp add: new_YogaServer_def echo_collaborators_def)
  have run: "processRequest ?srv args
                = Inr (echo_response (js_of (pr_query args)) (js_of (pr_enveloped args)))" for args
    by (simp add: new_YogaServer_def echo_collaborators_def built)
  have over: "ctx_get (initialContext_of ?rq ?params
                         (Some [''query'' \<mapsto> CValue (VStr ''{context}'')])) ''query''
                = CValue (VStr ''{context}'')"
    and plain: "ctx_get (initialContext_of ?rq ?params None) ''query'' = CValue (VStr ''{parsed}'')"
    by (simp_all add: initialContext_of_def ctx_get_def map_add_def)
  show ?thesis
    using initialContext_merge_precedence [OF fall sel parsed hooks,
            of "Some [''query'' \<mapsto> CValue (VStr ''{context}'')]", THEN conjunct1]
          initialContext_merge_precedence [OF fall sel parsed hooks, of None, THEN conjunct1]
    by (simp add: env run over plain js_of_def)
qed

subsection \<open>A failing request parser\<close>

lemma run_onRequestDoneHooks_intercept:
  "list_all is_intercept_event (snd (run_onRequestDoneHooks ds r))"
  by (induction ds arbitrary: r)
     (simp_all add: Let_def is_intercept_event_def split: sum.splits)

lemma onRequest_loop_intercept:
  "list_all is_intercept_event (snd (onRequest_loop i hs request serverContext ds))"
  by (induction hs arbitrary: i ds)
     (simp_all add: Let_def is_intercept_event_def run_onRequestDoneHooks_intercept
        split: sum.splits option.splits)

lemma onRequestParse_loop_parse_events:
  "list_all (\<lambda>ev. \<exists>i. ev = EvOnRequestParse i)
     (snd (onRequestParse_loop i hs serverContext request par pds))"
  by (induction hs arbitrary: i par pds) (simp_all add: Let_def split: sum.splits)

lemma not_executed_intercept: "list_all is_intercept_event t \<Longrightarrow> EvProcessRequest \<notin> set t"
  by (auto simp: list_all_iff is_intercept_event_def)

lemma not_executed_parse:
  "list_all (\<lambda>ev. \<exists>i. ev = EvOnRequestParse i) t \<Longrightarrow> EvProcessRequest \<notin> set t"
  by (auto simp: list_all_iff)

text \<open>
  C6, as the code has it. Whenever the parse step is reached and the active request
  parser throws (anything but \<^verbatim>\<open>null\<close> or \<^verbatim>\<open>undefined\<close>; a parse error is an error
  object), \<^verbatim>\<open>handleRequest\<close> returns the response of the \<^verbatim>\<open>catch\<close> block: status
  500, and as body the GraphQL-shaped list with the one error. The parser's call is the
  last call of the lifecycle: the request is not processed.
\<close>

theorem parser_failure_yields_500:
  assumes fall: "fst (onRequest_loop 0 (onRequestHooks this) request serverContext []) = Next dones"
      and sel: "fst (onRequestParse_loop 0 (onRequestParseHooks this) serverContext request
                       (None, default_requestParser) []) = Inr ((tag, parser), pds)"
      and fails: "parser request = Inl e"
      and obj: "\<not> nullish e"
  shows "handleRequest this request serverContext
           = (Inr (error_response e),
              snd (onRequest_loop 0 (onRequestHooks this) request serverContext [])
              @ snd (onRequestParse_loop 0 (onRequestParseHooks this) serverContext request
                       (None, default_requestParser) [])
              @ [EvRequestParser tag])
         \<and> res_status (error_response e) = 500
         \<and> res_body (error_response e) = BodyJSON (VObj [(''errors'', VArr [error_entry e])])
         \<and> EvProcessRequest \<notin> set (snd (handleRequest this request serverContext))"
proof -
  obtain t1 where t1: "onRequest_loop 0 (onRequestHooks this) request serverContext []
                         = (Next dones, t1)"
    using fall by (cases "onRequest_loop 0 (onRequestHooks this) request serverContext []") simp
  obtain t2 where t2: "onRequestParse_loop 0 (onRequestParseHooks this) serverContext request
                       (None, default_requestParser) [] = (Inr ((tag, parser), pds), t2)"
    using sel by (cases "onRequestParse_loop 0 (onRequestParseHooks this) serverContext request
                       (None, default_requestParser) []") simp
  have run: "handleRequest this request serverContext
           = (Inr (error_response e), t1 @ t2 @ [EvRequestParser tag])"
    using t1 t2 fails obj
    by (simp add: handleRequest_def handleRequest_try_def handleRequest_parse_def Let_def
        handleRequest_catch_not_nullish)
  have n1: "EvProcessRequest \<notin> set t1"
    using onRequest_loop_intercept [of 0 "onRequestHooks this" request serverContext "[]"] t1
    by (simp add: not_executed_intercept)
  have n2: "EvProcessRequest \<notin> set t2"
    using onRequestParse_loop_parse_events [of 0 "onRequestParseHooks this" serverContext request
        "(None, default_requestParser)" "[]"] t2
    by (simp add: not_executed_parse)
  show ?thesis
    using run t1 t2 n1 n2 by (simp add: error_response_def)
qed

text \<open>
  An instance: a plugin installs a parser that throws an error; the request is answered
  with status 500 and the error's message.
\<close>

theorem parser_failure_yields_500_witness:
  "fst (handleRequest
     (new_YogaServer
        (plain_options [onRequestParse_plugin (installing_hook (failing_parser ''Unexpected token''))])
        test_collaborators)
     (get_request ''http://localhost/graphql?variables=%7B'') None)
   = Inr (error_response (Error ''Unexpected token''))
   \<and> res_status (error_response (Error ''Unexpected token'')) = 500"
proof -
  let ?srv = "new_YogaServer
        (plain_options [onRequestParse_plugin (installing_hook (failing_parser ''Unexpected token''))])
        test_collaborators"
  let ?rq = "get_request ''http://localhost/graphql?variables=%7B''"
  have fall: "fst (onRequest_loop 0 (onRequestHooks ?srv) ?rq None []) = Next []"
    by (simp add: server_defs hook_defs get_request_def Let_def response_of_calls_Nil)
  have sel: "fst (onRequestParse_loop 0 (onRequestParseHooks ?srv) None ?rq
                       (None, default_requestParser) [])
               = Inr ((Some 3, failing_parser ''Unexpected token''), [])"
    by (simp add: server_defs idle_parse_hook_def installing_hook_def Let_def)
  have fails: "failing_parser ''Unexpected token'' ?rq = Inl (Error ''Unexpected token'')"
    by (simp add: failing_parser_def)
  have obj: "\<not> nullish (Error ''Unexpected token'')"
    by (simp add: nullish_def Error_def)
  show ?thesis
    using parser_failure_yields_500 [OF fall sel fails obj] by simp
qed

text \<open>
  The claim as the spec states it, a response with a 4xx status, fails at the same
  input: the status is 500, as for every failure the \<^verbatim>\<open>catch\<close> block renders.
\<close>

theorem parser_failure_yields_500_counterexample:
  "handleRequest
     (new_YogaServer
        (plain_options [onRequestParse_plugin (installing_hook (failing_parser ''Unexpected token''))])
        test_collaborators)
     (get_request ''http://localhost/graphql?variables=%7B'') None
   = (Inr \<lparr> res_body = BodyJSON (VObj [(''errors'',
                 VArr [VObj [(''message'', VStr ''Unexpected token'')]])]),
            res_status = 500, res_statusText = ''Internal Server Error'',
            res_headers = [(''Content-Type'', ''text/plain;charset=UTF-8'')] \<rparr>,
      [EvOnRequest 0, EvOnRequestParse 0, EvOnRequestParse 1, EvOnRequestParse 2,
       EvOnRequestParse 3, EvRequestParser (Some 3)])"
  by (simp add: server_defs engine_defs hook_defs get_request_def installing_hook_def
      failing_parser_def idle_parse_hook_def Let_def new_Response_error_init Error_def)

section \<open>Properties of the health and readiness prober\<close>

lemma filter_header_list_set_other:
  "toLowerCase n \<noteq> toLowerCase k \<Longrightarrow>
     filter (\<lambda>kv. toLowerCase (fst kv) = toLowerCase k) (header_list_set n v hs)
       = filter (\<lambda>kv. toLowerCase (fst kv) = toLowerCase k) hs"
proof (induction hs)
  case Nil
  then show ?case by simp
next
  case (Cons a hs)
  have "filter (\<lambda>kv. toLowerCase (fst kv) = toLowerCase k)
          (filter (\<lambda>kw. toLowerCase (fst kw) \<noteq> toLowerCase n) hs)
        = filter (\<lambda>kv. toLowerCase (fst kv) = toLowerCase k) hs"
    using Cons.prems by (induction hs) auto
  with Cons show ?case by auto
qed

lemma Headers_get_set_other:
  "toLowerCase n \<noteq> toLowerCase k \<Longrightarrow> Headers_get (header_list_set n v hs) k = Headers_get hs k"
  by (simp add: Headers_get_def filter_header_list_set_other)

text \<open>
  Setting headers of valid names and values returns, and leaves a header of another name
  as it was.
\<close>

lemma Headers_set_each_keeps:
  assumes "\<forall>kv \<in> set h. valid_header_name (fst kv) \<and> toLowerCase (fst kv) \<noteq> toLowerCase k"
      and "values_valid h"
  shows "\<exists>hs. Headers_set_each h hs0 = Inr hs \<and> Headers_get hs k = Headers_get hs0 k"
  using assms
proof (induction h arbitrary: hs0)
  case Nil
  then show ?case by simp
next
  case (Cons a h)
  from Cons.prems have a: "Headers_set (fst a) (snd a) hs0
      = Inr (header_list_set (fst a) (normalize_value (snd a)) hs0)"
    by (simp add: Headers_set_def values_valid_def)
  from Cons.prems have "\<forall>kv \<in> set h. valid_header_name (fst kv)
        \<and> toLowerCase (fst kv) \<noteq> toLowerCase k" and "values_valid h"
    by (simp_all add: values_valid_def)
  from Cons.IH [OF this, of "header_list_set (fst a) (normalize_value (snd a)) hs0"]
  obtain hs where "Headers_set_each h (header_list_set (fst a) (normalize_value (snd a)) hs0)
      = Inr hs"
    and "Headers_get hs k
           = Headers_get (header_list_set (fst a) (normalize_value (snd a)) hs0) k"
    by blast
  then show ?case using a Cons.prems(1) by (simp add: Headers_get_set_other)
qed

lemma cors_names_not_yoga_id:
  "\<forall>n \<in> set cors_header_names. toLowerCase n \<noteq> toLowerCase ''x-yoga-id''"
  by (simp add: cors_header_names_def toLowerCase_def toLowerCase_char_def)

lemma useCORS_onRequestDone_keeps:
  assumes "cors_stamps f request serverContext"
  shows "\<exists>hs. useCORS_onRequestDone f request serverContext response
                = Inr (response\<lparr> res_headers := hs \<rparr>)
              \<and> Headers_get hs ''x-yoga-id'' = Headers_get (res_headers response) ''x-yoga-id''"
proof -
  obtain h where h: "getCORSResponseHeaders request serverContext f = Inr h"
    and valid: "values_valid h"
    using assms by (auto simp: cors_stamps_def split: sum.splits)
  have "wf_record cors_header_names h" using h by (rule wf_getCORSResponseHeaders)
  then have "\<forall>kv \<in> set h. valid_header_name (fst kv)
                \<and> toLowerCase (fst kv) \<noteq> toLowerCase ''x-yoga-id''"
    using cors_names_not_yoga_id cors_names_valid by (auto simp: wf_record_def)
  from Headers_set_each_keeps [OF this valid, of "res_headers response"]
  obtain hs where "Headers_set_each h (res_headers response) = Inr hs"
    and "Headers_get hs ''x-yoga-id'' = Headers_get (res_headers response) ''x-yoga-id''"
    by blast
  then show ?thesis
    using h by (intro exI [of _ hs]) (simp add: useCORS_onRequestDone_def)
qed

lemma map_filter_append:
  "List.map_filter f (xs @ ys) = List.map_filter f xs @ List.map_filter f ys"
  by (simp add: List.map_filter_def)

text \<open>The \<^verbatim>\<open>onRequest\<close> hooks of a server: the built-in plugins' first, the health check's last of them.\<close>

lemma builtin_onRequestHooks:
  "onRequestHooks (new_YogaServer options col)
     = (if cors_not_false (opt_cors options) then [useCORS_onRequest (opt_cors options)] else [])
       @ (if graphiql_not_false (opt_graphiql options)
          then [useGraphiQL_onRequest (col_shouldRenderGraphiQL col) (col_renderGraphiQL col)
                  \<lparr> cfg_endpoint = opt_endpoint options, cfg_options = opt_graphiql options,
                    cfg_render = opt_renderGraphiQL options \<rparr>]
          else [])
       @ useHealthCheck_onRequest (server_identity options col) (col_fetch col)
         # List.map_filter onRequest (opt_plugins options @ [no_hooks])"
  by (simp add: new_YogaServer_def YogaServer_plugins_def enableIf_def no_hooks_def
      requestParser_plugin_def useCORS_def useGraphiQL_def useHealthCheck_def
      List.map_filter_simps map_filter_append server_identity_def truthy_def
      split: option.split)

lemma cors_hook_passes:
  "toUpperCase (req_method request) \<noteq> ''OPTIONS'' \<Longrightarrow>
     useCORS_onRequest c request serverContext
       = \<lparr> endResponse_calls = [], fetch_calls = [],
           hook_result = Inr (Some (useCORS_onRequestDone (corsOptionsFactory_of c)
                                      request serverContext)) \<rparr>"
  by (simp add: useCORS_onRequest_def Let_def)

lemma graphiql_hook_passes:
  "(case cfg_endpoint cfg of None \<Rightarrow> True
      | Some ep \<Rightarrow> endsWith (requestPath_of (req_url request)) ep) \<Longrightarrow>
   \<not> sr request \<Longrightarrow>
     useGraphiQL_onRequest sr dr cfg request serverContext
       = \<lparr> endResponse_calls = [], fetch_calls = [], hook_result = Inr None \<rparr>"
  by (simp add: useGraphiQL_onRequest_def Let_def split: option.splits)

text \<open>
  When neither the CORS nor the GraphiQL plugin answers a request, the loop over the
  \<^verbatim>\<open>onRequest\<close> hooks reaches the health check's hook, with the CORS plugin's
  completion hook registered.
\<close>

lemma health_hook_reached:
  assumes cors: "\<not> cors_not_false (opt_cors options)
                 \<or> toUpperCase (req_method request) \<noteq> ''OPTIONS''"
      and graphiql: "\<not> graphiql_not_false (opt_graphiql options)
                 \<or> ((case opt_endpoint options of
                        None \<Rightarrow> True
                      | Some ep \<Rightarrow> endsWith (requestPath_of (req_url request)) ep)
                    \<and> \<not> col_shouldRenderGraphiQL col request)"
  shows "onRequest_loop 0 (onRequestHooks (new_YogaServer options col)) request serverContext []
         = (let r = onRequest_loop (health_position options)
                      (useHealthCheck_onRequest (server_identity options col) (col_fetch col)
                       # List.map_filter onRequest (opt_plugins options @ [no_hooks]))
                      request serverContext (builtin_dones options request serverContext)
            in (fst r, map EvOnRequest [0..<health_position options] @ snd r))"
proof -
  let ?cfg = "\<lparr> cfg_endpoint = opt_endpoint options, cfg_options = opt_graphiql options,
             cfg_render = opt_renderGraphiQL options \<rparr>"
  let ?g = "useGraphiQL_onRequest (col_shouldRenderGraphiQL col) (col_renderGraphiQL col) ?cfg"
  have g: "graphiql_not_false (opt_graphiql options) \<Longrightarrow>
             ?g request serverContext
               = \<lparr> endResponse_calls = [], fetch_calls = [], hook_result = Inr None \<rparr>"
    using graphiql by (intro graphiql_hook_passes) auto
  have c: "cors_not_false (opt_cors options) \<Longrightarrow>
             useCORS_onRequest (opt_cors options) request serverContext
               = \<lparr> endResponse_calls = [], fetch_calls = [],
                   hook_result = Inr (Some (useCORS_onRequestDone
                      (corsOptionsFactory_of (opt_cors options)) request serverContext)) \<rparr>"
    using cors by (intro cors_hook_passes) auto
  show ?thesis
    unfolding builtin_onRequestHooks
    by (cases "cors_not_false (opt_cors options)"; cases "graphiql_not_false (opt_graphiql options)")
       (simp_all add: c g response_of_calls_Nil Let_def health_position_def builtin_dones_def)
qed

text \<open>When the health check's hook then ends the response, the response is returned, stamped.\<close>

lemma health_hook_answers:
  assumes cors: "\<not> cors_not_false (opt_cors options)
                 \<or> (toUpperCase (req_method request) \<noteq> ''OPTIONS''
                    \<and> cors_stamps (corsOptionsFactory_of (opt_cors options)) request serverContext)"
      and graphiql: "\<not> graphiql_not_false (opt_graphiql options)
                 \<or> ((case opt_endpoint options of
                        None \<Rightarrow> True
                      | Some ep \<Rightarrow> endsWith (requestPath_of (req_url request)) ep)
                    \<and> \<not> col_shouldRenderGraphiQL col request)"
      and ends: "response_of_calls
                   (endResponse_calls (useHealthCheck_onRequest (server_identity options col)
                      (col_fetch col) request serverContext)) = Some resp"
      and ret: "hook_result (useHealthCheck_onRequest (server_identity options col)
                      (col_fetch col) request serverContext) = Inr None"
  shows "\<exists>r t. handleRequest (new_YogaServer options col) request serverContext = (Inr r, t)
           \<and> res_status r = res_status resp
           \<and> res_body r = res_body resp
           \<and> Headers_get (res_headers r) ''x-yoga-id''
               = Headers_get (res_headers resp) ''x-yoga-id''
           \<and> list_all is_intercept_event t"
proof -
  have reached: "onRequest_loop 0 (onRequestHooks (new_YogaServer options col)) request
                   serverContext []
         = (let r = onRequest_loop (health_position options)
                      (useHealthCheck_onRequest (server_identity options col) (col_fetch col)
                       # List.map_filter onRequest (opt_plugins options @ [no_hooks]))
                      request serverContext (builtin_dones options request serverContext)
            in (fst r, map EvOnRequest [0..<health_position options] @ snd r))"
    using cors graphiql by (intro health_hook_reached) auto
  have "\<exists>r. fst (run_onRequestDoneHooks (builtin_dones options request serverContext) resp)
               = Inr r
           \<and> res_status r = res_status resp
           \<and> res_body r = res_body resp
           \<and> Headers_get (res_headers r) ''x-yoga-id''
               = Headers_get (res_headers resp) ''x-yoga-id''"
  proof (cases "cors_not_false (opt_cors options)")
    case True
    with cors have "cors_stamps (corsOptionsFactory_of (opt_cors options)) request serverContext"
      by auto
    from useCORS_onRequestDone_keeps [OF this, of resp]
    obtain hs where "useCORS_onRequestDone (corsOptionsFactory_of (opt_cors options))
                       request serverContext resp = Inr (resp\<lparr> res_headers := hs \<rparr>)"
      and "Headers_get hs ''x-yoga-id'' = Headers_get (res_headers resp) ''x-yoga-id''"
      by blast
    then show ?thesis using True by (simp add: builtin_dones_def Let_def)
  next
    case False
    then show ?thesis by (simp add: builtin_dones_def)
  qed
  then obtain r where r: "fst (run_onRequestDoneHooks
                                 (builtin_dones options request serverContext) resp) = Inr r"
    and props: "res_status r = res_status resp" "res_body r = res_body resp"
       "Headers_get (res_headers r) ''x-yoga-id'' = Headers_get (res_headers resp) ''x-yoga-id''"
    by blast
  obtain t where rt: "onRequest_loop 0 (onRequestHooks (new_YogaServer options col)) request
                   serverContext [] = (Return r, t)"
    unfolding reached using ends ret r by (simp add: Let_def)
  have "list_all is_intercept_event t"
    using onRequest_loop_intercept [of 0 "onRequestHooks (new_YogaServer options col)"
        request serverContext "[]"] rt by simp
  moreover have "handleRequest (new_YogaServer options col) request serverContext = (Inr r, t)"
    using rt by (simp add: handleRequest_def handleRequest_try_def)
  ultimately show ?thesis using props by blast
qed

text \<open>When it throws, the \<^verbatim>\<open>catch\<close> block answers, and no later hook was called.\<close>

lemma health_hook_throws:
  assumes cors: "\<not> cors_not_false (opt_cors options)
                 \<or> toUpperCase (req_method request) \<noteq> ''OPTIONS''"
      and graphiql: "\<not> graphiql_not_false (opt_graphiql options)
                 \<or> ((case opt_endpoint options of
                        None \<Rightarrow> True
                      | Some ep \<Rightarrow> endsWith (requestPath_of (req_url request)) ep)
                    \<and> \<not> col_shouldRenderGraphiQL col request)"
      and thr: "hook_result (useHealthCheck_onRequest (server_identity options col)
                      (col_fetch col) request serverContext) = Inl e"
      and obj: "\<not> nullish e"
  shows "handleRequest (new_YogaServer options col) request serverContext
           = (Inr (error_response e), map EvOnRequest [0..<Suc (health_position options)])"
  using health_hook_reached [OF cors graphiql, of serverContext] thr obj
  by (simp add: handleRequest_def handleRequest_try_def Let_def handleRequest_catch_not_nullish)

lemma TypeError_not_nullish: "\<not> nullish (TypeError msg)"
  by (simp add: nullish_def TypeError_def)

lemma new_Response_alive:
  "new_Response (BodyText alive_body)
     \<lparr> init_status = Some 200, init_statusText = None,
       init_headers = Some [(''Content-Type'', ''application/json''), (''x-yoga-id'', i)] \<rparr>
   = (if valid_header_value (normalize_value i)
      then Inr \<lparr> res_body = BodyText alive_body, res_status = 200, res_statusText = [],
                 res_headers = [(''Content-Type'', ''application/json''),
                                (''x-yoga-id'', normalize_value i)] \<rparr>
      else Inl (TypeError ''Invalid header''))"
proof -
  have names: "valid_header_name ''Content-Type''" "valid_header_name ''x-yoga-id''"
    by (simp_all add: valid_header_name_def token_chars_def)
  have ct: "valid_header_value ''application/json''"
    "normalize_value ''application/json'' = ''application/json''"
    by (simp_all add: valid_header_value_def normalize_value_def is_http_whitespace_def)
  have get: "Headers_get [(''Content-Type'', ''application/json''), (''x-yoga-id'', v)]
               ''content-type'' \<noteq> None" for v
    by (simp add: Headers_get_def toLowerCase_def toLowerCase_char_def)
  show ?thesis
    by (simp add: new_Response_def new_Headers_def valid_statusText_def null_body_status_def
        names ct get)
qed

lemma new_Response_ready:
  "new_Response (BodyText ready_body)
     \<lparr> init_status = Some 200, init_statusText = None,
       init_headers = Some [(''Content-Type'', ''application/json'')] \<rparr>
   = Inr \<lparr> res_body = BodyText ready_body, res_status = 200, res_statusText = [],
           res_headers = [(''Content-Type'', ''application/json'')] \<rparr>"
  by (simp add: response_defs Headers_get_def toLowerCase_def toLowerCase_char_def)

lemma health_response_id:
  "Headers_get [(''Content-Type'', ''application/json''), (''x-yoga-id'', i)] ''x-yoga-id'' = Some i"
  by (simp add: Headers_get_def toLowerCase_def toLowerCase_char_def)

text \<open>
  C7, as the code has it. The health check's hook runs after the CORS and the GraphiQL
  plugin's hooks. Take a request whose URL path ends with \<^verbatim>\<open>/health\<close> and that
  neither of them answers first: the CORS plugin is off, or the request is not an
  \<^verbatim>\<open>OPTIONS\<close> request and the plugin can set its headers on the response (its options
  factory returns, and the values it computes are valid header values); the GraphiQL
  plugin is off, or the path ends with the configured endpoint, if one is configured,
  and GraphiQL is not to be rendered for the request. When the server's identity is a
  valid header value, the server responds in the early-intercept phase, calling nothing
  but \<^verbatim>\<open>onRequest\<close> hooks and their completion hooks, with status 200, the fixed
  liveness body, and the header \<^verbatim>\<open>x-yoga-id\<close> carrying the identity, the white space
  around it stripped. When the identity is not a valid header value, the
  \<^verbatim>\<open>Response\<close> constructor throws a TypeError in the hook and the server answers with
  the fallback's response for it, status 500.
\<close>

theorem health_check_responds:
  assumes path: "endsWith (requestPath_of (req_url request)) ''/health''"
      and cors: "\<not> cors_not_false (opt_cors options)
                 \<or> (toUpperCase (req_method request) \<noteq> ''OPTIONS''
                    \<and> cors_stamps (corsOptionsFactory_of (opt_cors options)) request serverContext)"
      and graphiql: "\<not> graphiql_not_false (opt_graphiql options)
                 \<or> ((case opt_endpoint options of
                        None \<Rightarrow> True
                      | Some ep \<Rightarrow> endsWith (requestPath_of (req_url request)) ep)
                    \<and> \<not> col_shouldRenderGraphiQL col request)"
  shows "if valid_header_value (normalize_value (server_identity options col))
         then \<exists>r t. handleRequest (new_YogaServer options col) request serverContext = (Inr r, t)
                \<and> res_status r = 200
                \<and> res_body r = BodyText alive_body
                \<and> Headers_get (res_headers r) ''x-yoga-id''
                    = Some (normalize_value (server_identity options col))
                \<and> list_all is_intercept_event t
         else \<exists>msg. handleRequest (new_YogaServer options col) request serverContext
                      = (Inr (error_response (TypeError msg)),
                         map EvOnRequest [0..<Suc (health_position options)])
                \<and> res_status (error_response (TypeError msg)) = 500"
proof (cases "valid_header_value (normalize_value (server_identity options col))")
  case True
  let ?id = "server_identity options col"
  let ?resp = "\<lparr> res_body = BodyText alive_body, res_status = 200, res_statusText = [],
                 res_headers = [(''Content-Type'', ''application/json''),
                                (''x-yoga-id'', normalize_value ?id)] \<rparr>"
  have ends: "response_of_calls
                (endResponse_calls (useHealthCheck_onRequest ?id (col_fetch col) request
                   serverContext)) = Some ?resp"
    and ret: "hook_result (useHealthCheck_onRequest ?id (col_fetch col) request serverContext)
                = Inr None"
    using path True
    by (simp_all add: useHealthCheck_onRequest_def Let_def endResponse_last_def
        response_of_calls_single new_Response_alive)
  show ?thesis
    using health_hook_answers [OF cors graphiql ends ret] True
    by (simp add: health_response_id)
next
  case False
  have thr: "hook_result (useHealthCheck_onRequest (server_identity options col) (col_fetch col)
                            request serverContext) = Inl (TypeError ''Invalid header'')"
    using path False
    by (simp add: useHealthCheck_onRequest_def Let_def endResponse_last_def new_Response_alive)
  have c: "\<not> cors_not_false (opt_cors options)
                 \<or> toUpperCase (req_method request) \<noteq> ''OPTIONS''"
    using cors by auto
  have "handleRequest (new_YogaServer options col) request serverContext
          = (Inr (error_response (TypeError ''Invalid header'')),
             map EvOnRequest [0..<Suc (health_position options)])"
    using c graphiql thr TypeError_not_nullish by (rule health_hook_throws)
  then have "\<exists>msg. handleRequest (new_YogaServer options col) request serverContext
                      = (Inr (error_response (TypeError msg)),
                         map EvOnRequest [0..<Suc (health_position options)])
                \<and> res_status (error_response (TypeError msg)) = 500"
    by (intro exI [of _ "''Invalid header''"]) (simp add: error_response_def)
  then show ?thesis using False by simp
qed

text \<open>
  Instances: the server made with no options answers \<^verbatim>\<open>GET /health\<close> with its
  identity \<^verbatim>\<open>yoga\<close>; a server whose identity is written with spaces around it answers
  with the identity stripped of them.
\<close>

theorem health_check_responds_witness:
  "(\<exists>r t. handleRequest (new_YogaServer default_options test_collaborators)
            (get_request ''http://localhost/health?probe=1'') None = (Inr r, t)
         \<and> res_status r = 200
         \<and> res_body r = BodyText alive_body
         \<and> Headers_get (res_headers r) ''x-yoga-id'' = Some ''yoga''
         \<and> list_all is_intercept_event t)
   \<and> (\<exists>r t. handleRequest
              (new_YogaServer (default_options\<lparr> opt_id := Some '' yoga '' \<rparr>) test_collaborators)
              (get_request ''http://localhost/health?probe=1'') None = (Inr r, t)
         \<and> res_status r = 200
         \<and> res_body r = BodyText alive_body
         \<and> Headers_get (res_headers r) ''x-yoga-id'' = Some ''yoga''
         \<and> list_all is_intercept_event t)"
proof -
  let ?rq = "get_request ''http://localhost/health?probe=1''"
  let ?spaced = "default_options\<lparr> opt_id := Some '' yoga '' \<rparr>"
  have path: "endsWith (requestPath_of (req_url ?rq)) ''/health''"
    by (simp add: get_request_def requestPath_of_def endsWith_def)
  have h: "getCORSResponseHeaders ?rq None (corsOptionsFactory_of None)
             = Inr [(''Access-Control-Allow-Origin'', ''*''), (''Server'', ''GraphQL Yoga'')]"
    by (simp add: cors_defs lower_defs header_defs get_request_def)
  have stamps: "cors_stamps (corsOptionsFactory_of None) ?rq None"
    unfolding cors_stamps_def h
    by (simp add: values_valid_def valid_header_value_def normalize_value_def
        is_http_whitespace_def)
  have m: "toUpperCase (req_method ?rq) \<noteq> ''OPTIONS''"
    by (simp add: get_request_def toUpperCase_def toUpperCase_char_def)
  have cors: "\<not> cors_not_false (opt_cors default_options)
                 \<or> (toUpperCase (req_method ?rq) \<noteq> ''OPTIONS''
                    \<and> cors_stamps (corsOptionsFactory_of (opt_cors default_options)) ?rq None)"
    and cors': "\<not> cors_not_false (opt_cors ?spaced)
                 \<or> (toUpperCase (req_method ?rq) \<noteq> ''OPTIONS''
                    \<and> cors_stamps (corsOptionsFactory_of (opt_cors ?spaced)) ?rq None)"
    using stamps m by (simp_all add: default_options_def)
  have graphiql: "\<not> graphiql_not_false (opt_graphiql default_options)
                 \<or> ((case opt_endpoint default_options of
                        None \<Rightarrow> True
                      | Some ep \<Rightarrow> endsWith (requestPath_of (req_url ?rq)) ep)
                    \<and> \<not> col_shouldRenderGraphiQL test_collaborators ?rq)"
    and graphiql': "\<not> graphiql_not_false (opt_graphiql ?spaced)
                 \<or> ((case opt_endpoint ?spaced of
                        None \<Rightarrow> True
                      | Some ep \<Rightarrow> endsWith (requestPath_of (req_url ?rq)) ep)
                    \<and> \<not> col_shouldRenderGraphiQL test_collaborators ?rq)"
    by (simp_all add: default_options_def test_collaborators_def)
  have ident: "server_identity default_options test_collaborators = ''yoga''"
    and ident': "server_identity ?spaced test_collaborators = '' yoga ''"
    by (simp_all add: server_identity_def default_options_def)
  have norm: "normalize_value ''yoga'' = ''yoga''" "normalize_value '' yoga '' = ''yoga''"
    "valid_header_value ''yoga''"
    by (simp_all add: normalize_value_def is_http_whitespace_def valid_header_value_def)
  show ?thesis
    using health_check_responds [OF path cors graphiql]
          health_check_responds [OF path cors' graphiql']
    unfolding ident ident' by (simp add: norm)
qed

text \<open>
  The claim as the spec states it, for every request whose path ends with
  \<^verbatim>\<open>/health\<close>, fails at the \<^verbatim>\<open>OPTIONS\<close> request to that path on the server made
  with no options: the CORS plugin's hook comes first and answers it as a preflight,
  with status 204 and no body; the health check's hook is never called.
\<close>

theorem health_check_responds_counterexample:
  "handleRequest (new_YogaServer default_options test_collaborators)
     (options_request ''http://localhost/health'') None
   = (Inr \<lparr> res_body = BodyNull, res_status = 204, res_statusText = [],
            res_headers = [(''Access-Control-Allow-Origin'', ''*''),
                           (''Server'', ''GraphQL Yoga'')] \<rparr>,
      [EvOnRequest 0])"
proof -
  have h: "getCORSResponseHeaders (options_request ''http://localhost/health'') None
             (corsOptionsFactory_of None)
           = Inr [(''Access-Control-Allow-Origin'', ''*''), (''Server'', ''GraphQL Yoga'')]"
    by (simp add: cors_defs lower_defs header_defs options_request_def)
  have built: "new_Response BodyNull
           \<lparr> init_status = Some 204, init_statusText = None,
             init_headers = Some [(''Access-Control-Allow-Origin'', ''*''),
                                  (''Server'', ''GraphQL Yoga'')] \<rparr>
         = Inr \<lparr> res_body = BodyNull, res_status = 204, res_statusText = [],
                 res_headers = [(''Access-Control-Allow-Origin'', ''*''),
                                (''Server'', ''GraphQL Yoga'')] \<rparr>"
    by (simp add: response_defs)
  have hook: "useCORS_onRequest None (options_request ''http://localhost/health'') None
        = endResponse_last BodyNull
            \<lparr> init_status = Some 204, init_statusText = None,
              init_headers = Some [(''Access-Control-Allow-Origin'', ''*''),
                                   (''Server'', ''GraphQL Yoga'')] \<rparr> []"
    using h
    by (simp add: useCORS_onRequest_def Let_def options_request_def toUpperCase_def
        toUpperCase_char_def)
  show ?thesis
    by (simp add: handleRequest_def handleRequest_try_def builtin_onRequestHooks
        default_options_def cors_not_false_def hook endResponse_last_def built
        response_of_calls_single)
qed

subsection \<open>The readiness probe\<close>

lemma endsWith_last: "endsWith s suf \<Longrightarrow> suf \<noteq> [] \<Longrightarrow> last s = last suf"
proof -
  assume a: "endsWith s suf" and b: "suf \<noteq> []"
  then have d: "drop (length s - length suf) s = suf" and l: "length suf \<le> length s"
    by (simp_all add: endsWith_def)
  from b l have "length s - length suf < length s" by (cases suf) auto
  then have "last (drop (length s - length suf) s) = last s" by (rule last_drop)
  with d show ?thesis by simp
qed

lemma readiness_not_health:
  "endsWith p ''/readiness'' \<Longrightarrow> \<not> endsWith p ''/health''"
proof
  assume a: "endsWith p ''/readiness''" and b: "endsWith p ''/health''"
  have "last p = last ''/readiness''" using endsWith_last [OF a] by simp
  moreover have "last p = last ''/health''" using endsWith_last [OF b] by simp
  ultimately show False by simp
qed

lemma get_message_error: "get_message j = Inl e \<Longrightarrow> \<exists>msg. e = Error msg"
  by (cases j) (auto simp: get_message_def TypeError_def Error_def)

lemma ready_outcome:
  "endResponse_last (BodyText ready_body)
     \<lparr> init_status = Some 200, init_statusText = None,
       init_headers = Some [(''Content-Type'', ''application/json'')] \<rparr> fetches
   = \<lparr> endResponse_calls =
         [(BodyText ready_body,
           \<lparr> init_status = Some 200, init_statusText = None,
             init_headers = Some [(''Content-Type'', ''application/json'')] \<rparr>)],
       fetch_calls = fetches, hook_result = Inr None \<rparr>"
  by (simp add: endResponse_last_def new_Response_ready)

lemma readiness_hook_unfold:
  assumes path: "endsWith (requestPath_of (req_url request)) ''/readiness''"
  shows "useHealthCheck_onRequest i fetch request serverContext
     = (let target = replace_first ''/readiness'' ''/health'' (req_url request);
            threw = (\<lambda>e. \<lparr> endResponse_calls = [], fetch_calls = [target],
                           hook_result = Inl e \<rparr>)
        in case fetch target of
             Inl msg \<Rightarrow> threw (Error msg)
           | Inr readinessResponse \<Rightarrow>
              (case fr_json readinessResponse of
                 Inl msg \<Rightarrow> threw (Error msg)
               | Inr j \<Rightarrow>
                  (case get_message j of
                     Inl e \<Rightarrow> threw e
                   | Inr message \<Rightarrow>
                       if fr_status readinessResponse = 200
                          \<and> Headers_get (fr_headers readinessResponse) ''x-yoga-id'' = Some i
                          \<and> message = VStr ''alive''
                       then \<lparr> endResponse_calls =
                                [(BodyText ready_body,
                                  \<lparr> init_status = Some 200, init_statusText = None,
                                    init_headers =
                                      Some [(''Content-Type'', ''application/json'')] \<rparr>)],
                              fetch_calls = [target], hook_result = Inr None \<rparr>
                       else threw (Error (''Readiness check failed with status ''
                                            @ nat_toString (fr_status readinessResponse))))))"
  using path readiness_not_health [OF path]
  unfolding useHealthCheck_onRequest_def ready_outcome by (simp add: Let_def)

lemma readiness_hook:
  assumes path: "endsWith (requestPath_of (req_url request)) ''/readiness''"
  shows "fetch_calls (useHealthCheck_onRequest i fetch request serverContext)
           = [replace_first ''/readiness'' ''/health'' (req_url request)]"
    and "round_trip_ok i (fetch (replace_first ''/readiness'' ''/health'' (req_url request))) \<Longrightarrow>
           endResponse_calls (useHealthCheck_onRequest i fetch request serverContext)
             = [(BodyText ready_body,
                 \<lparr> init_status = Some 200, init_statusText = None,
                   init_headers = Some [(''Content-Type'', ''application/json'')] \<rparr>)]
           \<and> hook_result (useHealthCheck_onRequest i fetch request serverContext) = Inr None"
    and "\<not> round_trip_ok i (fetch (replace_first ''/readiness'' ''/health'' (req_url request))) \<Longrightarrow>
           endResponse_calls (useHealthCheck_onRequest i fetch request serverContext) = []
           \<and> (\<exists>msg. hook_result (useHealthCheck_onRequest i fetch request serverContext)
                       = Inl (Error msg))"
proof -
  note unf = readiness_hook_unfold [OF path, of i fetch serverContext]
  show "fetch_calls (useHealthCheck_onRequest i fetch request serverContext)
           = [replace_first ''/readiness'' ''/health'' (req_url request)]"
    unfolding unf by (simp add: Let_def split: sum.splits)
  show "endResponse_calls (useHealthCheck_onRequest i fetch request serverContext)
             = [(BodyText ready_body,
                 \<lparr> init_status = Some 200, init_statusText = None,
                   init_headers = Some [(''Content-Type'', ''application/json'')] \<rparr>)]
           \<and> hook_result (useHealthCheck_onRequest i fetch request serverContext) = Inr None"
    if ok: "round_trip_ok i (fetch (replace_first ''/readiness'' ''/health'' (req_url request)))"
  proof -
    from ok obtain r j where
      "fetch (replace_first ''/readiness'' ''/health'' (req_url request)) = Inr r"
      "fr_json r = Inr j" "get_message j = Inr (VStr ''alive'')"
      "fr_status r = 200" "Headers_get (fr_headers r) ''x-yoga-id'' = Some i"
      by (auto simp: round_trip_ok_def split: sum.splits)
    then show ?thesis unfolding unf by (simp add: Let_def)
  qed
  show "endResponse_calls (useHealthCheck_onRequest i fetch request serverContext) = []
           \<and> (\<exists>msg. hook_result (useHealthCheck_onRequest i fetch request serverContext)
                       = Inl (Error msg))"
    if ko: "\<not> round_trip_ok i (fetch (replace_first ''/readiness'' ''/health'' (req_url request)))"
  proof (cases "fetch (replace_first ''/readiness'' ''/health'' (req_url request))")
    case (Inl msg)
    then have "hook_result (useHealthCheck_onRequest i fetch request serverContext) = Inl (Error msg)"
      and "endResponse_calls (useHealthCheck_onRequest i fetch request serverContext) = []"
      unfolding unf by (simp_all add: Let_def)
    then show ?thesis by blast
  next
    case r: (Inr r)
    show ?thesis
    proof (cases "fr_json r")
      case (Inl msg)
      then have "hook_result (useHealthCheck_onRequest i fetch request serverContext) = Inl (Error msg)"
        and "endResponse_calls (useHealthCheck_onRequest i fetch request serverContext) = []"
        unfolding unf using r by (simp_all add: Let_def)
      then show ?thesis by blast
    next
      case j: (Inr j)
      show ?thesis
      proof (cases "get_message j")
        case (Inl e)
        then obtain msg where e: "e = Error msg" using get_message_error by blast
        have "hook_result (useHealthCheck_onRequest i fetch request serverContext) = Inl (Error msg)"
          and "endResponse_calls (useHealthCheck_onRequest i fetch request serverContext) = []"
          unfolding unf using r j Inl e by (simp_all add: Let_def)
        then show ?thesis by blast
      next
        case (Inr m)
        then have no: "\<not> (fr_status r = 200
                      \<and> Headers_get (fr_headers r) ''x-yoga-id'' = Some i
                      \<and> m = VStr ''alive'')"
          using ko r j by (simp add: round_trip_ok_def)
        have "hook_result (useHealthCheck_onRequest i fetch request serverContext)
                = Inl (Error (''Readiness check failed with status '' @ nat_toString (fr_status r)))"
          and "endResponse_calls (useHealthCheck_onRequest i fetch request serverContext) = []"
          unfolding unf using r j Inr no by (simp_all add: Let_def)
        then show ?thesis by blast
      qed
    qed
  qed
qed

lemma Error_not_nullish: "\<not> nullish (Error msg)"
  by (simp add: nullish_def Error_def)

text \<open>
  C8, as the code has it. The prober's hook is the health check's, and runs after the
  CORS and the GraphiQL plugin's hooks. Take a request whose URL path ends with
  \<^verbatim>\<open>/readiness\<close> and that neither of them answers first (as for the health check).
  The prober issues exactly one outbound fetch, to the request's URL with (the first
  occurrence of) \<^verbatim>\<open>/readiness\<close> replaced by \<^verbatim>\<open>/health\<close>. When that round trip
  succeeds (status 200, an \<^verbatim>\<open>x-yoga-id\<close> header equal to this instance's identity, and
  a JSON body whose message is \<^verbatim>\<open>alive\<close>), the server responds in the early-intercept
  phase with status 200 and the body \<^verbatim>\<open>{ "message": "ready" }\<close>. On any mismatch the
  prober throws an error, no hook after it is called, and the server answers with the
  fallback's response for that error, status 500.
\<close>

theorem readiness_probe:
  assumes path: "endsWith (requestPath_of (req_url request)) ''/readiness''"
      and cors: "\<not> cors_not_false (opt_cors options)
                 \<or> (toUpperCase (req_method request) \<noteq> ''OPTIONS''
                    \<and> cors_stamps (corsOptionsFactory_of (opt_cors options)) request serverContext)"
      and graphiql: "\<not> graphiql_not_false (opt_graphiql options)
                 \<or> ((case opt_endpoint options of
                        None \<Rightarrow> True
                      | Some ep \<Rightarrow> endsWith (requestPath_of (req_url request)) ep)
                    \<and> \<not> col_shouldRenderGraphiQL col request)"
  shows "onRequestHooks (new_YogaServer options col) ! health_position options
           = useHealthCheck_onRequest (server_identity options col) (col_fetch col)
       \<and> fetch_calls (useHealthCheck_onRequest (server_identity options col) (col_fetch col)
                        request serverContext)
           = [replace_first ''/readiness'' ''/health'' (req_url request)]
       \<and> (if round_trip_ok (server_identity options col)
               (col_fetch col (replace_first ''/readiness'' ''/health'' (req_url request)))
          then \<exists>r t. handleRequest (new_YogaServer options col) request serverContext = (Inr r, t)
                 \<and> res_status r = 200
                 \<and> res_body r = BodyText ready_body
                 \<and> list_all is_intercept_event t
          else \<exists>msg. handleRequest (new_YogaServer options col) request serverContext
                       = (Inr (error_response (Error msg)),
                          map EvOnRequest [0..<Suc (health_position options)])
                 \<and> res_status (error_response (Error msg)) = 500)"
proof -
  let ?id = "server_identity options col"
  let ?probe = "useHealthCheck_onRequest ?id (col_fetch col)"
  let ?ok = "round_trip_ok ?id
               (col_fetch col (replace_first ''/readiness'' ''/health'' (req_url request)))"
  have pos: "onRequestHooks (new_YogaServer options col) ! health_position options = ?probe"
    unfolding builtin_onRequestHooks by (simp add: health_position_def)
  have fetches: "fetch_calls (?probe request serverContext)
           = [replace_first ''/readiness'' ''/health'' (req_url request)]"
    using path by (rule readiness_hook(1))
  have c: "\<not> cors_not_false (opt_cors options)
                 \<or> toUpperCase (req_method request) \<noteq> ''OPTIONS''"
    using cors by auto
  have ready: "\<exists>r t. handleRequest (new_YogaServer options col) request serverContext = (Inr r, t)
                 \<and> res_status r = 200
                 \<and> res_body r = BodyText ready_body
                 \<and> list_all is_intercept_event t" if ok: ?ok
  proof -
    let ?resp = "\<lparr> res_body = BodyText ready_body, res_status = 200, res_statusText = [],
                   res_headers = [(''Content-Type'', ''application/json'')] \<rparr>"
    have ends: "response_of_calls (endResponse_calls (?probe request serverContext)) = Some ?resp"
      and ret: "hook_result (?probe request serverContext) = Inr None"
      using readiness_hook(2) [of request ?id "col_fetch col" serverContext, OF path ok]
      by (simp_all add: response_of_calls_single new_Response_ready)
    show ?thesis
      using health_hook_answers [OF cors graphiql ends ret] by auto
  qed
  have unready: "\<exists>msg. handleRequest (new_YogaServer options col) request serverContext
                       = (Inr (error_response (Error msg)),
                          map EvOnRequest [0..<Suc (health_position options)])
                 \<and> res_status (error_response (Error msg)) = 500" if ko: "\<not> ?ok"
  proof -
    obtain msg where thr: "hook_result (?probe request serverContext) = Inl (Error msg)"
      using readiness_hook(3) [of request ?id "col_fetch col" serverContext, OF path ko]
      by blast
    have "handleRequest (new_YogaServer options col) request serverContext
            = (Inr (error_response (Error msg)),
               map EvOnRequest [0..<Suc (health_position options)])"
      using c graphiql thr Error_not_nullish by (rule health_hook_throws)
    then show ?thesis
      by (intro exI [of _ msg]) (simp add: error_response_def)
  qed
  show ?thesis using pos fetches ready unready by simp
qed

text \<open>
  Instances, on the server made with no options: probing a peer that answers with this
  instance's identity, the server responds as ready; probing a peer of another identity,
  it answers with the fallback's response, after the three built-in hooks.
\<close>

theorem readiness_probe_witness:
  "fetch_calls (useHealthCheck_onRequest ''yoga'' (peer_fetch ''yoga'')
                  (get_request ''http://localhost/readiness'') None)
     = [''http://localhost/health'']
   \<and> (\<exists>r t. handleRequest
               (new_YogaServer default_options
                  (test_collaborators\<lparr> col_fetch := peer_fetch ''yoga'' \<rparr>))
               (get_request ''http://localhost/readiness'') None = (Inr r, t)
           \<and> res_status r = 200
           \<and> res_body r = BodyText ready_body
           \<and> list_all is_intercept_event t)
   \<and> (\<exists>msg. handleRequest
               (new_YogaServer default_options
                  (test_collaborators\<lparr> col_fetch := peer_fetch ''other'' \<rparr>))
               (get_request ''http://localhost/readiness'') None
             = (Inr (error_response (Error msg)), [EvOnRequest 0, EvOnRequest 1, EvOnRequest 2]))"
proof -
  let ?rq = "get_request ''http://localhost/readiness''"
  let ?good = "test_collaborators\<lparr> col_fetch := peer_fetch ''yoga'' \<rparr>"
  let ?bad = "test_collaborators\<lparr> col_fetch := peer_fetch ''other'' \<rparr>"
  have path: "endsWith (requestPath_of (req_url ?rq)) ''/readiness''"
    by (simp add: get_request_def requestPath_of_def endsWith_def)
  have target: "replace_first ''/readiness'' ''/health'' (req_url ?rq) = ''http://localhost/health''"
    by (simp add: get_request_def startsWith_def)
  have h: "getCORSResponseHeaders ?rq None (corsOptionsFactory_of None)
             = Inr [(''Access-Control-Allow-Origin'', ''*''), (''Server'', ''GraphQL Yoga'')]"
    by (simp add: cors_defs lower_defs header_defs get_request_def)
  have stamps: "cors_stamps (corsOptionsFactory_of None) ?rq None"
    unfolding cors_stamps_def h
    by (simp add: values_valid_def valid_header_value_def normalize_value_def
        is_http_whitespace_def)
  have m: "toUpperCase (req_method ?rq) \<noteq> ''OPTIONS''"
    by (simp add: get_request_def toUpperCase_def toUpperCase_char_def)
  have cors: "\<not> cors_not_false (opt_cors default_options)
                 \<or> (toUpperCase (req_method ?rq) \<noteq> ''OPTIONS''
                    \<and> cors_stamps (corsOptionsFactory_of (opt_cors default_options)) ?rq None)"
    using stamps m by (simp add: default_options_def)
  have good: "\<not> graphiql_not_false (opt_graphiql default_options)
                 \<or> ((case opt_endpoint default_options of
                        None \<Rightarrow> True
                      | Some ep \<Rightarrow> endsWith (requestPath_of (req_url ?rq)) ep)
                    \<and> \<not> col_shouldRenderGraphiQL ?good ?rq)"
    and bad: "\<not> graphiql_not_false (opt_graphiql default_options)
                 \<or> ((case opt_endpoint default_options of
                        None \<Rightarrow> True
                      | Some ep \<Rightarrow> endsWith (requestPath_of (req_url ?rq)) ep)
                    \<and> \<not> col_shouldRenderGraphiQL ?bad ?rq)"
    by (simp_all add: default_options_def test_collaborators_def)
  have ident: "server_identity default_options ?good = ''yoga''"
    "server_identity default_options ?bad = ''yoga''"
    by (simp_all add: server_identity_def default_options_def)
  have fetch: "col_fetch ?good = peer_fetch ''yoga''" "col_fetch ?bad = peer_fetch ''other''"
    by simp_all
  have ok: "round_trip_ok ''yoga'' (peer_fetch ''yoga'' ''http://localhost/health'')"
    and ko: "\<not> round_trip_ok ''yoga'' (peer_fetch ''other'' ''http://localhost/health'')"
    by (simp_all add: round_trip_ok_def peer_fetch_def fr_headers_def lower_defs header_defs
        get_message_def)
  have pos: "health_position default_options = 2"
    by (simp add: health_position_def default_options_def cors_not_false_def
        graphiql_not_false_def)
  have A: "fetch_calls (useHealthCheck_onRequest ''yoga'' (peer_fetch ''yoga'') ?rq None)
             = [''http://localhost/health'']
           \<and> (\<exists>r t. handleRequest (new_YogaServer default_options ?good) ?rq None = (Inr r, t)
                 \<and> res_status r = 200
                 \<and> res_body r = BodyText ready_body
                 \<and> list_all is_intercept_event t)"
    using readiness_probe [OF path cors good] ok unfolding target ident fetch by simp
  have three: "map EvOnRequest [0..<Suc 2] = [EvOnRequest 0, EvOnRequest 1, EvOnRequest 2]"
    by (simp add: numeral_2_eq_2)
  have B: "\<exists>msg. handleRequest (new_YogaServer default_options ?bad) ?rq None
             = (Inr (error_response (Error msg)),
                [EvOnRequest 0, EvOnRequest 1, EvOnRequest 2])"
    using readiness_probe [OF path cors bad] ko unfolding target ident fetch pos three
    by auto
  show ?thesis using A B by simp
qed

text \<open>
  The claim as the spec states it, for every request whose path ends with
  \<^verbatim>\<open>/readiness\<close>, fails at the \<^verbatim>\<open>OPTIONS\<close> request to that path on the server made
  with no options, although the peer is alive and of this instance's identity: the CORS
  plugin's hook comes first and answers the request as a preflight, with status 204; the
  prober's hook is never called, and no probe is issued.
\<close>

theorem readiness_probe_counterexample:
  "round_trip_ok
     (server_identity default_options (test_collaborators\<lparr> col_fetch := peer_fetch ''yoga'' \<rparr>))
     (peer_fetch ''yoga''
        (replace_first ''/readiness'' ''/health''
           (req_url (options_request ''http://localhost/readiness''))))
   \<and> handleRequest
       (new_YogaServer default_options (test_collaborators\<lparr> col_fetch := peer_fetch ''yoga'' \<rparr>))
       (options_request ''http://localhost/readiness'') None
     = (Inr \<lparr> res_body = BodyNull, res_status = 204, res_statusText = [],
              res_headers = [(''Access-Control-Allow-Origin'', ''*''),
                             (''Server'', ''GraphQL Yoga'')] \<rparr>,
        [EvOnRequest 0])"
proof -
  have ok: "round_trip_ok
     (server_identity default_options (test_collaborators\<lparr> col_fetch := peer_fetch ''yoga'' \<rparr>))
     (peer_fetch ''yoga''
        (replace_first ''/readiness'' ''/health''
           (req_url (options_request ''http://localhost/readiness''))))"
    by (simp add: round_trip_ok_def peer_fetch_def fr_headers_def lower_defs header_defs
        get_message_def server_identity_def default_options_def)
  have h: "getCORSResponseHeaders (options_request ''http://localhost/readiness'') None
             (corsOptionsFactory_of None)
           = Inr [(''Access-Control-Allow-Origin'', ''*''), (''Server'', ''GraphQL Yoga'')]"
    by (simp add: cors_defs lower_defs header_defs options_request_def)
  have built: "new_Response BodyNull
           \<lparr> init_status = Some 204, init_statusText = None,
             init_headers = Some [(''Access-Control-Allow-Origin'', ''*''),
                                  (''Server'', ''GraphQL Yoga'')] \<rparr>
         = Inr \<lparr> res_body = BodyNull, res_status = 204, res_statusText = [],
                 res_headers = [(''Access-Control-Allow-Origin'', ''*''),
                                (''Server'', ''GraphQL Yoga'')] \<rparr>"
    by (simp add: response_defs)
  have hook: "useCORS_onRequest None (options_request ''http://localhost/readiness'') None
        = endResponse_last BodyNull
            \<lparr> init_status = Some 204, init_statusText = None,
              init_headers = Some [(''Access-Control-Allow-Origin'', ''*''),
                                   (''Server'', ''GraphQL Yoga'')] \<rparr> []"
    using h
    by (simp add: useCORS_onRequest_def Let_def options_request_def toUpperCase_def
        toUpperCase_char_def)
  have "handleRequest
       (new_YogaServer default_options (test_collaborators\<lparr> col_fetch := peer_fetch ''yoga'' \<rparr>))
       (options_request ''http://localhost/readiness'') None
     = (Inr \<lparr> res_body = BodyNull, res_status = 204, res_statusText = [],
              res_headers = [(''Access-Control-Allow-Origin'', ''*''),
                             (''Server'', ''GraphQL Yoga'')] \<rparr>,
        [EvOnRequest 0])"
    by (simp add: handleRequest_def handleRequest_try_def builtin_onRequestHooks
        default_options_def cors_not_false_def hook endResponse_last_def built
        response_of_calls_single)
  with ok show ?thesis by simp
qed

section \<open>Properties of the multipart upload decoder\<close>

lemma read_chunks_closed:
  "length acc \<le> lim \<Longrightarrow>
   read_chunks lim which cs acc
     = (if lim < length acc + length (concat cs) then Inl (PayloadTooLargeError which)
        else Inr (acc @ concat cs))"
  by (induction cs arbitrary: acc) auto

lemma decode_part_closed:
  "decode_part limits st p
     = (if headerSize limits < headers_read st + length (part_header p)
        then Inl (PayloadTooLargeError HeaderSize)
        else if part_is_file p
        then (if files limits < Suc (files_read st) then Inl (PayloadTooLargeError Files)
              else if fileSize limits < length (concat (part_chunks p))
              then Inl (PayloadTooLargeError FileSize)
              else Inr (st\<lparr> headers_read := headers_read st + length (part_header p),
                          files_read := Suc (files_read st),
                          dec_uploads := dec_uploads st @ [(part_name p, concat (part_chunks p))] \<rparr>))
        else if fieldSize limits < length (concat (part_chunks p))
        then Inl (PayloadTooLargeError FieldSize)
        else Inr (st\<lparr> headers_read := headers_read st + length (part_header p),
                    dec_fields := dec_fields st @ [(part_name p, concat (part_chunks p))] \<rparr>))"
  by (simp add: decode_part_def Let_def read_chunks_closed)

lemma decode_parts_sound:
  "decode_parts limits st parts = Inl e \<Longrightarrow>
     \<exists>l. e = PayloadTooLargeError l \<and> exceeded_after st limits parts l"
proof (induction parts arbitrary: st)
  case Nil
  then show ?case by simp
next
  case (Cons p ps)
  show ?case
  proof (cases "decode_part limits st p")
    case (Inl e')
    with Cons.prems have e: "e' = e" by simp
    from Inl show ?thesis
      unfolding e decode_part_closed
      by (auto simp: exceeded_after_def split: if_splits intro: exI [of _ HeaderSize]
          exI [of _ Files] exI [of _ FileSize] exI [of _ FieldSize])
  next
    case (Inr st')
    with Cons.prems have "decode_parts limits st' ps = Inl e" by simp
    from Cons.IH [OF this] obtain l where l: "e = PayloadTooLargeError l"
      and ex: "exceeded_after st' limits ps l" by blast
    have "exceeded_after st limits (p # ps) l"
      using ex Inr unfolding decode_part_closed
      by (cases l) (auto simp: exceeded_after_def split: if_splits)
    with l show ?thesis by blast
  qed
qed

lemma decode_parts_complete:
  "decode_parts limits st parts = Inr st' \<Longrightarrow>
   headers_read st \<le> headerSize limits \<Longrightarrow> files_read st \<le> files limits \<Longrightarrow>
     \<not> exceeded_after st limits parts l"
proof (induction parts arbitrary: st)
  case Nil
  then show ?case by (cases l) (simp_all add: exceeded_after_def)
next
  case (Cons p ps)
  from Cons.prems obtain st1 where p: "decode_part limits st p = Inr st1"
    and ps: "decode_parts limits st1 ps = Inr st'"
    by (auto split: sum.splits)
  have inv: "headers_read st1 \<le> headerSize limits" "files_read st1 \<le> files limits"
    using p Cons.prems(2,3) unfolding decode_part_closed by (auto split: if_splits)
  have "\<not> exceeded_after st1 limits ps l" using Cons.IH [OF ps inv] .
  then show ?case
    using p unfolding decode_part_closed
    by (cases l) (auto simp: exceeded_after_def split: if_splits)
qed

lemma exceeded_initially: "exceeded limits parts l = exceeded_after nothing_decoded limits parts l"
  by (cases l) (simp_all add: exceeded_def exceeded_after_def nothing_decoded_def)

lemma decode_parts_abort_append:
  "decode_parts limits st parts = Inl e \<Longrightarrow> decode_parts limits st (parts @ rest) = Inl e"
  by (induction parts arbitrary: st) (auto split: sum.splits)

text \<open>
  C9, on the decoder as the spec describes it. If a multipart body exceeds any of the
  configured limits, the decode ends with a PayloadTooLargeError that names a limit the
  body does exceed, so no parameters, partial or complete, come out of it; and the
  decode is aborted where the limit is hit: whatever parts follow in the stream, the
  outcome is the same.
\<close>

theorem multipart_limit_aborts_decode:
  assumes "exceeded limits parts l0"
  shows "(\<exists>l. decode_multipart limits bind parts = Inl (PayloadTooLargeError l)
             \<and> exceeded limits parts l)
       \<and> decode_multipart limits bind (parts @ rest) = decode_multipart limits bind parts"
proof -
  have "\<not> (\<exists>st'. decode_parts limits nothing_decoded parts = Inr st')"
    using assms decode_parts_complete [of limits nothing_decoded parts _ l0]
    by (auto simp: exceeded_initially nothing_decoded_def)
  then obtain e where e: "decode_parts limits nothing_decoded parts = Inl e"
    by (cases "decode_parts limits nothing_decoded parts") auto
  from decode_parts_sound [OF e] obtain l where "e = PayloadTooLargeError l"
    and "exceeded limits parts l" by (auto simp: exceeded_initially)
  then show ?thesis
    using e decode_parts_abort_append [OF e, of rest]
    by (auto simp: decode_multipart_def)
qed

text \<open>
  An instance: a file of five bytes under a \<^verbatim>\<open>fileSize\<close> of four is rejected, naming
  \<^verbatim>\<open>fileSize\<close>.
\<close>

theorem multipart_limit_aborts_decode_witness:
  "decode_multipart small_limits no_binding upload_parts = Inl (PayloadTooLargeError FileSize)"
proof -
  have ex: "exceeded small_limits upload_parts FileSize"
    by (simp add: exceeded_def small_limits_def upload_parts_def)
  have only: "exceeded small_limits upload_parts l \<Longrightarrow> l = FileSize" for l
    by (cases l) (simp_all add: exceeded_def small_limits_def upload_parts_def)
  show ?thesis
    using multipart_limit_aborts_decode [OF ex, of no_binding "[]"] only by auto
qed

end
